theory Spec2Isabelle
  imports Main "HOL-Library.AList" "HOL-Library.Char_ord" "HOL-Library.List_Lexorder"
begin

section \<open>Type inference by constraint propagation (numba/typeinfer.py)\<close>

text \<open>
  A shallow embedding of the inference engine of \<^verbatim>\<open>numba/typeinfer.py\<close>: the cell
  \<^verbatim>\<open>TypeVar\<close>, the constraint classes, \<^verbatim>\<open>ConstraintNetwork\<close> and the parts of
  \<^verbatim>\<open>TypeInferer\<close> that run during and after propagation. Python objects that are
  mutated in place are passed and returned explicitly; an exception is the value
  \<open>Raise e\<close>, returned together with the state as it was when the exception left the
  function.
\<close>

subsection \<open>Types, signatures and locations\<close>

type_synonym name = string

datatype loc = Loc (filename: string) (line: nat)

datatype pyvalue = PyInt int | PyStr string | PyNone | PyObject string

text \<open>
  Modelled from the spec: the module \<^verbatim>\<open>numba.types\<close> is not part of the sources. The
  shapes are those of the data model of the specification: scalars, \<^verbatim>\<open>Omitted(v)\<close>,
  the two tuple forms (both are \<^verbatim>\<open>BaseTuple\<close>), \<^verbatim>\<open>Pair\<close>, \<^verbatim>\<open>List\<close>, \<^verbatim>\<open>Set\<close>,
  \<^verbatim>\<open>BoundFunction\<close> with its receiver \<^verbatim>\<open>this\<close>, \<^verbatim>\<open>Dispatcher\<close>, \<^verbatim>\<open>RecursiveCall\<close>,
  \<^verbatim>\<open>undefined\<close> and \<^verbatim>\<open>none\<close>; \<open>Other\<close> stands for every further type (iterators,
  arrays, ranges, generators). Equality of types is structural.
\<close>

datatype ty =
    Scalar string
  | none
  | undefined_ty
  | Omitted pyvalue
  | UniTuple ty nat
  | Tuple "ty list"
  | Pair_ty ty ty
  | List_ty ty
  | Set_ty ty
  | BoundFunction string ty
  | Dispatcher string
  | RecursiveCall string string
  | Other string "ty list"

text \<open>\<^verbatim>\<open>isinstance(tp, types.BaseTuple)\<close> and \<^verbatim>\<open>len(tp)\<close> for such a type.\<close>

fun is_BaseTuple :: "ty \<Rightarrow> bool" where
  "is_BaseTuple (UniTuple _ _) = True"
| "is_BaseTuple (Tuple _) = True"
| "is_BaseTuple _ = False"

fun len_ty :: "ty \<Rightarrow> nat" where
  "len_ty (UniTuple _ n) = n"
| "len_ty (Tuple ts) = length ts"
| "len_ty _ = 0"

text \<open>\<^verbatim>\<open>tp.types\<close> of a \<^verbatim>\<open>BaseTuple\<close>: its element types in order.\<close>

fun types_of :: "ty \<Rightarrow> ty list" where
  "types_of (UniTuple t n) = replicate n t"
| "types_of (Tuple ts) = ts"
| "types_of _ = []"

record signature =
  return_type :: ty
  sig_args :: "ty list"
  recvr :: "ty option"
  pysig :: "string option"

text \<open>
  What is called: the type held by the callee variable (\<^verbatim>\<open>CallConstraint\<close>) or the
  operation itself (\<^verbatim>\<open>IntrinsicCallConstraint\<close> passes \<^verbatim>\<open>self.func\<close>, such as
  \<^verbatim>\<open>'getitem'\<close>, directly).
\<close>

datatype callee = Callee_type ty | Callee_op string

subsection \<open>Cells\<close>

record TypeVar =
  var :: name
  type :: "ty option"
  locked :: bool
  define_loc :: "loc option"

text \<open>\<^verbatim>\<open>TypeVar.__init__\<close>\<close>

definition TypeVar_init :: "name \<Rightarrow> TypeVar" where
  "TypeVar_init v = \<lparr>var = v, type = None, locked = False, define_loc = None\<rparr>"


subsection \<open>Constraints\<close>

text \<open>
  One constructor per constraint class, with the fields its \<^verbatim>\<open>__init__\<close> stores. An IR
  variable is represented by its name, the only attribute the engine reads. The attribute
  \<^verbatim>\<open>signature\<close> is \<open>None\<close> while it has not been assigned; \<^verbatim>\<open>CallConstraint\<close> and
  its subclass start with the class attribute \<^verbatim>\<open>signature = None\<close>, that is with
  \<open>Some None\<close>.
\<close>

datatype constraint =
    Propagate (dst: name) (src: name) (loc: loc)
  | ArgConstraint (dst: name) (src: name) (loc: loc)
  | BuildTupleConstraint (target: name) (items: "name list") (loc: loc)
  | BuildListConstraint (target: name) (items: "name list") (loc: loc)
  | BuildSetConstraint (target: name) (items: "name list") (loc: loc)
  | ExhaustIterConstraint (target: name) (count: nat) (iterator: name) (loc: loc)
  | PairFirstConstraint (target: name) (pair: name) (loc: loc)
  | PairSecondConstraint (target: name) (pair: name) (loc: loc)
  | StaticGetItemConstraint (target: name) (val: name) (index: pyvalue)
      (fallback: "constraint option") (loc: loc)
  | CallConstraint (target: name) (func: name) (args: "name list")
      (kws: "(string \<times> name) list") (vararg: "name option") (loc: loc)
      (signature: "signature option option")
  | IntrinsicCallConstraint (target: name) (func: name) (args: "name list")
      (kws: "(string \<times> name) list") (vararg: "name option") (loc: loc)
      (signature: "signature option option")
  | GetAttrConstraint (target: name) (attr: string) (val: name) (loc: loc) (inst_loc: loc)
  | SetItemConstraint (target: name) (index_var: name) (val: name) (loc: loc)
      (signature: "signature option option")
  | StaticSetItemConstraint (target: name) (index: pyvalue) (index_var: name) (val: name)
      (loc: loc) (signature: "signature option option")
  | DelItemConstraint (target: name) (index_var: name) (loc: loc)
      (signature: "signature option option")
  | SetAttrConstraint (target: name) (attr: string) (val: name) (loc: loc)
      (signature: "signature option option")
  | PrintConstraint (args: "name list") (vararg: "name option") (loc: loc)
      (signature: "signature option option")

subsection \<open>Exceptions\<close>

text \<open>
  The exceptions the module raises, with the values its messages are formatted from.
  \<open>Internal_error c e\<close> is the message of \<^verbatim>\<open>ConstraintNetwork.propagate\<close> for a
  constraint \<open>c\<close> that raised \<open>e\<close>: the formatted traceback is represented by the
  exception it prints. \<open>InternalError e\<close> is not raised by this module: it is an
  exception of \<^verbatim>\<open>numba.errors\<close> that an error context manager may raise in place of
  \<open>e\<close>. The arguments of an error context are its format string and the values
  formatted into it.
\<close>

datatype fmt_arg = Fmt_loc loc | Fmt_callee callee | Fmt_str string

datatype errctx = Errctx string "fmt_arg list"

datatype exn =
    TypingError msg "loc option"
  | UntypedAttributeError ty string loc
  | ValueError msg
  | TypeError msg
  | AssertionError
  | AttributeError string
  | UnboundLocalError string
  | InternalError exn
and msg =
    No_conversion ty "ty option" name "loc option"
  | Cannot_unify ty ty name "loc option"
  | No_conversion_lock ty "ty option" name
  | Wrong_tuple_length name nat nat
  | Vararg_not_tuple ty
  | Invalid_usage callee "ty list" "(string \<times> ty) list" string
  | Cannot_resolve_setitem ty ty ty
  | Cannot_resolve_static_setitem ty pyvalue ty
  | Cannot_resolve_delitem ty ty
  | Cannot_resolve_setattr ty string ty
  | Runaway_recursion
  | Cannot_unify_return "ty set"
  | Internal_error constraint exn

datatype 'a outcome = Return 'a | Raise exn

text \<open>
  Modelled from the spec: the module \<^verbatim>\<open>numba.errors\<close> is not part of the sources. The
  specification counts the untyped-attribute error among the typing errors that a pass
  captures as they are: \<^verbatim>\<open>isinstance(e, TypingError)\<close> holds for \<^verbatim>\<open>TypingError\<close> and
  for \<^verbatim>\<open>UntypedAttributeError\<close>, and for no other exception.
\<close>

fun is_TypingError :: "exn \<Rightarrow> bool" where
  "is_TypingError (TypingError _ _) = True"
| "is_TypingError (UntypedAttributeError _ _ _) = True"
| "is_TypingError _ = False"

subsection \<open>The collaborators\<close>

datatype conversion = Conv_exact | Conv_promote | Conv_safe | Conv_unsafe

text \<open>
  A frame of the inference call stack, as far as \<^verbatim>\<open>resolve_call\<close> reads it: its
  \<^verbatim>\<open>typeinfer\<close> is either the inferer that is running, or another one, given by the
  names of its return variables and its cells.
\<close>

datatype frame = This_inferer | Other_inferer "name list" "(name \<times> TypeVar) list"

text \<open>
  Modelled from the spec: the typing context (\<^verbatim>\<open>self.context\<close>) is not part of the
  sources; its functions have the shapes of the specification's section on external
  interfaces (\<open>None\<close> is Python's \<^verbatim>\<open>None\<close>). Four more functions stand for code of
  other modules that the engine calls: \<open>is_precise\<close> (a method of every type),
  \<open>iterator_yield_type\<close> (\<open>Some y\<close> exactly for an instance of \<^verbatim>\<open>types.IterableType\<close>,
  with \<open>y\<close> its \<^verbatim>\<open>iterator_type.yield_type\<close>), \<open>fold_argument_types\<close> (of a dispatcher)
  and \<open>new_error_context\<close> (the context manager of \<^verbatim>\<open>numba.errors\<close>: the exception
  that leaves the block, for the exception that reached it). \<^verbatim>\<open>can_convert\<close> receives
  the cell's \<^verbatim>\<open>type\<close> attribute as it is, hence a \<open>ty option\<close>. The last field,
  \<open>set_order\<close>, belongs to the interpreter and not to the context: it is the order in
  which the elements of a \<^verbatim>\<open>set\<close> of types are iterated, for the elements in the order
  of their insertion. \<^verbatim>\<open>_unify_return_types\<close> unpacks a set into the arguments of
  \<^verbatim>\<open>unify_types\<close> in that order.
\<close>

record typing_context =
  unify_pairs :: "ty \<Rightarrow> ty \<Rightarrow> ty option"
  unify_types :: "ty list \<Rightarrow> ty option"
  can_convert :: "ty \<Rightarrow> ty option \<Rightarrow> conversion option"
  is_precise :: "ty \<Rightarrow> bool"
  resolve_value_type :: "pyvalue \<Rightarrow> ty"
  resolve_function_type :: "callee \<Rightarrow> ty list \<Rightarrow> (string \<times> ty) list \<Rightarrow> signature option"
  resolve_getattr :: "ty \<Rightarrow> string \<Rightarrow> ty option"
  resolve_static_getitem :: "ty \<Rightarrow> pyvalue \<Rightarrow> ty option"
  resolve_setitem :: "ty \<Rightarrow> ty \<Rightarrow> ty \<Rightarrow> signature option"
  resolve_static_setitem :: "ty \<Rightarrow> pyvalue \<Rightarrow> ty \<Rightarrow> signature option"
  resolve_delitem :: "ty \<Rightarrow> ty \<Rightarrow> signature option"
  resolve_setattr :: "ty \<Rightarrow> string \<Rightarrow> ty \<Rightarrow> signature option"
  explain_function_type :: "callee \<Rightarrow> string"
  callstack_match :: "string \<Rightarrow> ty list \<Rightarrow> frame option"
  iterator_yield_type :: "ty \<Rightarrow> ty option"
  fold_argument_types :: "string \<Rightarrow> ty list \<Rightarrow> (string \<times> ty) list \<Rightarrow> string \<times> ty list"
  new_error_context :: "errctx \<Rightarrow> exn \<Rightarrow> exn"
  set_order :: "ty list \<Rightarrow> ty list"

subsection \<open>Operations of a cell\<close>

text \<open>
  \<^verbatim>\<open>TypeVar.add_type\<close>. The first assertion fails on \<^verbatim>\<open>None\<close>. An exception leaves the
  cell as it was: both \<^verbatim>\<open>raise\<close> statements stand before the assignment.
\<close>

definition TypeVar_add_type ::
  "typing_context \<Rightarrow> TypeVar \<Rightarrow> ty option \<Rightarrow> loc option \<Rightarrow> TypeVar \<times> ty option outcome" where
  "TypeVar_add_type ctx self tp l =
     (case tp of
        None \<Rightarrow> (self, Raise AssertionError)
      | Some t \<Rightarrow>
          if locked self then
            (if Some t \<noteq> type self then
               (if can_convert ctx t (type self) = None then
                  (self, Raise (TypingError
                     (No_conversion t (type self) (var self) (define_loc self)) l))
                else (self, Return (type self)))
             else (self, Return (type self)))
          else
            (case type self of
               Some cur \<Rightarrow>
                 (case unify_pairs ctx cur t of
                    None \<Rightarrow>
                      (self, Raise (TypingError
                         (Cannot_unify cur t (var self) (define_loc self)) l))
                  | Some unified \<Rightarrow> (self\<lparr>type := Some unified\<rparr>, Return (Some unified)))
             | None \<Rightarrow> (self\<lparr>type := Some t, define_loc := l\<rparr>, Return (Some t))))"


text \<open>\<^verbatim>\<open>TypeVar.union\<close>: only the \<^verbatim>\<open>type\<close> of the other cell is read.\<close>

definition TypeVar_union ::
  "typing_context \<Rightarrow> TypeVar \<Rightarrow> ty option \<Rightarrow> loc option \<Rightarrow> TypeVar \<times> ty option outcome" where
  "TypeVar_union ctx self other_type l =
     (if other_type \<noteq> None then
        (case TypeVar_add_type ctx self other_type l of
           (self', Raise e) \<Rightarrow> (self', Raise e)
         | (self', Return _) \<Rightarrow> (self', Return (type self')))
      else (self, Return (type self)))"

text \<open>\<^verbatim>\<open>TypeVar.defined\<close>, \<^verbatim>\<open>TypeVar.get\<close> and \<^verbatim>\<open>TypeVar.getone\<close>\<close>

definition defined :: "TypeVar \<Rightarrow> bool" where
  "defined self = (type self \<noteq> None)"

definition get :: "TypeVar \<Rightarrow> ty list" where
  "get self = (case type self of Some t \<Rightarrow> [t] | None \<Rightarrow> [])"

definition getone :: "TypeVar \<Rightarrow> ty outcome" where
  "getone self = (case type self of None \<Rightarrow> Raise AssertionError | Some t \<Rightarrow> Return t)"


subsection \<open>The inferer\<close>

text \<open>
  The fields of \<^verbatim>\<open>TypeInferer\<close> that propagation and the final unification use. The
  cells are an association list in the order of their creation (\<^verbatim>\<open>TypeVarMap\<close> is a
  dictionary, read in sorted order where the order counts). \<open>constraints\<close> is the list
  of \<^verbatim>\<open>ConstraintNetwork\<close>; an entry of \<open>calls\<close> pairs a call instruction with the
  position in that list of the constraint object it shares with the network.
  \<open>return_vars\<close> is what \<^verbatim>\<open>_get_return_vars\<close> computes from the blocks: the names of
  the operands of the \<^verbatim>\<open>Return\<close> terminators.
\<close>

record TypeInferer =
  typevars :: "(name \<times> TypeVar) list"
  constraints :: "constraint list"
  calls :: "(string \<times> nat) list"
  calltypes :: "(string \<times> signature option) list"
  refine_map :: "name \<rightharpoonup> constraint"
  return_vars :: "name list"

text \<open>\<^verbatim>\<open>TypeVarMap.__getitem__\<close>: a name that has no cell gets a fresh one.\<close>

definition TypeVarMap_getitem ::
  "(name \<times> TypeVar) list \<Rightarrow> name \<Rightarrow> (name \<times> TypeVar) list \<times> TypeVar" where
  "TypeVarMap_getitem tvs n =
     (case map_of tvs n of
        None \<Rightarrow> (tvs @ [(n, TypeVar_init n)], TypeVar_init n)
      | Some tv \<Rightarrow> (tvs, tv))"

text \<open>\<^verbatim>\<open>self.typevars[n]\<close>, and the write of a cell object that was mutated in place.\<close>

definition typevar :: "TypeInferer \<Rightarrow> name \<Rightarrow> TypeInferer \<times> TypeVar" where
  "typevar self n =
     (case TypeVarMap_getitem (typevars self) n of
        (tvs, tv) \<Rightarrow> (self\<lparr>typevars := tvs\<rparr>, tv))"

definition store :: "TypeInferer \<Rightarrow> name \<Rightarrow> TypeVar \<Rightarrow> TypeInferer" where
  "store self n tv = self\<lparr>typevars := AList.update n tv (typevars self)\<rparr>"

text \<open>
  \<^verbatim>\<open>TypeInferer.add_type\<close>, \<^verbatim>\<open>TypeInferer.propagate_refined_type\<close> and the \<^verbatim>\<open>refine\<close>
  methods of \<^verbatim>\<open>Propagate\<close> and \<^verbatim>\<open>GetAttrConstraint\<close> call each other, and nothing
  bounds the depth of these calls: they are one partial function of the call to make,
  \<open>None\<close> when the calls never return. No other class has a \<^verbatim>\<open>refine\<close> method.
\<close>

datatype invocation =
    Add_type name "ty option" "loc option" bool
  | Propagate_refined_type name "ty option"
  | Refine constraint "ty option"

partial_function (option) invoke ::
  "typing_context \<Rightarrow> invocation \<Rightarrow> TypeInferer \<Rightarrow> (TypeInferer \<times> unit outcome) option" where
  "invoke ctx call self =
     (case call of
        Add_type v tp l unless_locked \<Rightarrow>
          (case typevar self v of
             (self1, tv) \<Rightarrow>
               if unless_locked \<and> locked tv then Some (self1, Return ())
               else
                 (case TypeVar_add_type ctx tv tp l of
                    (tv', Raise e) \<Rightarrow> Some (store self1 v tv', Raise e)
                  | (tv', Return unified) \<Rightarrow>
                      if unified \<noteq> type tv then
                        invoke ctx (Propagate_refined_type v unified) (store self1 v tv')
                      else Some (store self1 v tv', Return ())))
      | Propagate_refined_type updated_var updated_type \<Rightarrow>
          (case refine_map self updated_var of
             None \<Rightarrow> Some (self, Return ())
           | Some source_constraint \<Rightarrow> invoke ctx (Refine source_constraint updated_type) self)
      | Refine c target_type \<Rightarrow>
          (case c of
             Propagate d s l \<Rightarrow> invoke ctx (Add_type s target_type (Some l) True) self
           | GetAttrConstraint t a v l il \<Rightarrow>
               (case target_type of
                  Some (BoundFunction f this) \<Rightarrow>
                    Option.bind (invoke ctx (Add_type v (Some this) (Some l) False) self)
                      (\<lambda>r. case r of
                         (self1, Raise e) \<Rightarrow> Some (self1, Raise e)
                       | (self1, Return _) \<Rightarrow>
                           (case refine_map self1 v of
                              None \<Rightarrow> Some (self1, Return ())
                            | Some source_constraint \<Rightarrow>
                                invoke ctx (Refine source_constraint (Some this)) self1))
                | _ \<Rightarrow> Some (self, Return ()))
           | _ \<Rightarrow> Some (self, Raise (AttributeError ''refine''))))"

definition TypeInferer_add_type ::
  "typing_context \<Rightarrow> TypeInferer \<Rightarrow> name \<Rightarrow> ty option \<Rightarrow> loc option \<Rightarrow> bool \<Rightarrow>
     (TypeInferer \<times> unit outcome) option" where
  "TypeInferer_add_type ctx self v tp l unless_locked =
     invoke ctx (Add_type v tp l unless_locked) self"

definition propagate_refined_type ::
  "typing_context \<Rightarrow> TypeInferer \<Rightarrow> name \<Rightarrow> ty option \<Rightarrow> (TypeInferer \<times> unit outcome) option" where
  "propagate_refined_type ctx self updated_var updated_type =
     invoke ctx (Propagate_refined_type updated_var updated_type) self"

definition refine ::
  "typing_context \<Rightarrow> constraint \<Rightarrow> TypeInferer \<Rightarrow> ty option \<Rightarrow> (TypeInferer \<times> unit outcome) option" where
  "refine ctx c self target_type = invoke ctx (Refine c target_type) self"


subsection \<open>Helpers for the control flow\<close>

text \<open>
  A \<^verbatim>\<open>with new_error_context(...)\<close> block: an exception that leaves it passes through
  the context manager. A \<^verbatim>\<open>for\<close> loop whose body may raise: the first exception ends
  it.
\<close>

definition with_error_context ::
  "typing_context \<Rightarrow> errctx \<Rightarrow> ('s \<times> 'a outcome) option \<Rightarrow> ('s \<times> 'a outcome) option" where
  "with_error_context ctx ec r =
     (case r of
        None \<Rightarrow> None
      | Some (s, Raise e) \<Rightarrow> Some (s, Raise (new_error_context ctx ec e))
      | Some (s, Return x) \<Rightarrow> Some (s, Return x))"

primrec for_each ::
  "'a list \<Rightarrow> ('a \<Rightarrow> 's \<Rightarrow> ('s \<times> unit outcome) option) \<Rightarrow> 's \<Rightarrow> ('s \<times> unit outcome) option" where
  "for_each [] body s = Some (s, Return ())"
| "for_each (x # xs) body s =
     (case body x s of
        None \<Rightarrow> None
      | Some (s', Raise e) \<Rightarrow> Some (s', Raise e)
      | Some (s', Return _) \<Rightarrow> for_each xs body s')"

text \<open>\<^verbatim>\<open>[typevars[n] for n in names]\<close>: the cells are created from left to right.\<close>

primrec typevars_of :: "TypeInferer \<Rightarrow> name list \<Rightarrow> TypeInferer \<times> TypeVar list" where
  "typevars_of self [] = (self, [])"
| "typevars_of self (n # ns) =
     (case typevar self n of
        (self1, tv) \<Rightarrow>
          (case typevars_of self1 ns of (self2, tvs) \<Rightarrow> (self2, tv # tvs)))"

text \<open>
  \<^verbatim>\<open>all(typevars[n].defined for n in names)\<close> over a generator: it stops at the first
  undefined cell, and the cells after it are not looked up.
\<close>

primrec all_defined :: "TypeInferer \<Rightarrow> name list \<Rightarrow> TypeInferer \<times> bool" where
  "all_defined self [] = (self, True)"
| "all_defined self (n # ns) =
     (case typevar self n of
        (self1, tv) \<Rightarrow> if defined tv then all_defined self1 ns else (self1, False))"

text \<open>\<^verbatim>\<open>dict(pairs)\<close>: a later pair replaces an earlier one with the same key.\<close>

definition dict_of :: "('k \<times> 'v) list \<Rightarrow> ('k \<times> 'v) list" where
  "dict_of kvs = fold (\<lambda>(k, v). AList.update k v) kvs []"

text \<open>
  The truth value of a callee, for \<^verbatim>\<open>assert fnty\<close>: a \<^verbatim>\<open>BaseTuple\<close> has a length
  (\<^verbatim>\<open>len(tp)\<close> in \<^verbatim>\<open>ExhaustIterConstraint\<close>) and is false when it is empty, a string is
  false when it is empty, and any other object is true.
\<close>

fun truthy :: "callee \<Rightarrow> bool" where
  "truthy (Callee_type t) = (\<not> (is_BaseTuple t \<and> len_ty t = 0))"
| "truthy (Callee_op f) = (f \<noteq> [])"

subsection \<open>Resolution of calls\<close>

text \<open>\<^verbatim>\<open>fold_arg_vars\<close>\<close>

definition fold_arg_vars ::
  "TypeInferer \<Rightarrow> name list \<Rightarrow> name option \<Rightarrow> (string \<times> name) list \<Rightarrow>
     TypeInferer \<times> (ty list \<times> (string \<times> ty) list) option outcome" where
  "fold_arg_vars typeinfer as va ks =
     (let n_pos_args = length as;
          kwds = map fst ks
      in case typevars_of typeinfer (as @ map snd ks @ (case va of None \<Rightarrow> [] | Some v \<Rightarrow> [v])) of
           (ti, argtypes) \<Rightarrow>
             if \<not> list_all defined argtypes then (ti, Return None)
             else
               (let tys = concat (map get argtypes);
                    pos_args = take n_pos_args tys
                in case va of
                     None \<Rightarrow>
                       (ti, Return (Some (pos_args, dict_of (zip kwds (drop n_pos_args tys)))))
                   | Some _ \<Rightarrow>
                       if \<not> is_BaseTuple (last tys) then
                         (ti, Raise (TypeError (Vararg_not_tuple (last tys))))
                       else
                         (ti, Return (Some (pos_args @ types_of (last tys),
                            dict_of (zip kwds (drop n_pos_args (butlast tys))))))))"

text \<open>
  \<^verbatim>\<open>TypeInferer._unify_return_types\<close>. The set of types is the list of its elements,
  without repetition, in the order in which they were added; \<^verbatim>\<open>unify_types\<close> receives
  them in the order in which the set is iterated. The message lists the sorted texts of
  the types, a function of the set alone.
\<close>

definition unify_return_types :: "typing_context \<Rightarrow> ty list \<Rightarrow> ty outcome" where
  "unify_return_types ctx rettypes =
     (if rettypes \<noteq> [] then
        (case unify_types ctx (set_order ctx rettypes) of
           None \<Rightarrow> Raise (TypingError (Cannot_unify_return (set rettypes)) None)
         | Some unified \<Rightarrow>
             if \<not> is_precise ctx unified then
               Raise (TypingError (Cannot_unify_return (set rettypes)) None)
             else Return unified)
      else Return none)"

text \<open>
  The loop of \<^verbatim>\<open>resolve_call\<close> over the return variables of the frame's inferer, when
  that inferer is the running one: its cells are looked up (and created) in
  \<^verbatim>\<open>self.typevars\<close>. \<^verbatim>\<open>rettypes.add\<close> leaves a set that has the type as it is.
\<close>

primrec collect_rettypes :: "TypeInferer \<Rightarrow> name list \<Rightarrow> ty list \<Rightarrow> TypeInferer \<times> ty list" where
  "collect_rettypes self [] rettypes = (self, rettypes)"
| "collect_rettypes self (retvar # retvars) rettypes =
     (case typevar self retvar of
        (self1, tv) \<Rightarrow>
          collect_rettypes self1 retvars
            (case type tv of
               None \<Rightarrow> rettypes
             | Some t \<Rightarrow> if t \<in> set rettypes then rettypes else rettypes @ [t]))"

text \<open>
  \<^verbatim>\<open>TypeInferer.resolve_call\<close>. \<^verbatim>\<open>typing.signature(return_type, *args)\<close> builds a
  signature without receiver.
\<close>

definition resolve_call ::
  "typing_context \<Rightarrow> TypeInferer \<Rightarrow> callee \<Rightarrow> ty list \<Rightarrow> (string \<times> ty) list \<Rightarrow>
     TypeInferer \<times> signature option outcome" where
  "resolve_call ctx self fnty pos_args kw_args =
     (case fnty of
        Callee_type (RecursiveCall disp func_id) \<Rightarrow>
          (case fold_argument_types ctx disp pos_args kw_args of
             (psig, as) \<Rightarrow>
               (case callstack_match ctx disp as of
                  None \<Rightarrow> (self, Raise (AttributeError ''typeinfer''))
                | Some fr \<Rightarrow>
                    (case (case fr of
                             This_inferer \<Rightarrow> collect_rettypes self (return_vars self) []
                           | Other_inferer retvars cells \<Rightarrow>
                               (self, snd (collect_rettypes
                                  (self\<lparr>typevars := cells\<rparr>) retvars []))) of
                       (self1, rettypes) \<Rightarrow>
                         if rettypes = [] then
                           (self1, Raise (TypingError Runaway_recursion None))
                         else
                           (case unify_return_types ctx rettypes of
                              Raise e \<Rightarrow> (self1, Raise e)
                            | Return rt \<Rightarrow>
                                (self1, Return (Some \<lparr>return_type = rt, sig_args = as,
                                   recvr = None, pysig = Some psig\<rparr>))))))
      | _ \<Rightarrow> (self, Return (resolve_function_type ctx fnty pos_args kw_args)))"


subsection \<open>Firing a constraint\<close>

text \<open>
  Sequencing of two steps that may raise, and \<^verbatim>\<open>typevars[n].getone()\<close>.
\<close>

definition seq ::
  "'s \<times> 'a outcome \<Rightarrow> ('s \<Rightarrow> 'a \<Rightarrow> 's \<times> 'b outcome) \<Rightarrow> 's \<times> 'b outcome" where
  "seq r f = (case r of (s, Raise e) \<Rightarrow> (s, Raise e) | (s, Return x) \<Rightarrow> f s x)"

definition getone_var :: "TypeInferer \<Rightarrow> name \<Rightarrow> TypeInferer \<times> ty outcome" where
  "getone_var self n = (case typevar self n of (self1, tv) \<Rightarrow> (self1, getone tv))"

text \<open>The assignment \<^verbatim>\<open>self.signature = sig\<close> of a constraint.\<close>

fun set_signature :: "constraint \<Rightarrow> signature option \<Rightarrow> constraint" where
  "set_signature (CallConstraint t f as ks va l _) sg = CallConstraint t f as ks va l (Some sg)"
| "set_signature (IntrinsicCallConstraint t f as ks va l _) sg =
     IntrinsicCallConstraint t f as ks va l (Some sg)"
| "set_signature (SetItemConstraint t i v l _) sg = SetItemConstraint t i v l (Some sg)"
| "set_signature (StaticSetItemConstraint t i iv v l _) sg =
     StaticSetItemConstraint t i iv v l (Some sg)"
| "set_signature (DelItemConstraint t i l _) sg = DelItemConstraint t i l (Some sg)"
| "set_signature (SetAttrConstraint t a v l _) sg = SetAttrConstraint t a v l (Some sg)"
| "set_signature (PrintConstraint as va l _) sg = PrintConstraint as va l (Some sg)"
| "set_signature c sg = c"

text \<open>\<^verbatim>\<open>TypeInferer.copy_type\<close>: \<^verbatim>\<open>TypeVar.union\<close> writes the cell directly.\<close>

definition copy_type ::
  "typing_context \<Rightarrow> TypeInferer \<Rightarrow> name \<Rightarrow> name \<Rightarrow> loc option \<Rightarrow> TypeInferer \<times> unit outcome" where
  "copy_type ctx self src_var dest_var l =
     (case typevar self dest_var of
        (self1, dest_tv) \<Rightarrow>
          (case typevar self1 src_var of
             (self2, src_tv) \<Rightarrow>
               (case TypeVar_union ctx dest_tv (type src_tv) l of
                  (tv', Raise e) \<Rightarrow> (store self2 dest_var tv', Raise e)
                | (tv', Return _) \<Rightarrow> (store self2 dest_var tv', Return ()))))"

text \<open>\<^verbatim>\<open>Propagate.__call__\<close>\<close>

definition Propagate_call ::
  "typing_context \<Rightarrow> constraint \<Rightarrow> TypeInferer \<Rightarrow> (TypeInferer \<times> unit outcome) option" where
  "Propagate_call ctx self typeinfer =
     with_error_context ctx (Errctx ''typing of assignment at {0}'' [Fmt_loc (loc self)])
       (case copy_type ctx typeinfer (src self) (dst self) (Some (loc self)) of
          (ti, Raise e) \<Rightarrow> Some (ti, Raise e)
        | (ti, Return _) \<Rightarrow>
            Some (ti\<lparr>refine_map := (refine_map ti)(dst self \<mapsto> self)\<rparr>, Return ()))"

text \<open>\<^verbatim>\<open>ArgConstraint.__call__\<close>\<close>

definition ArgConstraint_call ::
  "typing_context \<Rightarrow> constraint \<Rightarrow> TypeInferer \<Rightarrow> (TypeInferer \<times> unit outcome) option" where
  "ArgConstraint_call ctx self typeinfer =
     with_error_context ctx (Errctx ''typing of argument at {0}'' [Fmt_loc (loc self)])
       (case typevar typeinfer (src self) of
          (ti, src_tv) \<Rightarrow>
            if \<not> defined src_tv then Some (ti, Return ())
            else
              (case getone src_tv of
                 Raise e \<Rightarrow> Some (ti, Raise e)
               | Return t \<Rightarrow>
                   TypeInferer_add_type ctx ti (dst self)
                     (Some (case t of Omitted v \<Rightarrow> resolve_value_type ctx v | _ \<Rightarrow> t))
                     (Some (loc self)) False))"

text \<open>\<^verbatim>\<open>BuildTupleConstraint.__call__\<close>\<close>

definition BuildTupleConstraint_call ::
  "typing_context \<Rightarrow> constraint \<Rightarrow> TypeInferer \<Rightarrow> (TypeInferer \<times> unit outcome) option" where
  "BuildTupleConstraint_call ctx self typeinfer =
     with_error_context ctx (Errctx ''typing of tuple at {0}'' [Fmt_loc (loc self)])
       (case typevars_of typeinfer (items self) of
          (ti1, cells) \<Rightarrow>
            (case typevar ti1 (target self) of
               (ti2, oset) \<Rightarrow>
                 for_each (product_lists (map get cells))
                   (\<lambda>vals ti.
                      TypeInferer_add_type ctx ti (target self)
                        (Some (if vals \<noteq> [] \<and> list_all (\<lambda>v. hd vals = v) vals
                               then UniTuple (hd vals) (length vals)
                               else Tuple vals))
                        (Some (loc self)) False)
                   ti2))"

text \<open>
  \<^verbatim>\<open>_BuildContainerConstraint.__call__\<close>; \<open>container_type\<close> is the class attribute of
  the subclass.
\<close>

definition BuildContainerConstraint_call ::
  "(ty \<Rightarrow> ty) \<Rightarrow> typing_context \<Rightarrow> constraint \<Rightarrow> TypeInferer \<Rightarrow>
     (TypeInferer \<times> unit outcome) option" where
  "BuildContainerConstraint_call container_type ctx self typeinfer =
     with_error_context ctx (Errctx ''typing of list at {0}'' [Fmt_loc (loc self)])
       (case typevar typeinfer (target self) of
          (ti1, oset) \<Rightarrow>
            (case typevars_of ti1 (items self) of
               (ti2, cells) \<Rightarrow>
                 if map get cells = [] then
                   TypeInferer_add_type ctx ti2 (target self)
                     (Some (container_type undefined_ty)) (Some (loc self)) False
                 else
                   for_each (product_lists (map get cells))
                     (\<lambda>typs ti.
                        case unify_types ctx typs of
                          None \<Rightarrow> Some (ti, Return ())
                        | Some unified \<Rightarrow>
                            TypeInferer_add_type ctx ti (target self)
                              (Some (container_type unified)) (Some (loc self)) False)
                     ti2))"

text \<open>\<^verbatim>\<open>ExhaustIterConstraint.__call__\<close>\<close>

definition ExhaustIterConstraint_call ::
  "typing_context \<Rightarrow> constraint \<Rightarrow> TypeInferer \<Rightarrow> (TypeInferer \<times> unit outcome) option" where
  "ExhaustIterConstraint_call ctx self typeinfer =
     with_error_context ctx (Errctx ''typing of exhaust iter at {0}'' [Fmt_loc (loc self)])
       (case typevar typeinfer (target self) of
          (ti1, oset) \<Rightarrow>
            (case typevar ti1 (iterator self) of
               (ti2, it) \<Rightarrow>
                 for_each (get it)
                   (\<lambda>tp ti.
                      if is_BaseTuple tp then
                        (if len_ty tp = count self then
                           TypeInferer_add_type ctx ti (target self) (Some tp)
                             (Some (loc self)) False
                         else
                           Some (ti, Raise (ValueError
                             (Wrong_tuple_length (iterator self) (count self) (len_ty tp)))))
                      else
                        (case iterator_yield_type ctx tp of
                           Some yield_type \<Rightarrow>
                             TypeInferer_add_type ctx ti (target self)
                               (Some (UniTuple yield_type (count self))) (Some (loc self)) False
                         | None \<Rightarrow> Some (ti, Return ())))
                   ti2))"

text \<open>\<^verbatim>\<open>PairFirstConstraint.__call__\<close> and \<^verbatim>\<open>PairSecondConstraint.__call__\<close>\<close>

definition PairFirstConstraint_call ::
  "typing_context \<Rightarrow> constraint \<Rightarrow> TypeInferer \<Rightarrow> (TypeInferer \<times> unit outcome) option" where
  "PairFirstConstraint_call ctx self typeinfer =
     with_error_context ctx (Errctx ''typing of pair-first at {0}'' [Fmt_loc (loc self)])
       (case typevar typeinfer (target self) of
          (ti1, oset) \<Rightarrow>
            (case typevar ti1 (pair self) of
               (ti2, p) \<Rightarrow>
                 for_each (get p)
                   (\<lambda>tp ti.
                      case tp of
                        Pair_ty first_type second_type \<Rightarrow>
                          TypeInferer_add_type ctx ti (target self) (Some first_type)
                            (Some (loc self)) False
                      | _ \<Rightarrow> Some (ti, Return ()))
                   ti2))"

definition PairSecondConstraint_call ::
  "typing_context \<Rightarrow> constraint \<Rightarrow> TypeInferer \<Rightarrow> (TypeInferer \<times> unit outcome) option" where
  "PairSecondConstraint_call ctx self typeinfer =
     with_error_context ctx (Errctx ''typing of pair-second at {0}'' [Fmt_loc (loc self)])
       (case typevar typeinfer (target self) of
          (ti1, oset) \<Rightarrow>
            (case typevar ti1 (pair self) of
               (ti2, p) \<Rightarrow>
                 for_each (get p)
                   (\<lambda>tp ti.
                      case tp of
                        Pair_ty first_type second_type \<Rightarrow>
                          TypeInferer_add_type ctx ti (target self) (Some second_type)
                            (Some (loc self)) False
                      | _ \<Rightarrow> Some (ti, Return ()))
                   ti2))"


text \<open>
  \<^verbatim>\<open>CallConstraint.resolve\<close>, in three parts: the refinement of the receiver of a bound
  function, the refinement of an imprecise return type, and the method itself.
\<close>

definition refine_receiver ::
  "typing_context \<Rightarrow> constraint \<Rightarrow> TypeInferer \<Rightarrow> callee \<Rightarrow> signature \<Rightarrow>
     (TypeInferer \<times> unit outcome) option" where
  "refine_receiver ctx self typeinfer fnty sg =
     (case fnty of
        Callee_type (BoundFunction f this) \<Rightarrow>
          (case recvr sg of
             None \<Rightarrow> Some (typeinfer, Return ())
           | Some r \<Rightarrow>
               if r \<noteq> this then
                 (case unify_pairs ctx r this of
                    None \<Rightarrow> Some (typeinfer, Return ())
                  | Some refined_this \<Rightarrow>
                      if is_precise ctx refined_this then
                        propagate_refined_type ctx typeinfer (func self)
                          (Some (BoundFunction f refined_this))
                      else Some (typeinfer, Return ()))
               else Some (typeinfer, Return ()))
      | _ \<Rightarrow> Some (typeinfer, Return ()))"

definition refine_return_type ::
  "typing_context \<Rightarrow> constraint \<Rightarrow> TypeInferer \<Rightarrow> signature \<Rightarrow> TypeInferer \<times> signature" where
  "refine_return_type ctx self typeinfer sg =
     (if \<not> is_precise ctx (return_type sg) then
        (case typevar typeinfer (target self) of
           (ti, tgt) \<Rightarrow>
             (case type tgt of
                None \<Rightarrow> (ti, sg)
              | Some targetty \<Rightarrow>
                  if unify_pairs ctx targetty (return_type sg) = Some targetty then
                    (ti, sg\<lparr>return_type := targetty\<rparr>)
                  else (ti, sg)))
      else (typeinfer, sg))"

definition CallConstraint_resolve ::
  "typing_context \<Rightarrow> constraint \<Rightarrow> TypeInferer \<Rightarrow> callee \<Rightarrow>
     ((constraint \<times> TypeInferer) \<times> unit outcome) option" where
  "CallConstraint_resolve ctx self typeinfer fnty =
     (if \<not> truthy fnty then Some ((self, typeinfer), Raise AssertionError)
      else
        (case fold_arg_vars typeinfer (args self) (vararg self) (kws self) of
           (ti1, Raise e) \<Rightarrow> Some ((self, ti1), Raise e)
         | (ti1, Return None) \<Rightarrow> Some ((self, ti1), Return ())
         | (ti1, Return (Some (pos_args, kw_args))) \<Rightarrow>
             (case resolve_call ctx ti1 fnty pos_args kw_args of
                (ti2, Raise e) \<Rightarrow> Some ((self, ti2), Raise e)
              | (ti2, Return None) \<Rightarrow>
                  Some ((self, ti2), Raise (TypingError
                    (Invalid_usage fnty pos_args (sort_key fst kw_args)
                       (explain_function_type ctx fnty))
                    (Some (loc self))))
              | (ti2, Return (Some sg)) \<Rightarrow>
                  (case TypeInferer_add_type ctx ti2 (target self) (Some (return_type sg))
                          (Some (loc self)) False of
                     None \<Rightarrow> None
                   | Some (ti3, Raise e) \<Rightarrow> Some ((self, ti3), Raise e)
                   | Some (ti3, Return _) \<Rightarrow>
                       (case refine_receiver ctx self ti3 fnty sg of
                          None \<Rightarrow> None
                        | Some (ti4, Raise e) \<Rightarrow> Some ((self, ti4), Raise e)
                        | Some (ti4, Return _) \<Rightarrow>
                            (case refine_return_type ctx self ti4 sg of
                               (ti5, sg') \<Rightarrow>
                                 Some ((set_signature self (Some sg'), ti5), Return ())))))))"

text \<open>\<^verbatim>\<open>CallConstraint.__call__\<close> and \<^verbatim>\<open>IntrinsicCallConstraint.__call__\<close>\<close>

definition CallConstraint_call ::
  "typing_context \<Rightarrow> constraint \<Rightarrow> TypeInferer \<Rightarrow>
     ((constraint \<times> TypeInferer) \<times> unit outcome) option" where
  "CallConstraint_call ctx self typeinfer =
     with_error_context ctx (Errctx ''typing of call at {0}'' [Fmt_loc (loc self)])
       (case getone_var typeinfer (func self) of
          (ti1, Raise e) \<Rightarrow> Some ((self, ti1), Raise e)
        | (ti1, Return fnty) \<Rightarrow>
            with_error_context ctx
              (Errctx ''resolving callee type: {0}'' [Fmt_callee (Callee_type fnty)])
              (CallConstraint_resolve ctx self ti1 (Callee_type fnty)))"

definition IntrinsicCallConstraint_call ::
  "typing_context \<Rightarrow> constraint \<Rightarrow> TypeInferer \<Rightarrow>
     ((constraint \<times> TypeInferer) \<times> unit outcome) option" where
  "IntrinsicCallConstraint_call ctx self typeinfer =
     with_error_context ctx (Errctx ''typing of intrinsic-call at {0}'' [Fmt_loc (loc self)])
       (CallConstraint_resolve ctx self typeinfer (Callee_op (func self)))"

text \<open>
  \<^verbatim>\<open>StaticGetItemConstraint.__call__\<close>; the fallback is an object of the constraint, and
  firing it may assign its signature.
\<close>

definition StaticGetItemConstraint_call ::
  "typing_context \<Rightarrow> constraint \<Rightarrow> TypeInferer \<Rightarrow>
     ((constraint \<times> TypeInferer) \<times> unit outcome) option" where
  "StaticGetItemConstraint_call ctx self typeinfer =
     with_error_context ctx (Errctx ''typing of static-get-item at {0}'' [Fmt_loc (loc self)])
       (case typevar typeinfer (target self) of
          (ti1, oset) \<Rightarrow>
            (case typevar ti1 (val self) of
               (ti2, v) \<Rightarrow>
                 for_each (get v)
                   (\<lambda>t (c, ti).
                      case resolve_static_getitem ctx t (index c) of
                        Some itemty \<Rightarrow>
                          (case TypeInferer_add_type ctx ti (target c) (Some itemty)
                                  (Some (loc c)) False of
                             None \<Rightarrow> None
                           | Some (ti', r) \<Rightarrow> Some ((c, ti'), r))
                      | None \<Rightarrow>
                          (case fallback c of
                             None \<Rightarrow> Some ((c, ti), Return ())
                           | Some fb \<Rightarrow>
                               (case IntrinsicCallConstraint_call ctx fb ti of
                                  None \<Rightarrow> None
                                | Some ((fb', ti'), r) \<Rightarrow>
                                    Some ((StaticGetItemConstraint (target c) (val c) (index c)
                                             (Some fb') (loc c), ti'), r))))
                   (self, ti2)))"

text \<open>\<^verbatim>\<open>GetAttrConstraint.__call__\<close>\<close>

definition GetAttrConstraint_call ::
  "typing_context \<Rightarrow> constraint \<Rightarrow> TypeInferer \<Rightarrow> (TypeInferer \<times> unit outcome) option" where
  "GetAttrConstraint_call ctx self typeinfer =
     with_error_context ctx (Errctx ''typing of get attribute at {0}'' [Fmt_loc (loc self)])
       (case typevar typeinfer (val self) of
          (ti1, v) \<Rightarrow>
            (case for_each (get v)
                    (\<lambda>t ti.
                       case resolve_getattr ctx t (attr self) of
                         None \<Rightarrow>
                           Some (ti, Raise (UntypedAttributeError t (attr self) (inst_loc self)))
                       | Some attrty \<Rightarrow>
                           TypeInferer_add_type ctx ti (target self) (Some attrty)
                             (Some (loc self)) False)
                    ti1 of
               None \<Rightarrow> None
             | Some (ti2, Raise e) \<Rightarrow> Some (ti2, Raise e)
             | Some (ti2, Return _) \<Rightarrow>
                 Some (ti2\<lparr>refine_map := (refine_map ti2)(target self \<mapsto> self)\<rparr>, Return ())))"

text \<open>
  \<^verbatim>\<open>SetItemConstraint.__call__\<close>, \<^verbatim>\<open>StaticSetItemConstraint.__call__\<close>,
  \<^verbatim>\<open>DelItemConstraint.__call__\<close> and \<^verbatim>\<open>SetAttrConstraint.__call__\<close>
\<close>

definition SetItemConstraint_call ::
  "typing_context \<Rightarrow> constraint \<Rightarrow> TypeInferer \<Rightarrow>
     ((constraint \<times> TypeInferer) \<times> unit outcome) option" where
  "SetItemConstraint_call ctx self typeinfer =
     with_error_context ctx (Errctx ''typing of setitem at {0}'' [Fmt_loc (loc self)])
       (Some
         (case all_defined typeinfer [target self, index_var self, val self] of
            (ti1, ok) \<Rightarrow>
              if \<not> ok then ((self, ti1), Return ())
              else
                (case seq (getone_var ti1 (target self)) (\<lambda>ti targetty.
                      seq (getone_var ti (index_var self)) (\<lambda>ti idxty.
                      seq (getone_var ti (val self)) (\<lambda>ti valty.
                        case resolve_setitem ctx targetty idxty valty of
                          None \<Rightarrow>
                            (ti, Raise (TypingError
                               (Cannot_resolve_setitem targetty idxty valty) (Some (loc self))))
                        | Some sg \<Rightarrow> (ti, Return sg)))) of
                   (ti2, Raise e) \<Rightarrow> ((self, ti2), Raise e)
                 | (ti2, Return sg) \<Rightarrow> ((set_signature self (Some sg), ti2), Return ()))))"

definition StaticSetItemConstraint_call ::
  "typing_context \<Rightarrow> constraint \<Rightarrow> TypeInferer \<Rightarrow>
     ((constraint \<times> TypeInferer) \<times> unit outcome) option" where
  "StaticSetItemConstraint_call ctx self typeinfer =
     with_error_context ctx (Errctx ''typing of staticsetitem at {0}'' [Fmt_loc (loc self)])
       (Some
         (case all_defined typeinfer [target self, index_var self, val self] of
            (ti1, ok) \<Rightarrow>
              if \<not> ok then ((self, ti1), Return ())
              else
                (case seq (getone_var ti1 (target self)) (\<lambda>ti targetty.
                      seq (getone_var ti (index_var self)) (\<lambda>ti idxty.
                      seq (getone_var ti (val self)) (\<lambda>ti valty.
                        case resolve_static_setitem ctx targetty (index self) valty of
                          Some sg \<Rightarrow> (ti, Return sg)
                        | None \<Rightarrow>
                            (case resolve_setitem ctx targetty idxty valty of
                               None \<Rightarrow>
                                 (ti, Raise (TypingError
                                    (Cannot_resolve_static_setitem targetty (index self) valty)
                                    (Some (loc self))))
                             | Some sg \<Rightarrow> (ti, Return sg))))) of
                   (ti2, Raise e) \<Rightarrow> ((self, ti2), Raise e)
                 | (ti2, Return sg) \<Rightarrow> ((set_signature self (Some sg), ti2), Return ()))))"

definition DelItemConstraint_call ::
  "typing_context \<Rightarrow> constraint \<Rightarrow> TypeInferer \<Rightarrow>
     ((constraint \<times> TypeInferer) \<times> unit outcome) option" where
  "DelItemConstraint_call ctx self typeinfer =
     with_error_context ctx (Errctx ''typing of delitem at {0}'' [Fmt_loc (loc self)])
       (Some
         (case all_defined typeinfer [target self, index_var self] of
            (ti1, ok) \<Rightarrow>
              if \<not> ok then ((self, ti1), Return ())
              else
                (case seq (getone_var ti1 (target self)) (\<lambda>ti targetty.
                      seq (getone_var ti (index_var self)) (\<lambda>ti idxty.
                        case resolve_delitem ctx targetty idxty of
                          None \<Rightarrow>
                            (ti, Raise (TypingError
                               (Cannot_resolve_delitem targetty idxty) (Some (loc self))))
                        | Some sg \<Rightarrow> (ti, Return sg))) of
                   (ti2, Raise e) \<Rightarrow> ((self, ti2), Raise e)
                 | (ti2, Return sg) \<Rightarrow> ((set_signature self (Some sg), ti2), Return ()))))"

definition SetAttrConstraint_call ::
  "typing_context \<Rightarrow> constraint \<Rightarrow> TypeInferer \<Rightarrow>
     ((constraint \<times> TypeInferer) \<times> unit outcome) option" where
  "SetAttrConstraint_call ctx self typeinfer =
     with_error_context ctx
       (Errctx ''typing of set attribute {0!r} at {1}'' [Fmt_str (attr self), Fmt_loc (loc self)])
       (Some
         (case all_defined typeinfer [target self, val self] of
            (ti1, ok) \<Rightarrow>
              if \<not> ok then ((self, ti1), Return ())
              else
                (case seq (getone_var ti1 (target self)) (\<lambda>ti targetty.
                      seq (getone_var ti (val self)) (\<lambda>ti valty.
                        case resolve_setattr ctx targetty (attr self) valty of
                          None \<Rightarrow>
                            (ti, Raise (TypingError
                               (Cannot_resolve_setattr targetty (attr self) valty)
                               (Some (loc self))))
                        | Some sg \<Rightarrow> (ti, Return sg))) of
                   (ti2, Raise e) \<Rightarrow> ((self, ti2), Raise e)
                 | (ti2, Return sg) \<Rightarrow> ((set_signature self (Some sg), ti2), Return ()))))"

text \<open>
  \<^verbatim>\<open>PrintConstraint.__call__\<close>: no error context, and whatever \<^verbatim>\<open>resolve_call\<close>
  returns is stored.
\<close>

definition PrintConstraint_call ::
  "typing_context \<Rightarrow> constraint \<Rightarrow> TypeInferer \<Rightarrow> (constraint \<times> TypeInferer) \<times> unit outcome" where
  "PrintConstraint_call ctx self typeinfer =
     (case fold_arg_vars typeinfer (args self) (vararg self) [] of
        (ti1, Raise e) \<Rightarrow> ((self, ti1), Raise e)
      | (ti1, Return None) \<Rightarrow> ((self, ti1), Return ())
      | (ti1, Return (Some (pos_args, kw_args))) \<Rightarrow>
          (case resolve_call ctx ti1
                  (Callee_type (resolve_value_type ctx (PyObject ''print''))) pos_args kw_args of
             (ti2, Raise e) \<Rightarrow> ((self, ti2), Raise e)
           | (ti2, Return sg) \<Rightarrow> ((set_signature self sg, ti2), Return ())))"


text \<open>
  \<^verbatim>\<open>constraint(typeinfer)\<close>: the \<^verbatim>\<open>__call__\<close> of the constraint's class. The result
  holds the constraint object as the call left it.
\<close>

definition keep ::
  "constraint \<Rightarrow> (TypeInferer \<times> unit outcome) option \<Rightarrow>
     ((constraint \<times> TypeInferer) \<times> unit outcome) option" where
  "keep c r = (case r of None \<Rightarrow> None | Some (ti, out) \<Rightarrow> Some ((c, ti), out))"

definition fire ::
  "typing_context \<Rightarrow> constraint \<Rightarrow> TypeInferer \<Rightarrow>
     ((constraint \<times> TypeInferer) \<times> unit outcome) option" where
  "fire ctx c typeinfer =
     (case c of
        Propagate _ _ _ \<Rightarrow> keep c (Propagate_call ctx c typeinfer)
      | ArgConstraint _ _ _ \<Rightarrow> keep c (ArgConstraint_call ctx c typeinfer)
      | BuildTupleConstraint _ _ _ \<Rightarrow> keep c (BuildTupleConstraint_call ctx c typeinfer)
      | BuildListConstraint _ _ _ \<Rightarrow>
          keep c (BuildContainerConstraint_call List_ty ctx c typeinfer)
      | BuildSetConstraint _ _ _ \<Rightarrow>
          keep c (BuildContainerConstraint_call Set_ty ctx c typeinfer)
      | ExhaustIterConstraint _ _ _ _ \<Rightarrow> keep c (ExhaustIterConstraint_call ctx c typeinfer)
      | PairFirstConstraint _ _ _ \<Rightarrow> keep c (PairFirstConstraint_call ctx c typeinfer)
      | PairSecondConstraint _ _ _ \<Rightarrow> keep c (PairSecondConstraint_call ctx c typeinfer)
      | StaticGetItemConstraint _ _ _ _ _ \<Rightarrow> StaticGetItemConstraint_call ctx c typeinfer
      | CallConstraint _ _ _ _ _ _ _ \<Rightarrow> CallConstraint_call ctx c typeinfer
      | IntrinsicCallConstraint _ _ _ _ _ _ _ \<Rightarrow> IntrinsicCallConstraint_call ctx c typeinfer
      | GetAttrConstraint _ _ _ _ _ \<Rightarrow> keep c (GetAttrConstraint_call ctx c typeinfer)
      | SetItemConstraint _ _ _ _ _ \<Rightarrow> SetItemConstraint_call ctx c typeinfer
      | StaticSetItemConstraint _ _ _ _ _ _ \<Rightarrow> StaticSetItemConstraint_call ctx c typeinfer
      | DelItemConstraint _ _ _ _ \<Rightarrow> DelItemConstraint_call ctx c typeinfer
      | SetAttrConstraint _ _ _ _ _ \<Rightarrow> SetAttrConstraint_call ctx c typeinfer
      | PrintConstraint _ _ _ _ \<Rightarrow> Some (PrintConstraint_call ctx c typeinfer))"

subsection \<open>The constraint network\<close>

text \<open>
  The \<^verbatim>\<open>try\<close> statement of \<^verbatim>\<open>ConstraintNetwork.propagate\<close>: what the exception of a
  constraint adds to the list of errors.
\<close>

definition captured :: "constraint \<Rightarrow> unit outcome \<Rightarrow> exn list" where
  "captured c r =
     (case r of
        Return _ \<Rightarrow> []
      | Raise e \<Rightarrow>
          if is_TypingError e then [e]
          else [TypingError (Internal_error c e) (Some (loc c))])"

text \<open>
  \<^verbatim>\<open>ConstraintNetwork.propagate\<close>: the loop over the positions of \<^verbatim>\<open>self.constraints\<close>.
  The constraint at a position is an object; what its call did to it is written back to
  the list. The warnings collector only observes.
\<close>

primrec propagate_constraints ::
  "typing_context \<Rightarrow> nat list \<Rightarrow> exn list \<Rightarrow> TypeInferer \<Rightarrow> (exn list \<times> TypeInferer) option" where
  "propagate_constraints ctx [] errors typeinfer = Some (errors, typeinfer)"
| "propagate_constraints ctx (i # js) errors typeinfer =
     (case fire ctx (constraints typeinfer ! i) typeinfer of
        None \<Rightarrow> None
      | Some ((c', ti), r) \<Rightarrow>
          propagate_constraints ctx js (errors @ captured c' r)
            (ti\<lparr>constraints := (constraints ti)[i := c']\<rparr>))"

definition ConstraintNetwork_propagate ::
  "typing_context \<Rightarrow> TypeInferer \<Rightarrow> (exn list \<times> TypeInferer) option" where
  "ConstraintNetwork_propagate ctx typeinfer =
     propagate_constraints ctx [0..<length (constraints typeinfer)] [] typeinfer"

subsection \<open>Propagation to the fixed point\<close>

text \<open>\<^verbatim>\<open>TypeInferer.get_state_token\<close>\<close>

definition get_state_token :: "TypeInferer \<Rightarrow> ty option list" where
  "get_state_token self = map (\<lambda>(n, tv). type tv) (sort_key fst (typevars self))"

text \<open>
  \<^verbatim>\<open>TypeInferer.propagate\<close>: the \<^verbatim>\<open>while\<close> loop with its three variables; \<open>errors\<close> is
  \<open>None\<close> while the variable is not bound, and \<open>oldtoken\<close> is \<open>None\<close> for Python's
  \<^verbatim>\<open>None\<close>. The debug hooks only print.
\<close>

partial_function (option) propagate_loop ::
  "typing_context \<Rightarrow> ty option list option \<Rightarrow> ty option list \<Rightarrow> exn list option \<Rightarrow>
     TypeInferer \<Rightarrow> (TypeInferer \<times> unit outcome) option" where
  "propagate_loop ctx oldtoken newtoken errors self =
     (if Some newtoken \<noteq> oldtoken then
        (case ConstraintNetwork_propagate ctx self of
           None \<Rightarrow> None
         | Some (errors', self') \<Rightarrow>
             propagate_loop ctx (Some newtoken) (get_state_token self') (Some errors') self')
      else
        (case errors of
           None \<Rightarrow> Some (self, Raise (UnboundLocalError ''errors''))
         | Some [] \<Rightarrow> Some (self, Return ())
         | Some (e # _) \<Rightarrow> Some (self, Raise e)))"

definition TypeInferer_propagate ::
  "typing_context \<Rightarrow> TypeInferer \<Rightarrow> (TypeInferer \<times> unit outcome) option" where
  "TypeInferer_propagate ctx self = propagate_loop ctx None (get_state_token self) None self"

subsection \<open>The call types\<close>

text \<open>
  \<^verbatim>\<open>get_call_signature\<close> of a constraint; a class without the method, or an object whose
  \<^verbatim>\<open>signature\<close> was never assigned, raises \<^verbatim>\<open>AttributeError\<close>.
\<close>

fun get_call_signature :: "constraint \<Rightarrow> signature option outcome" where
  "get_call_signature (StaticGetItemConstraint t v i fb l) =
     (case fb of None \<Rightarrow> Return None | Some c \<Rightarrow> get_call_signature c)"
| "get_call_signature (CallConstraint t f as ks va l sg) =
     (case sg of None \<Rightarrow> Raise (AttributeError ''signature'') | Some x \<Rightarrow> Return x)"
| "get_call_signature (IntrinsicCallConstraint t f as ks va l sg) =
     (case sg of None \<Rightarrow> Raise (AttributeError ''signature'') | Some x \<Rightarrow> Return x)"
| "get_call_signature (SetItemConstraint t i v l sg) =
     (case sg of None \<Rightarrow> Raise (AttributeError ''signature'') | Some x \<Rightarrow> Return x)"
| "get_call_signature (StaticSetItemConstraint t i iv v l sg) =
     (case sg of None \<Rightarrow> Raise (AttributeError ''signature'') | Some x \<Rightarrow> Return x)"
| "get_call_signature (DelItemConstraint t i l sg) =
     (case sg of None \<Rightarrow> Raise (AttributeError ''signature'') | Some x \<Rightarrow> Return x)"
| "get_call_signature (SetAttrConstraint t a v l sg) =
     (case sg of None \<Rightarrow> Raise (AttributeError ''signature'') | Some x \<Rightarrow> Return x)"
| "get_call_signature (PrintConstraint as va l sg) =
     (case sg of None \<Rightarrow> Raise (AttributeError ''signature'') | Some x \<Rightarrow> Return x)"
| "get_call_signature _ = Raise (AttributeError ''get_call_signature'')"

text \<open>
  Modelled from the spec: \<^verbatim>\<open>utils.UniqueDict\<close> is not part of the sources. It is the
  map from call to signature of the specification, whose setter rejects a key that is
  already present.
\<close>

definition UniqueDict_setitem :: "('k \<times> 'v) list \<Rightarrow> 'k \<Rightarrow> 'v \<Rightarrow> ('k \<times> 'v) list outcome" where
  "UniqueDict_setitem d k v =
     (if k \<in> fst ` set d then Raise AssertionError else Return (d @ [(k, v)]))"

text \<open>\<^verbatim>\<open>TypeInferer.get_function_types\<close>: the loop over \<^verbatim>\<open>self.calls\<close>.\<close>

primrec fill_calltypes ::
  "(string \<times> nat) list \<Rightarrow> TypeInferer \<Rightarrow> TypeInferer \<times> unit outcome" where
  "fill_calltypes [] self = (self, Return ())"
| "fill_calltypes (p # ps) self =
     (case get_call_signature (constraints self ! snd p) of
        Raise e \<Rightarrow> (self, Raise e)
      | Return sg \<Rightarrow>
          (case UniqueDict_setitem (calltypes self) (fst p) sg of
             Raise e \<Rightarrow> (self, Raise e)
           | Return d \<Rightarrow> fill_calltypes ps (self\<lparr>calltypes := d\<rparr>)))"

definition get_function_types ::
  "TypeInferer \<Rightarrow> TypeInferer \<times> (string \<times> signature option) list outcome" where
  "get_function_types self =
     (case fill_calltypes (calls self) self of
        (self', Raise e) \<Rightarrow> (self', Raise e)
      | (self', Return _) \<Rightarrow> (self', Return (calltypes self')))"


subsection \<open>A small typing context\<close>

text \<open>
  A context over three numeric scalars, pairs and sets, used to run the engine on
  concrete inputs: unification takes the wider number and fills an undefined element
  type; a number converts to every number; the only callables are \<open>set\<close>, which returns
  a set of undefined element type, and \<open>print\<close>, which accepts scalars only. Its error
  context manager wraps what is not an error of the compiler into an internal error.
\<close>

fun rank :: "ty \<Rightarrow> nat" where
  "rank (Scalar n) =
     (if n = ''int32'' then 1 else if n = ''int64'' then 2 else if n = ''float64'' then 3 else 0)"
| "rank _ = 0"

fun example_unify_pairs :: "ty \<Rightarrow> ty \<Rightarrow> ty option" where
  "example_unify_pairs (Set_ty a) (Set_ty b) =
     (if a = b then Some (Set_ty a)
      else if a = undefined_ty then Some (Set_ty b)
      else if b = undefined_ty then Some (Set_ty a)
      else None)"
| "example_unify_pairs a b =
     (if a = b then Some a
      else if 0 < rank a \<and> 0 < rank b then Some (if rank a < rank b then b else a)
      else None)"

fun example_is_precise :: "ty \<Rightarrow> bool" where
  "example_is_precise undefined_ty = False"
| "example_is_precise (Set_ty t) = example_is_precise t"
| "example_is_precise (List_ty t) = example_is_precise t"
| "example_is_precise _ = True"

definition example_can_convert :: "ty \<Rightarrow> ty option \<Rightarrow> conversion option" where
  "example_can_convert a b =
     (case b of
        None \<Rightarrow> None
      | Some t \<Rightarrow>
          if a = t then Some Conv_exact
          else if 0 < rank a \<and> 0 < rank t then
            Some (if rank a < rank t then Conv_promote else Conv_unsafe)
          else None)"

definition example_resolve_function_type ::
  "callee \<Rightarrow> ty list \<Rightarrow> (string \<times> ty) list \<Rightarrow> signature option" where
  "example_resolve_function_type f pos kw =
     (if f = Callee_type (Other ''set'' []) \<and> pos = [] then
        Some \<lparr>return_type = Set_ty undefined_ty, sig_args = [], recvr = None, pysig = None\<rparr>
      else if f = Callee_type (Other ''print'' []) \<and> list_all (\<lambda>t. 0 < rank t) pos then
        Some \<lparr>return_type = none, sig_args = pos, recvr = None, pysig = None\<rparr>
      else None)"

fun example_new_error_context :: "errctx \<Rightarrow> exn \<Rightarrow> exn" where
  "example_new_error_context ec (TypingError m l) = TypingError m l"
| "example_new_error_context ec (UntypedAttributeError t a l) = UntypedAttributeError t a l"
| "example_new_error_context ec (InternalError e) = InternalError e"
| "example_new_error_context ec e = InternalError e"

definition example_context :: typing_context where
  "example_context =
     \<lparr>unify_pairs = example_unify_pairs,
      unify_types = (\<lambda>ts. case ts of [] \<Rightarrow> None | t # rest \<Rightarrow>
         fold (\<lambda>b acc. case acc of None \<Rightarrow> None | Some a \<Rightarrow> example_unify_pairs a b)
           rest (Some t)),
      can_convert = example_can_convert,
      is_precise = example_is_precise,
      resolve_value_type = (\<lambda>v. case v of
         PyInt _ \<Rightarrow> Scalar ''int64'' | PyObject n \<Rightarrow> Other n [] | _ \<Rightarrow> none),
      resolve_function_type = example_resolve_function_type,
      resolve_getattr = (\<lambda>t a. None),
      resolve_static_getitem = (\<lambda>t i. None),
      resolve_setitem = (\<lambda>t i v. None),
      resolve_static_setitem = (\<lambda>t i v. None),
      resolve_delitem = (\<lambda>t i. None),
      resolve_setattr = (\<lambda>t a v. None),
      explain_function_type = (\<lambda>f. []),
      callstack_match = (\<lambda>d as. None),
      iterator_yield_type = (\<lambda>t. case t of
         List_ty e \<Rightarrow> Some e | Set_ty e \<Rightarrow> Some e | Other n [e] \<Rightarrow> Some e | _ \<Rightarrow> None),
      fold_argument_types = (\<lambda>d pos kw. ([], pos @ map snd kw)),
      new_error_context = example_new_error_context,
      set_order = (\<lambda>ts. ts)\<rparr>"

text \<open>A cell with a given type, and an inferer with given cells and constraints.\<close>

definition cell :: "name \<Rightarrow> ty option \<Rightarrow> bool \<Rightarrow> TypeVar" where
  "cell n t lk = \<lparr>var = n, type = t, locked = lk, define_loc = None\<rparr>"

definition inferer :: "(name \<times> TypeVar) list \<Rightarrow> constraint list \<Rightarrow> TypeInferer" where
  "inferer tvs cs =
     \<lparr>typevars = tvs, constraints = cs, calls = [], calltypes = [],
      refine_map = Map.empty, return_vars = []\<rparr>"

abbreviation int32 :: ty where "int32 \<equiv> Scalar ''int32''"
abbreviation int64 :: ty where "int64 \<equiv> Scalar ''int64''"
abbreviation float64 :: ty where "float64 \<equiv> Scalar ''float64''"

text \<open>The current type of a variable in an inferer: \<open>None\<close> without a defined cell.\<close>

definition cell_type :: "TypeInferer \<Rightarrow> name \<Rightarrow> ty option" where
  "cell_type self n = (case map_of (typevars self) n of None \<Rightarrow> None | Some tv \<Rightarrow> type tv)"

subsection \<open>Monotone growth of the cells\<close>

text \<open>
  How the type of a cell may move between two points of a propagation: not at all, by
  a first assignment, by the join of the current type with an added type, or by a chain
  of such steps.
\<close>

inductive widened :: "typing_context \<Rightarrow> ty option \<Rightarrow> ty option \<Rightarrow> bool" for ctx where
  same: "widened ctx t t"
| first_assignment: "widened ctx None (Some t)"
| join: "unify_pairs ctx cur x = Some u \<Longrightarrow> widened ctx (Some cur) (Some u)"
| chain: "widened ctx a b \<Longrightarrow> widened ctx b c \<Longrightarrow> widened ctx a c"

text \<open>
  A cell and a later state of it: the type has widened, the lock is as it was, and a
  locked cell has not changed at all.
\<close>

definition cell_steps :: "typing_context \<Rightarrow> TypeVar \<Rightarrow> TypeVar \<Rightarrow> bool" where
  "cell_steps ctx tv tv' =
     (widened ctx (type tv) (type tv') \<and> locked tv' = locked tv \<and> (locked tv \<longrightarrow> tv' = tv))"

text \<open>
  An inferer and a later state of it: every cell is still there and has stepped as
  above, new cells have only been added behind the old ones, and the network's list, the
  recorded calls, the call types and the blocks are as they were.
\<close>

definition advances :: "typing_context \<Rightarrow> TypeInferer \<Rightarrow> TypeInferer \<Rightarrow> bool" where
  "advances ctx s s' =
     ((\<forall>n tv. map_of (typevars s) n = Some tv \<longrightarrow>
         (\<exists>tv'. map_of (typevars s') n = Some tv' \<and> cell_steps ctx tv tv'))
      \<and> (\<exists>new. map fst (typevars s') = map fst (typevars s) @ new)
      \<and> constraints s' = constraints s \<and> calls s' = calls s
      \<and> calltypes s' = calltypes s \<and> return_vars s' = return_vars s)"


text \<open>
  The state token as the specification words it: the sequence of the pairs of name and
  current type, sorted by name.
\<close>

definition spec_state_token :: "TypeInferer \<Rightarrow> (name \<times> ty option) list" where
  "spec_state_token self = map (\<lambda>(n, tv). (n, type tv)) (sort_key fst (typevars self))"

text \<open>
  A network of three constraints over four defined cells: the first raises a typing
  error (its target is locked to a pair), the second raises a \<^verbatim>\<open>ValueError\<close> (a tuple
  of three for a count of two), the third succeeds. The inferer before the first pass
  and after it, and the errors of a pass.
\<close>

definition example_constraints :: "constraint list" where
  "example_constraints =
     [Propagate ''y'' ''x'' (Loc ''f.py'' 1),
      ExhaustIterConstraint ''t'' 2 ''u'' (Loc ''f.py'' 2),
      PairFirstConstraint ''z'' ''p'' (Loc ''f.py'' 3)]"

definition example_cells :: "(name \<times> TypeVar) list" where
  "example_cells =
     [(''x'', cell ''x'' (Some int64) False),
      (''y'', cell ''y'' (Some (Pair_ty int32 int32)) True),
      (''u'', cell ''u'' (Some (UniTuple int64 3)) False),
      (''p'', cell ''p'' (Some (Pair_ty int32 float64)) False)]"

definition example_start :: TypeInferer where
  "example_start = inferer example_cells example_constraints"

definition example_end :: TypeInferer where
  "example_end =
     inferer (example_cells @
        [(''t'', TypeVar_init ''t''),
         (''z'', \<lparr>var = ''z'', type = Some int32, locked = False,
            define_loc = Some (Loc ''f.py'' 3)\<rparr>)])
       example_constraints"

definition example_errors :: "exn list" where
  "example_errors =
     [TypingError (No_conversion int64 (Some (Pair_ty int32 int32)) ''y'' None)
        (Some (Loc ''f.py'' 1)),
      TypingError
        (Internal_error (ExhaustIterConstraint ''t'' 2 ''u'' (Loc ''f.py'' 2))
           (InternalError (ValueError (Wrong_tuple_length ''u'' 2 3))))
        (Some (Loc ''f.py'' 2))]"

section \<open>Properties\<close>

subsection \<open>Adding a type to a cell\<close>

text \<open>
  C1. \<^verbatim>\<open>TypeVar.add_type(T, loc)\<close>, for every cell. Locked, with \<open>T\<close> different from the
  current type: a typing error exactly when \<^verbatim>\<open>can_convert(T, current)\<close> is \<^verbatim>\<open>None\<close>; in
  every locked case the cell is left as it is. Unlocked and undefined: the current type
  becomes \<open>T\<close> and the location is recorded. Unlocked and defined: the current type
  becomes \<^verbatim>\<open>unify_pairs(current, T)\<close>, and a "cannot unify" typing error is raised
  exactly when that join is \<^verbatim>\<open>None\<close> (the cell is then left as it is).
\<close>

theorem TypeVar_add_type_cases:
  "(locked tv \<and> Some T \<noteq> type tv \<and> can_convert ctx T (type tv) = None \<longrightarrow>
      TypeVar_add_type ctx tv (Some T) l =
        (tv, Raise (TypingError (No_conversion T (type tv) (var tv) (define_loc tv)) l)))
   \<and> (locked tv \<and> (Some T = type tv \<or> can_convert ctx T (type tv) \<noteq> None) \<longrightarrow>
      TypeVar_add_type ctx tv (Some T) l = (tv, Return (type tv)))
   \<and> (locked tv \<longrightarrow> fst (TypeVar_add_type ctx tv (Some T) l) = tv)
   \<and> (\<not> locked tv \<and> type tv = None \<longrightarrow>
      TypeVar_add_type ctx tv (Some T) l =
        (tv\<lparr>type := Some T, define_loc := l\<rparr>, Return (Some T)))
   \<and> (\<not> locked tv \<and> type tv = Some cur \<and> unify_pairs ctx cur T = Some u \<longrightarrow>
      TypeVar_add_type ctx tv (Some T) l = (tv\<lparr>type := Some u\<rparr>, Return (Some u)))
   \<and> (\<not> locked tv \<and> type tv = Some cur \<and> unify_pairs ctx cur T = None \<longrightarrow>
      TypeVar_add_type ctx tv (Some T) l =
        (tv, Raise (TypingError (Cannot_unify cur T (var tv) (define_loc tv)) l)))"
  by (simp add: TypeVar_add_type_def)

theorem TypeVar_add_type_cases_witness:
  "TypeVar_add_type example_context (cell ''x'' (Some (Scalar ''int64'')) True)
      (Some (Pair_ty none none)) None =
     (cell ''x'' (Some (Scalar ''int64'')) True,
      Raise (TypingError (No_conversion (Pair_ty none none) (Some (Scalar ''int64'')) ''x'' None) None))
   \<and> TypeVar_add_type example_context (cell ''x'' (Some (Scalar ''int64'')) True)
      (Some (Scalar ''int32'')) None =
     (cell ''x'' (Some (Scalar ''int64'')) True, Return (Some (Scalar ''int64'')))
   \<and> TypeVar_add_type example_context (cell ''x'' None False)
      (Some (Scalar ''int32'')) (Some (Loc ''f.py'' 3)) =
     (\<lparr>var = ''x'', type = Some (Scalar ''int32''), locked = False,
        define_loc = Some (Loc ''f.py'' 3)\<rparr>, Return (Some (Scalar ''int32'')))
   \<and> TypeVar_add_type example_context (cell ''x'' (Some (Scalar ''int32'')) False)
      (Some (Scalar ''int64'')) None =
     (cell ''x'' (Some (Scalar ''int64'')) False, Return (Some (Scalar ''int64'')))
   \<and> TypeVar_add_type example_context (cell ''x'' (Some (Scalar ''int32'')) False)
      (Some none) None =
     (cell ''x'' (Some (Scalar ''int32'')) False,
      Raise (TypingError (Cannot_unify (Scalar ''int32'') none ''x'' None) None))"
  using
    TypeVar_add_type_cases [where tv = "cell ''x'' (Some (Scalar ''int64'')) True"
      and T = "Pair_ty none none" and ctx = example_context and l = None]
    TypeVar_add_type_cases [where tv = "cell ''x'' (Some (Scalar ''int64'')) True"
      and T = "Scalar ''int32''" and ctx = example_context and l = None]
    TypeVar_add_type_cases [where tv = "cell ''x'' None False" and T = "Scalar ''int32''"
      and ctx = example_context and l = "Some (Loc ''f.py'' 3)"]
    TypeVar_add_type_cases [where tv = "cell ''x'' (Some (Scalar ''int32'')) False"
      and T = "Scalar ''int64''" and ctx = example_context and cur = "Scalar ''int32''"
      and u = "Scalar ''int64''" and l = None]
    TypeVar_add_type_cases [where tv = "cell ''x'' (Some (Scalar ''int32'')) False"
      and T = none and ctx = example_context and cur = "Scalar ''int32''" and l = None]
  by (simp add: cell_def example_context_def example_can_convert_def)

subsection \<open>Unfolding the recursive calls\<close>

lemma for_each_single: "for_each [x] body s = body x s"
  by (auto split: option.splits outcome.splits prod.splits)

lemma add_type_unfold:
  "TypeInferer_add_type ctx self v tp l ul =
     (case typevar self v of
        (self1, tv) \<Rightarrow>
          if ul \<and> locked tv then Some (self1, Return ())
          else
            (case TypeVar_add_type ctx tv tp l of
               (tv', Raise e) \<Rightarrow> Some (store self1 v tv', Raise e)
             | (tv', Return unified) \<Rightarrow>
                 if unified \<noteq> type tv then
                   propagate_refined_type ctx (store self1 v tv') v unified
                 else Some (store self1 v tv', Return ())))"
  unfolding TypeInferer_add_type_def propagate_refined_type_def
  by (subst invoke.simps) simp

lemma propagate_refined_type_unfold:
  "propagate_refined_type ctx self v t =
     (case refine_map self v of
        None \<Rightarrow> Some (self, Return ())
      | Some c \<Rightarrow> refine ctx c self t)"
  unfolding refine_def propagate_refined_type_def
  by (subst invoke.simps) simp

lemma refine_Propagate:
  "refine ctx (Propagate d s l) self t = TypeInferer_add_type ctx self s t (Some l) True"
  unfolding refine_def TypeInferer_add_type_def
  by (subst invoke.simps) simp

lemma TypeVar_add_type_returns_type:
  "TypeVar_add_type ctx tv tp l = (tv', Return u) \<Longrightarrow> u = type tv'"
  by (auto simp: TypeVar_add_type_def split: option.splits if_splits)

lemma typevar_locked_same:
  "typevar self v = (self1, tv) \<Longrightarrow> locked tv \<Longrightarrow> self1 = self"
  by (auto simp: typevar_def TypeVarMap_getitem_def TypeVar_init_def split: option.splits)

lemma get_defined: "defined a \<Longrightarrow> \<exists>t. get a = [t]"
  by (auto simp: get_def defined_def)

lemma get_undefined: "\<not> defined a \<Longrightarrow> get a = []"
  by (auto simp: get_def defined_def)

lemma product_lists_get:
  "product_lists (map get cells) =
     (if list_all defined cells then [concat (map get cells)] else [])"
proof (induction cells)
  case Nil
  then show ?case by simp
next
  case (Cons a cells)
  show ?case
  proof (cases "defined a")
    case True
    then obtain t where "get a = [t]" using get_defined by blast
    with True Cons show ?thesis by simp
  next
    case False
    then show ?thesis by (simp add: get_undefined)
  qed
qed

lemma for_each_get:
  "for_each (get c) body s =
     (case type c of None \<Rightarrow> Some (s, Return ()) | Some t \<Rightarrow> body t s)"
  by (simp add: get_def for_each_single split: option.splits del: for_each.simps(2))

text \<open>The definitions and equations that evaluate the engine on a concrete input.\<close>

lemmas eval_defs = inferer_def cell_def typevar_def TypeVarMap_getitem_def TypeVar_init_def
  store_def with_error_context_def add_type_unfold propagate_refined_type_unfold
  refine_Propagate TypeVar_add_type_def example_context_def example_can_convert_def

subsection \<open>Adding a type to a variable and refining its source\<close>

text \<open>
  C5. \<^verbatim>\<open>TypeInferer.add_type(var, T, loc, unless_locked)\<close>, where the lookup of \<open>var\<close>
  gives the cell \<open>tv\<close>. It does nothing when \<open>unless_locked\<close> holds and the cell is
  locked. Otherwise it adds \<open>T\<close> to the cell (an exception of the cell leaves with the
  cell written back), and exactly when the type of the cell after the addition differs
  from its type before, it calls \<^verbatim>\<open>propagate_refined_type(var, new_type)\<close>, which calls
  \<^verbatim>\<open>refine\<close> of the constraint registered in \<^verbatim>\<open>refine_map[var]\<close> if there is one.
  \<^verbatim>\<open>Propagate.refine(T)\<close> adds \<open>T\<close> to the source variable unless its cell is locked, and
  then leaves the inferer as it is.
\<close>

theorem TypeInferer_add_type_steps:
  assumes "typevar self v = (self1, tv)"
  shows
  "(ul \<and> locked tv \<longrightarrow> TypeInferer_add_type ctx self v tp l ul = Some (self, Return ()))
   \<and> (\<not> (ul \<and> locked tv) \<and> TypeVar_add_type ctx tv tp l = (tv', Raise e) \<longrightarrow>
        TypeInferer_add_type ctx self v tp l ul = Some (store self1 v tv', Raise e))
   \<and> (\<not> (ul \<and> locked tv) \<and> TypeVar_add_type ctx tv tp l = (tv', Return u)
        \<and> type tv' \<noteq> type tv \<longrightarrow>
        TypeInferer_add_type ctx self v tp l ul =
          propagate_refined_type ctx (store self1 v tv') v (type tv'))
   \<and> (\<not> (ul \<and> locked tv) \<and> TypeVar_add_type ctx tv tp l = (tv', Return u)
        \<and> type tv' = type tv \<longrightarrow>
        TypeInferer_add_type ctx self v tp l ul = Some (store self1 v tv', Return ()))
   \<and> propagate_refined_type ctx self v t =
        (case refine_map self v of
           None \<Rightarrow> Some (self, Return ())
         | Some c \<Rightarrow> refine ctx c self t)
   \<and> refine ctx (Propagate d v l') self t = TypeInferer_add_type ctx self v t (Some l') True
   \<and> (locked tv \<longrightarrow> refine ctx (Propagate d v l') self t = Some (self, Return ()))"
proof -
  have a: "ul \<and> locked tv \<longrightarrow> TypeInferer_add_type ctx self v tp l ul = Some (self, Return ())"
    using assms typevar_locked_same [OF assms] by (simp add: add_type_unfold)
  have b: "locked tv \<longrightarrow> refine ctx (Propagate d v l') self t = Some (self, Return ())"
    using assms typevar_locked_same [OF assms] by (simp add: refine_Propagate add_type_unfold)
  have c: "\<not> (ul \<and> locked tv) \<and> TypeVar_add_type ctx tv tp l = (tv', Return u)
        \<and> type tv' \<noteq> type tv \<longrightarrow>
        TypeInferer_add_type ctx self v tp l ul =
          propagate_refined_type ctx (store self1 v tv') v (type tv')"
    using assms by (auto simp: add_type_unfold dest: TypeVar_add_type_returns_type)
  have d: "\<not> (ul \<and> locked tv) \<and> TypeVar_add_type ctx tv tp l = (tv', Return u)
        \<and> type tv' = type tv \<longrightarrow>
        TypeInferer_add_type ctx self v tp l ul = Some (store self1 v tv', Return ())"
    using assms by (auto simp: add_type_unfold dest: TypeVar_add_type_returns_type)
  have e: "\<not> (ul \<and> locked tv) \<and> TypeVar_add_type ctx tv tp l = (tv', Raise e) \<longrightarrow>
        TypeInferer_add_type ctx self v tp l ul = Some (store self1 v tv', Raise e)"
    using assms by (simp add: add_type_unfold)
  show ?thesis
    using a b c d e by (simp add: propagate_refined_type_unfold refine_Propagate)
qed

theorem TypeInferer_add_type_steps_witness:
  "TypeInferer_add_type example_context
      (inferer [(''x'', cell ''x'' (Some int32) False), (''y'', cell ''y'' (Some int32) True)] [])
      ''y'' (Some int64) None True =
     Some (inferer [(''x'', cell ''x'' (Some int32) False),
                    (''y'', cell ''y'' (Some int32) True)] [], Return ())
   \<and> TypeInferer_add_type example_context
      ((inferer [(''x'', cell ''x'' (Some int32) False), (''y'', cell ''y'' (Some int32) True)] [])
         \<lparr>refine_map := [''x'' \<mapsto> Propagate ''x'' ''y'' (Loc ''f.py'' 2)]\<rparr>)
      ''x'' (Some int64) None False =
     Some ((inferer [(''x'', cell ''x'' (Some int64) False),
                     (''y'', cell ''y'' (Some int32) True)] [])
         \<lparr>refine_map := [''x'' \<mapsto> Propagate ''x'' ''y'' (Loc ''f.py'' 2)]\<rparr>, Return ())
   \<and> TypeInferer_add_type example_context
      (inferer [(''x'', cell ''x'' (Some int64) False)] []) ''x'' (Some int32) None False =
     Some (inferer [(''x'', cell ''x'' (Some int64) False)] [], Return ())
   \<and> TypeInferer_add_type example_context
      (inferer [(''x'', cell ''x'' (Some int64) False)] []) ''x'' (Some none) None False =
     Some (inferer [(''x'', cell ''x'' (Some int64) False)] [],
       Raise (TypingError (Cannot_unify int64 none ''x'' None) None))"
proof -
  let ?A = "inferer [(''x'', cell ''x'' (Some int32) False), (''y'', cell ''y'' (Some int32) True)] []"
  let ?B = "?A\<lparr>refine_map := [''x'' \<mapsto> Propagate ''x'' ''y'' (Loc ''f.py'' 2)]\<rparr>"
  let ?B' = "(inferer [(''x'', cell ''x'' (Some int64) False),
                       (''y'', cell ''y'' (Some int32) True)] [])
         \<lparr>refine_map := [''x'' \<mapsto> Propagate ''x'' ''y'' (Loc ''f.py'' 2)]\<rparr>"
  let ?C = "inferer [(''x'', cell ''x'' (Some int64) False)] []"
  have a: "typevar ?A ''y'' = (?A, cell ''y'' (Some int32) True)"
    by (simp add: eval_defs)
  have b: "typevar ?B ''x'' = (?B, cell ''x'' (Some int32) False)"
    by (simp add: eval_defs)
  have c: "typevar ?C ''x'' = (?C, cell ''x'' (Some int64) False)"
    by (simp add: eval_defs)
  have bx: "typevar ?B' ''x'' = (?B', cell ''x'' (Some int64) False)"
    by (simp add: eval_defs)
  have b_y: "typevar ?B' ''y'' = (?B', cell ''y'' (Some int32) True)"
    by (simp add: eval_defs)
  have st: "store ?B ''x'' (cell ''x'' (Some int64) False) = ?B'"
    by (simp add: eval_defs)
  have sc: "store ?C ''x'' (cell ''x'' (Some int64) False) = ?C"
    by (simp add: eval_defs)
  have t1: "TypeVar_add_type example_context (cell ''x'' (Some int32) False) (Some int64) None
      = (cell ''x'' (Some int64) False, Return (Some int64))"
    by (simp add: eval_defs)
  have t3: "TypeVar_add_type example_context (cell ''x'' (Some int64) False) (Some int32) None
      = (cell ''x'' (Some int64) False, Return (Some int64))"
    by (simp add: eval_defs)
  have t4: "TypeVar_add_type example_context (cell ''x'' (Some int64) False) (Some none) None
      = (cell ''x'' (Some int64) False,
         Raise (TypingError (Cannot_unify int64 none ''x'' None) None))"
    by (simp add: eval_defs)
  have r1: "TypeInferer_add_type example_context ?A ''y'' (Some int64) None True =
     Some (?A, Return ())"
    using TypeInferer_add_type_steps [OF a, where ul = True and ctx = example_context
      and tp = "Some int64" and l = None]
    by (simp add: cell_def)
  have r3: "TypeInferer_add_type example_context ?C ''x'' (Some int32) None False =
     Some (?C, Return ())"
    using TypeInferer_add_type_steps [OF c, where ul = False and ctx = example_context
      and tp = "Some int32" and l = None and tv' = "cell ''x'' (Some int64) False"
      and u = "Some int64"] t3
    unfolding sc by simp
  have r4: "TypeInferer_add_type example_context ?C ''x'' (Some none) None False =
     Some (?C, Raise (TypingError (Cannot_unify int64 none ''x'' None) None))"
    using TypeInferer_add_type_steps [OF c, where ul = False and ctx = example_context
      and tp = "Some none" and l = None and tv' = "cell ''x'' (Some int64) False"
      and e = "TypingError (Cannot_unify int64 none ''x'' None) None"] t4
    unfolding sc by simp
  have r2a: "TypeInferer_add_type example_context ?B ''x'' (Some int64) None False =
      propagate_refined_type example_context ?B' ''x'' (Some int64)"
    using TypeInferer_add_type_steps [OF b, where ul = False and ctx = example_context
      and tp = "Some int64" and l = None and tv' = "cell ''x'' (Some int64) False"
      and u = "Some int64"] t1
    unfolding st by (simp add: cell_def)
  have r2b: "propagate_refined_type example_context ?B' ''x'' (Some int64) =
      refine example_context (Propagate ''x'' ''y'' (Loc ''f.py'' 2)) ?B' (Some int64)"
    using TypeInferer_add_type_steps [OF bx, where ctx = example_context and t = "Some int64"]
    by (simp add: inferer_def)
  have r2c: "refine example_context (Propagate ''x'' ''y'' (Loc ''f.py'' 2)) ?B' (Some int64) =
      Some (?B', Return ())"
    using TypeInferer_add_type_steps [OF b_y, where ctx = example_context and t = "Some int64"
      and d = "''x''" and l' = "Loc ''f.py'' 2"]
    by (simp add: cell_def)
  show ?thesis using r1 r2a r2b r2c r3 r4 by simp
qed

subsection \<open>Tuples, exhausted iterators and pairs\<close>

text \<open>
  C6, as the code has it. \<^verbatim>\<open>BuildTupleConstraint\<close>, fired: the type-set of an item holds
  the type of its cell or nothing, so the Cartesian product of the type-sets is the one
  tuple \<open>vals\<close> of the items' types when every item is defined, and is empty otherwise.
  For that tuple the constraint adds \<^verbatim>\<open>UniTuple(t, n)\<close> to the target when there is at
  least one item and all \<open>n\<close> element types are equal, and \<^verbatim>\<open>Tuple(vals)\<close> otherwise, a
  tuple of zero items included; with an undefined item it adds nothing.
\<close>

theorem BuildTupleConstraint_emits:
  assumes "typevars_of typeinfer its = (ti1, cells)" and "typevar ti1 t = (ti2, oset)"
  shows
  "(list_all defined cells \<and> vals = concat (map get cells) \<longrightarrow>
      BuildTupleConstraint_call ctx (BuildTupleConstraint t its l) typeinfer =
        with_error_context ctx (Errctx ''typing of tuple at {0}'' [Fmt_loc l])
          (TypeInferer_add_type ctx ti2 t
             (Some (if vals \<noteq> [] \<and> list_all (\<lambda>v. v = hd vals) vals
                    then UniTuple (hd vals) (length vals) else Tuple vals))
             (Some l) False))
   \<and> (\<not> list_all defined cells \<longrightarrow>
      BuildTupleConstraint_call ctx (BuildTupleConstraint t its l) typeinfer =
        Some (ti2, Return ()))"
proof -
  have eq: "(\<lambda>v. hd vals = v) = (\<lambda>v. v = hd vals)" for vals :: "ty list"
    by auto
  have call: "BuildTupleConstraint_call ctx (BuildTupleConstraint t its l) typeinfer =
      with_error_context ctx (Errctx ''typing of tuple at {0}'' [Fmt_loc l])
        (for_each (product_lists (map get cells))
           (\<lambda>vals ti. TypeInferer_add_type ctx ti t
              (Some (if vals \<noteq> [] \<and> list_all (\<lambda>v. v = hd vals) vals
                     then UniTuple (hd vals) (length vals) else Tuple vals))
              (Some l) False) ti2)"
    using assms by (simp add: BuildTupleConstraint_call_def eq)
  show ?thesis
  proof (cases "list_all defined cells")
    case True
    then show ?thesis
      unfolding call product_lists_get by (simp only: for_each_single if_True) simp
  next
    case False
    then show ?thesis
      unfolding call product_lists_get by (simp add: with_error_context_def)
  qed
qed

theorem BuildTupleConstraint_emits_witness:
  "BuildTupleConstraint_call example_context
      (BuildTupleConstraint ''t'' [''a'', ''a'', ''a''] (Loc ''f.py'' 1))
      (inferer [(''a'', cell ''a'' (Some int64) False)] []) =
     Some (inferer [(''a'', cell ''a'' (Some int64) False),
        (''t'', \<lparr>var = ''t'', type = Some (UniTuple int64 3), locked = False,
           define_loc = Some (Loc ''f.py'' 1)\<rparr>)] [], Return ())
   \<and> BuildTupleConstraint_call example_context
      (BuildTupleConstraint ''t'' [''a'', ''b''] (Loc ''f.py'' 1))
      (inferer [(''a'', cell ''a'' (Some int64) False), (''b'', cell ''b'' (Some float64) False)] []) =
     Some (inferer [(''a'', cell ''a'' (Some int64) False), (''b'', cell ''b'' (Some float64) False),
        (''t'', \<lparr>var = ''t'', type = Some (Tuple [int64, float64]), locked = False,
           define_loc = Some (Loc ''f.py'' 1)\<rparr>)] [], Return ())
   \<and> BuildTupleConstraint_call example_context
      (BuildTupleConstraint ''t'' [''a'', ''b''] (Loc ''f.py'' 1))
      (inferer [(''a'', cell ''a'' (Some int64) False)] []) =
     Some (inferer [(''a'', cell ''a'' (Some int64) False), (''b'', TypeVar_init ''b''),
        (''t'', TypeVar_init ''t'')] [], Return ())"
proof -
  let ?A = "inferer [(''a'', cell ''a'' (Some int64) False)] []"
  let ?A' = "inferer [(''a'', cell ''a'' (Some int64) False), (''t'', TypeVar_init ''t'')] []"
  let ?B = "inferer [(''a'', cell ''a'' (Some int64) False), (''b'', cell ''b'' (Some float64) False)] []"
  let ?B' = "inferer [(''a'', cell ''a'' (Some int64) False), (''b'', cell ''b'' (Some float64) False),
     (''t'', TypeVar_init ''t'')] []"
  let ?C1 = "inferer [(''a'', cell ''a'' (Some int64) False), (''b'', TypeVar_init ''b'')] []"
  let ?C2 = "inferer [(''a'', cell ''a'' (Some int64) False), (''b'', TypeVar_init ''b''),
        (''t'', TypeVar_init ''t'')] []"
  have a1: "typevars_of ?A [''a'', ''a'', ''a''] =
      (?A, [cell ''a'' (Some int64) False, cell ''a'' (Some int64) False, cell ''a'' (Some int64) False])"
    by (simp add: eval_defs)
  have a2: "typevar ?A ''t'' = (?A', TypeVar_init ''t'')"
    by (simp add: eval_defs)
  have b1: "typevars_of ?B [''a'', ''b''] =
      (?B, [cell ''a'' (Some int64) False, cell ''b'' (Some float64) False])"
    by (simp add: eval_defs)
  have b2: "typevar ?B ''t'' = (?B', TypeVar_init ''t'')"
    by (simp add: eval_defs)
  have c1: "typevars_of ?A [''a'', ''b''] = (?C1, [cell ''a'' (Some int64) False, TypeVar_init ''b''])"
    by (simp add: eval_defs)
  have c2: "typevar ?C1 ''t'' = (?C2, TypeVar_init ''t'')"
    by (simp add: eval_defs)
  have r1: "BuildTupleConstraint_call example_context
      (BuildTupleConstraint ''t'' [''a'', ''a'', ''a''] (Loc ''f.py'' 1)) ?A =
     Some (inferer [(''a'', cell ''a'' (Some int64) False),
        (''t'', \<lparr>var = ''t'', type = Some (UniTuple int64 3), locked = False,
           define_loc = Some (Loc ''f.py'' 1)\<rparr>)] [], Return ())"
    using BuildTupleConstraint_emits [OF a1 a2, where vals = "[int64, int64, int64]"
        and ctx = example_context and l = "Loc ''f.py'' 1"]
    by (simp add: eval_defs get_def defined_def)
  have r2: "BuildTupleConstraint_call example_context
      (BuildTupleConstraint ''t'' [''a'', ''b''] (Loc ''f.py'' 1)) ?B =
     Some (inferer [(''a'', cell ''a'' (Some int64) False), (''b'', cell ''b'' (Some float64) False),
        (''t'', \<lparr>var = ''t'', type = Some (Tuple [int64, float64]), locked = False,
           define_loc = Some (Loc ''f.py'' 1)\<rparr>)] [], Return ())"
    using BuildTupleConstraint_emits [OF b1 b2, where vals = "[int64, float64]"
        and ctx = example_context and l = "Loc ''f.py'' 1"]
    by (simp add: eval_defs get_def defined_def)
  have r3: "BuildTupleConstraint_call example_context
      (BuildTupleConstraint ''t'' [''a'', ''b''] (Loc ''f.py'' 1)) ?A = Some (?C2, Return ())"
    using BuildTupleConstraint_emits [OF c1 c2, where ctx = example_context
        and l = "Loc ''f.py'' 1"]
    by (simp add: eval_defs get_def defined_def)
  show ?thesis using r1 r2 r3 by simp
qed

text \<open>
  The claim C6 as stated fails for zero items: the constraint adds \<^verbatim>\<open>Tuple(())\<close>, which
  is no \<^verbatim>\<open>UniTuple\<close>.
\<close>

theorem BuildTupleConstraint_empty_counterexample:
  "BuildTupleConstraint_call example_context (BuildTupleConstraint ''t'' [] (Loc ''f.py'' 1))
      (inferer [] []) =
     Some (inferer [(''t'', \<lparr>var = ''t'', type = Some (Tuple []), locked = False,
        define_loc = Some (Loc ''f.py'' 1)\<rparr>)] [], Return ())
   \<and> (\<forall>t n. Tuple [] \<noteq> UniTuple t n)"
  by (simp add: BuildTupleConstraint_call_def eval_defs)

text \<open>
  C7. \<^verbatim>\<open>ExhaustIterConstraint\<close>, fired, for the candidate type \<open>T\<close> of the iterator
  variable: a \<^verbatim>\<open>BaseTuple\<close> of length \<open>count\<close> is added to the target; a \<^verbatim>\<open>BaseTuple\<close>
  of another length fails with the wrong-tuple-length error, as the error context
  passes it on; any other type that is an \<^verbatim>\<open>IterableType\<close> adds
  \<^verbatim>\<open>UniTuple(T.iterator_type.yield_type, count)\<close>; every other candidate, and an
  undefined iterator variable, writes nothing and raises nothing.
\<close>

theorem ExhaustIterConstraint_cases:
  assumes "typevar typeinfer t = (ti1, oset)" and "typevar ti1 it = (ti2, c)"
  shows
  "(type c = None \<longrightarrow>
      ExhaustIterConstraint_call ctx (ExhaustIterConstraint t n it l) typeinfer =
        Some (ti2, Return ()))
   \<and> (type c = Some T \<and> is_BaseTuple T \<and> len_ty T = n \<longrightarrow>
      ExhaustIterConstraint_call ctx (ExhaustIterConstraint t n it l) typeinfer =
        with_error_context ctx (Errctx ''typing of exhaust iter at {0}'' [Fmt_loc l])
          (TypeInferer_add_type ctx ti2 t (Some T) (Some l) False))
   \<and> (type c = Some T \<and> is_BaseTuple T \<and> len_ty T \<noteq> n \<longrightarrow>
      ExhaustIterConstraint_call ctx (ExhaustIterConstraint t n it l) typeinfer =
        Some (ti2, Raise (new_error_context ctx
          (Errctx ''typing of exhaust iter at {0}'' [Fmt_loc l])
          (ValueError (Wrong_tuple_length it n (len_ty T))))))
   \<and> (type c = Some T \<and> \<not> is_BaseTuple T \<and> iterator_yield_type ctx T = Some y \<longrightarrow>
      ExhaustIterConstraint_call ctx (ExhaustIterConstraint t n it l) typeinfer =
        with_error_context ctx (Errctx ''typing of exhaust iter at {0}'' [Fmt_loc l])
          (TypeInferer_add_type ctx ti2 t (Some (UniTuple y n)) (Some l) False))
   \<and> (type c = Some T \<and> \<not> is_BaseTuple T \<and> iterator_yield_type ctx T = None \<longrightarrow>
      ExhaustIterConstraint_call ctx (ExhaustIterConstraint t n it l) typeinfer =
        Some (ti2, Return ()))"
  using assms
  by (simp add: ExhaustIterConstraint_call_def for_each_get with_error_context_def)

theorem ExhaustIterConstraint_cases_witness:
  "ExhaustIterConstraint_call example_context
      (ExhaustIterConstraint ''t'' 2 ''it'' (Loc ''f.py'' 1))
      (inferer [(''t'', TypeVar_init ''t''), (''it'', cell ''it'' (Some (Tuple [int64, float64])) False)] []) =
     Some (inferer [(''t'', \<lparr>var = ''t'', type = Some (Tuple [int64, float64]), locked = False,
           define_loc = Some (Loc ''f.py'' 1)\<rparr>),
         (''it'', cell ''it'' (Some (Tuple [int64, float64])) False)] [], Return ())
   \<and> ExhaustIterConstraint_call example_context
      (ExhaustIterConstraint ''t'' 2 ''it'' (Loc ''f.py'' 1))
      (inferer [(''t'', TypeVar_init ''t''), (''it'', cell ''it'' (Some (UniTuple int64 3)) False)] []) =
     Some (inferer [(''t'', TypeVar_init ''t''),
         (''it'', cell ''it'' (Some (UniTuple int64 3)) False)] [],
       Raise (InternalError (ValueError (Wrong_tuple_length ''it'' 2 3))))
   \<and> ExhaustIterConstraint_call example_context
      (ExhaustIterConstraint ''t'' 2 ''it'' (Loc ''f.py'' 1))
      (inferer [(''t'', TypeVar_init ''t''), (''it'', cell ''it'' (Some (List_ty int64)) False)] []) =
     Some (inferer [(''t'', \<lparr>var = ''t'', type = Some (UniTuple int64 2), locked = False,
           define_loc = Some (Loc ''f.py'' 1)\<rparr>),
         (''it'', cell ''it'' (Some (List_ty int64)) False)] [], Return ())
   \<and> ExhaustIterConstraint_call example_context
      (ExhaustIterConstraint ''t'' 2 ''it'' (Loc ''f.py'' 1))
      (inferer [(''t'', TypeVar_init ''t''), (''it'', cell ''it'' (Some int64) False)] []) =
     Some (inferer [(''t'', TypeVar_init ''t''), (''it'', cell ''it'' (Some int64) False)] [],
       Return ())"
proof -
  have tv: "typevar (inferer [(''t'', TypeVar_init ''t''), (''it'', cell ''it'' ct False)] []) ''t'' =
      (inferer [(''t'', TypeVar_init ''t''), (''it'', cell ''it'' ct False)] [], TypeVar_init ''t'')"
    and iv: "typevar (inferer [(''t'', TypeVar_init ''t''), (''it'', cell ''it'' ct False)] []) ''it'' =
      (inferer [(''t'', TypeVar_init ''t''), (''it'', cell ''it'' ct False)] [], cell ''it'' ct False)"
    for ct
    by (simp_all add: eval_defs)
  have r1: "ExhaustIterConstraint_call example_context
      (ExhaustIterConstraint ''t'' 2 ''it'' (Loc ''f.py'' 1))
      (inferer [(''t'', TypeVar_init ''t''), (''it'', cell ''it'' (Some (Tuple [int64, float64])) False)] []) =
     Some (inferer [(''t'', \<lparr>var = ''t'', type = Some (Tuple [int64, float64]), locked = False,
           define_loc = Some (Loc ''f.py'' 1)\<rparr>),
         (''it'', cell ''it'' (Some (Tuple [int64, float64])) False)] [], Return ())"
    using ExhaustIterConstraint_cases [OF tv [of "Some (Tuple [int64, float64])"] iv [of "Some (Tuple [int64, float64])"], where ctx = example_context
        and n = 2 and l = "Loc ''f.py'' 1" and T = "Tuple [int64, float64]"]
    by (simp add: eval_defs)
  have r2: "ExhaustIterConstraint_call example_context
      (ExhaustIterConstraint ''t'' 2 ''it'' (Loc ''f.py'' 1))
      (inferer [(''t'', TypeVar_init ''t''), (''it'', cell ''it'' (Some (UniTuple int64 3)) False)] []) =
     Some (inferer [(''t'', TypeVar_init ''t''),
         (''it'', cell ''it'' (Some (UniTuple int64 3)) False)] [],
       Raise (InternalError (ValueError (Wrong_tuple_length ''it'' 2 3))))"
    using ExhaustIterConstraint_cases [OF tv [of "Some (UniTuple int64 3)"] iv [of "Some (UniTuple int64 3)"], where ctx = example_context
        and n = 2 and l = "Loc ''f.py'' 1" and T = "UniTuple int64 3"]
    by (simp add: eval_defs)
  have r3: "ExhaustIterConstraint_call example_context
      (ExhaustIterConstraint ''t'' 2 ''it'' (Loc ''f.py'' 1))
      (inferer [(''t'', TypeVar_init ''t''), (''it'', cell ''it'' (Some (List_ty int64)) False)] []) =
     Some (inferer [(''t'', \<lparr>var = ''t'', type = Some (UniTuple int64 2), locked = False,
           define_loc = Some (Loc ''f.py'' 1)\<rparr>),
         (''it'', cell ''it'' (Some (List_ty int64)) False)] [], Return ())"
    using ExhaustIterConstraint_cases [OF tv [of "Some (List_ty int64)"] iv [of "Some (List_ty int64)"], where ctx = example_context
        and n = 2 and l = "Loc ''f.py'' 1" and T = "List_ty int64" and y = int64]
    by (simp add: eval_defs)
  have r4: "ExhaustIterConstraint_call example_context
      (ExhaustIterConstraint ''t'' 2 ''it'' (Loc ''f.py'' 1))
      (inferer [(''t'', TypeVar_init ''t''), (''it'', cell ''it'' (Some int64) False)] []) =
     Some (inferer [(''t'', TypeVar_init ''t''), (''it'', cell ''it'' (Some int64) False)] [],
       Return ())"
    using ExhaustIterConstraint_cases [OF tv [of "Some int64"] iv [of "Some int64"], where ctx = example_context
        and n = 2 and l = "Loc ''f.py'' 1" and T = "int64"]
    by (simp add: eval_defs)
  show ?thesis using r1 r2 r3 r4 by simp
qed

text \<open>
  C9. \<^verbatim>\<open>PairFirstConstraint\<close> and \<^verbatim>\<open>PairSecondConstraint\<close>, fired: a candidate that is a
  \<^verbatim>\<open>Pair\<close> adds its first (respectively second) component type to the target; a candidate
  that is not a \<^verbatim>\<open>Pair\<close> writes nothing to the target and raises nothing.
\<close>

theorem Pair_constraints_cases:
  assumes "typevar typeinfer t = (ti1, oset)" and "typevar ti1 p = (ti2, c)"
  shows
  "(type c = Some (Pair_ty a b) \<longrightarrow>
      PairFirstConstraint_call ctx (PairFirstConstraint t p l) typeinfer =
        with_error_context ctx (Errctx ''typing of pair-first at {0}'' [Fmt_loc l])
          (TypeInferer_add_type ctx ti2 t (Some a) (Some l) False)
      \<and> PairSecondConstraint_call ctx (PairSecondConstraint t p l) typeinfer =
        with_error_context ctx (Errctx ''typing of pair-second at {0}'' [Fmt_loc l])
          (TypeInferer_add_type ctx ti2 t (Some b) (Some l) False))
   \<and> ((\<forall>a b. type c \<noteq> Some (Pair_ty a b)) \<longrightarrow>
      PairFirstConstraint_call ctx (PairFirstConstraint t p l) typeinfer =
        Some (ti2, Return ())
      \<and> PairSecondConstraint_call ctx (PairSecondConstraint t p l) typeinfer =
        Some (ti2, Return ()))"
  using assms
  by (auto simp: PairFirstConstraint_call_def PairSecondConstraint_call_def for_each_get
      with_error_context_def split: option.splits ty.splits)

theorem Pair_constraints_cases_witness:
  "PairFirstConstraint_call example_context (PairFirstConstraint ''t'' ''p'' (Loc ''f.py'' 1))
      (inferer [(''t'', TypeVar_init ''t''), (''p'', cell ''p'' (Some (Pair_ty int32 float64)) False)] []) =
     Some (inferer [(''t'', \<lparr>var = ''t'', type = Some int32, locked = False,
           define_loc = Some (Loc ''f.py'' 1)\<rparr>),
         (''p'', cell ''p'' (Some (Pair_ty int32 float64)) False)] [], Return ())
   \<and> PairSecondConstraint_call example_context (PairSecondConstraint ''t'' ''p'' (Loc ''f.py'' 1))
      (inferer [(''t'', TypeVar_init ''t''), (''p'', cell ''p'' (Some (Pair_ty int32 float64)) False)] []) =
     Some (inferer [(''t'', \<lparr>var = ''t'', type = Some float64, locked = False,
           define_loc = Some (Loc ''f.py'' 1)\<rparr>),
         (''p'', cell ''p'' (Some (Pair_ty int32 float64)) False)] [], Return ())
   \<and> PairFirstConstraint_call example_context (PairFirstConstraint ''t'' ''p'' (Loc ''f.py'' 1))
      (inferer [(''t'', TypeVar_init ''t''), (''p'', cell ''p'' (Some int64) False)] []) =
     Some (inferer [(''t'', TypeVar_init ''t''), (''p'', cell ''p'' (Some int64) False)] [],
       Return ())
   \<and> PairSecondConstraint_call example_context (PairSecondConstraint ''t'' ''p'' (Loc ''f.py'' 1))
      (inferer [(''t'', TypeVar_init ''t''), (''p'', cell ''p'' (Some int64) False)] []) =
     Some (inferer [(''t'', TypeVar_init ''t''), (''p'', cell ''p'' (Some int64) False)] [],
       Return ())"
proof -
  have tv: "typevar (inferer [(''t'', TypeVar_init ''t''), (''p'', cell ''p'' ct False)] []) ''t'' =
      (inferer [(''t'', TypeVar_init ''t''), (''p'', cell ''p'' ct False)] [], TypeVar_init ''t'')"
    and pv: "typevar (inferer [(''t'', TypeVar_init ''t''), (''p'', cell ''p'' ct False)] []) ''p'' =
      (inferer [(''t'', TypeVar_init ''t''), (''p'', cell ''p'' ct False)] [], cell ''p'' ct False)"
    for ct
    by (simp_all add: eval_defs)
  show ?thesis
    using
      Pair_constraints_cases [OF tv [of "Some (Pair_ty int32 float64)"]
        pv [of "Some (Pair_ty int32 float64)"], where ctx = example_context
        and l = "Loc ''f.py'' 1" and a = int32 and b = float64]
      Pair_constraints_cases [OF tv [of "Some int64"] pv [of "Some int64"],
        where ctx = example_context and l = "Loc ''f.py'' 1"]
    by (simp add: eval_defs)
qed

subsection \<open>The signature stored by a print\<close>

lemma typevar_lookup: "typevar s n = (s', tv) \<Longrightarrow> map_of (typevars s') n = Some tv"
  by (auto simp: typevar_def TypeVarMap_getitem_def map_add_def split: option.splits)

lemma typevar_existing:
  "map_of (typevars s) n = Some tv \<Longrightarrow> typevar s n = (s, tv)"
  by (cases s) (simp add: typevar_def TypeVarMap_getitem_def)

lemma resolve_call_no_invalid_usage:
  "resolve_call ctx ti fnty pos kw \<noteq> (ti', Raise (TypingError (Invalid_usage f p k d) l))"
  by (auto simp: resolve_call_def unify_return_types_def
      split: callee.splits ty.splits prod.splits option.splits frame.splits if_splits)

lemma fold_arg_vars_no_invalid_usage:
  "fold_arg_vars ti as va ks \<noteq> (ti', Raise (TypingError (Invalid_usage f p k d) l))"
  by (auto simp: fold_arg_vars_def Let_def split: prod.splits option.splits if_splits)

text \<open>
  C10, as the code has it. \<^verbatim>\<open>PrintConstraint\<close> never raises an invalid-call error. When
  all argument cells are defined and the variable for \<^verbatim>\<open>*args\<close>, if there is one, has a
  tuple type, the arguments fold, and the constraint stores whatever \<^verbatim>\<open>resolve_call\<close>
  returns as its signature, \<^verbatim>\<open>None\<close> included; \<^verbatim>\<open>get_function_types\<close> then enters that
  value for the call, so that the entry is \<^verbatim>\<open>None\<close> where the built-in \<^verbatim>\<open>print\<close> does
  not resolve.
\<close>

theorem PrintConstraint_stores:
  "(typevars_of typeinfer (as @ (case va of None \<Rightarrow> [] | Some v \<Rightarrow> [v])) = (ti1, cells)
      \<and> list_all defined cells
      \<and> (va = None \<or> is_BaseTuple (last (concat (map get cells)))) \<longrightarrow>
      (\<exists>pos_args kw_args.
         fold_arg_vars typeinfer as va [] = (ti1, Return (Some (pos_args, kw_args)))))
   \<and> (fold_arg_vars typeinfer as va [] = (ti1, Return (Some (pos_args, kw_args)))
      \<and> resolve_call ctx ti1 (Callee_type (resolve_value_type ctx (PyObject ''print'')))
           pos_args kw_args = (ti2, Return sg) \<longrightarrow>
      PrintConstraint_call ctx (PrintConstraint as va l s0) typeinfer =
        ((PrintConstraint as va l (Some sg), ti2), Return ()))
   \<and> snd (PrintConstraint_call ctx (PrintConstraint as va l s0) typeinfer) \<noteq>
        Raise (TypingError (Invalid_usage f p k d) l')
   \<and> (calls self = [(call, i)] \<and> calltypes self = []
      \<and> constraints self ! i = PrintConstraint as va l (Some sg) \<longrightarrow>
      get_function_types self = (self\<lparr>calltypes := [(call, sg)]\<rparr>, Return [(call, sg)]))"
proof -
  have a: "snd (PrintConstraint_call ctx (PrintConstraint as va l s0) typeinfer) \<noteq>
        Raise (TypingError (Invalid_usage f p k d) l')"
    by (auto simp: PrintConstraint_call_def fold_arg_vars_no_invalid_usage
        resolve_call_no_invalid_usage split: prod.splits outcome.splits option.splits)
  have b: "fold_arg_vars typeinfer as va [] = (ti1, Return (Some (pos_args, kw_args)))
      \<and> resolve_call ctx ti1 (Callee_type (resolve_value_type ctx (PyObject ''print'')))
           pos_args kw_args = (ti2, Return sg) \<longrightarrow>
      PrintConstraint_call ctx (PrintConstraint as va l s0) typeinfer =
        ((PrintConstraint as va l (Some sg), ti2), Return ())"
    by (simp add: PrintConstraint_call_def)
  have c: "typevars_of typeinfer (as @ (case va of None \<Rightarrow> [] | Some v \<Rightarrow> [v])) = (ti1, cells)
      \<and> list_all defined cells
      \<and> (va = None \<or> is_BaseTuple (last (concat (map get cells)))) \<longrightarrow>
      (\<exists>pos_args kw_args.
         fold_arg_vars typeinfer as va [] = (ti1, Return (Some (pos_args, kw_args))))"
    by (auto simp: fold_arg_vars_def Let_def split: option.splits if_splits)
  have d: "calls self = [(call, i)] \<and> calltypes self = []
      \<and> constraints self ! i = PrintConstraint as va l (Some sg) \<longrightarrow>
      get_function_types self = (self\<lparr>calltypes := [(call, sg)]\<rparr>, Return [(call, sg)])"
    by (simp add: get_function_types_def UniqueDict_setitem_def)
  show ?thesis using a b c d by blast
qed

theorem PrintConstraint_stores_witness:
  "PrintConstraint_call example_context
       (PrintConstraint [''a''] None (Loc ''f.py'' 1) None)
       (inferer [(''a'', cell ''a'' (Some (Pair_ty int32 int32)) False)] []) =
     ((PrintConstraint [''a''] None (Loc ''f.py'' 1) (Some None),
       inferer [(''a'', cell ''a'' (Some (Pair_ty int32 int32)) False)] []), Return ())
   \<and> get_function_types
       ((inferer [(''a'', cell ''a'' (Some (Pair_ty int32 int32)) False)]
          [PrintConstraint [''a''] None (Loc ''f.py'' 1) (Some None)])
          \<lparr>calls := [(''print.1'', 0)]\<rparr>) =
     ((inferer [(''a'', cell ''a'' (Some (Pair_ty int32 int32)) False)]
          [PrintConstraint [''a''] None (Loc ''f.py'' 1) (Some None)])
          \<lparr>calls := [(''print.1'', 0)], calltypes := [(''print.1'', None)]\<rparr>,
      Return [(''print.1'', None)])"
proof -
  let ?I = "inferer [(''a'', cell ''a'' (Some (Pair_ty int32 int32)) False)] []"
  let ?K = "(inferer [(''a'', cell ''a'' (Some (Pair_ty int32 int32)) False)]
          [PrintConstraint [''a''] None (Loc ''f.py'' 1) (Some None)])
          \<lparr>calls := [(''print.1'', 0)]\<rparr>"
  have f: "fold_arg_vars ?I [''a''] None [] = (?I, Return (Some ([Pair_ty int32 int32], [])))"
    by (simp add: fold_arg_vars_def dict_of_def get_def defined_def eval_defs)
  have r: "resolve_call example_context ?I
      (Callee_type (resolve_value_type example_context (PyObject ''print'')))
      [Pair_ty int32 int32] [] = (?I, Return None)"
    by (simp add: resolve_call_def example_resolve_function_type_def eval_defs)
  have k: "calls ?K = [(''print.1'', 0)]" "calltypes ?K = []"
    "constraints ?K ! 0 = PrintConstraint [''a''] None (Loc ''f.py'' 1) (Some None)"
    by (simp_all add: inferer_def)
  show ?thesis
    using PrintConstraint_stores [where typeinfer = "?I" and as = "[''a'']" and va = None
        and ctx = example_context and ?ti1.0 = "?I" and ?ti2.0 = "?I"
        and pos_args = "[Pair_ty int32 int32]" and kw_args = "[]" and sg = None
        and l = "Loc ''f.py'' 1" and ?s0.0 = None and self = "?K" and call = "''print.1''"
        and i = 0] f r k
    by simp
qed

text \<open>
  The claim C10 as stated fails for a \<^verbatim>\<open>*args\<close> variable that is defined with a type
  that is no tuple: every argument cell is defined, and the constraint raises the
  \<^verbatim>\<open>TypeError\<close> of \<^verbatim>\<open>fold_arg_vars\<close> and stores nothing.
\<close>

theorem PrintConstraint_vararg_counterexample:
  "typevars_of (inferer [(''v'', cell ''v'' (Some int64) False)] []) [''v''] =
     (inferer [(''v'', cell ''v'' (Some int64) False)] [], [cell ''v'' (Some int64) False])
   \<and> list_all defined [cell ''v'' (Some int64) False]
   \<and> PrintConstraint_call example_context
       (PrintConstraint [] (Some ''v'') (Loc ''f.py'' 1) None)
       (inferer [(''v'', cell ''v'' (Some int64) False)] []) =
     ((PrintConstraint [] (Some ''v'') (Loc ''f.py'' 1) None,
       inferer [(''v'', cell ''v'' (Some int64) False)] []),
      Raise (TypeError (Vararg_not_tuple int64)))"
  by (simp add: PrintConstraint_call_def fold_arg_vars_def get_def defined_def eval_defs)

subsection \<open>Every operation advances the inferer\<close>

lemma cell_steps_refl: "cell_steps ctx tv tv"
  by (simp add: cell_steps_def widened.same)

lemma cell_steps_trans:
  "cell_steps ctx a b \<Longrightarrow> cell_steps ctx b c \<Longrightarrow> cell_steps ctx a c"
  by (auto simp: cell_steps_def intro: widened.chain)

lemma advances_refl: "advances ctx s s"
  by (simp add: advances_def cell_steps_refl)

lemma advances_trans:
  assumes "advances ctx a b" and "advances ctx b c"
  shows "advances ctx a c"
proof -
  have "\<exists>tv''. map_of (typevars c) n = Some tv'' \<and> cell_steps ctx tv tv''"
    if "map_of (typevars a) n = Some tv" for n tv
  proof -
    from assms(1) that obtain tv' where "map_of (typevars b) n = Some tv'" "cell_steps ctx tv tv'"
      unfolding advances_def by blast
    moreover from assms(2) this obtain tv'' where
      "map_of (typevars c) n = Some tv''" "cell_steps ctx tv' tv''"
      unfolding advances_def by blast
    ultimately show ?thesis using cell_steps_trans by blast
  qed
  moreover have "\<exists>new. map fst (typevars c) = map fst (typevars a) @ new"
    using assms unfolding advances_def by auto
  ultimately show ?thesis
    using assms unfolding advances_def by simp
qed

lemma typevar_advances: "typevar s n = (s1, tv) \<Longrightarrow> advances ctx s s1"
  by (auto simp: typevar_def TypeVarMap_getitem_def advances_def cell_steps_refl map_add_def
      split: option.splits)

lemma store_advances:
  assumes "map_of (typevars s) n = Some tv" and "cell_steps ctx tv tv'"
  shows "advances ctx s (store s n tv')"
proof -
  have "n \<in> fst ` set (typevars s)"
    using assms(1) by (metis map_of_eq_None_iff option.distinct(1))
  then have "map fst (AList.update n tv' (typevars s)) = map fst (typevars s)"
    by (simp add: update_keys)
  then show ?thesis
    using assms by (auto simp: advances_def store_def update_conv' cell_steps_refl)
qed

lemma refine_map_advances: "advances ctx s (s\<lparr>refine_map := m\<rparr>)"
  by (simp add: advances_def cell_steps_refl)

lemma TypeVar_add_type_steps: "TypeVar_add_type ctx tv tp l = (tv', r) \<Longrightarrow> cell_steps ctx tv tv'"
  by (auto simp: TypeVar_add_type_def cell_steps_def
      intro: widened.intros split: option.splits if_splits)

lemma TypeVar_union_steps: "TypeVar_union ctx tv ot l = (tv', r) \<Longrightarrow> cell_steps ctx tv tv'"
  by (auto simp: TypeVar_union_def cell_steps_refl dest: TypeVar_add_type_steps
      split: if_splits prod.splits outcome.splits)

lemma typevar_store_advances:
  assumes "typevar s n = (s1, tv)" and "cell_steps ctx tv tv'"
  shows "advances ctx s (store s1 n tv')"
  using advances_trans [OF typevar_advances [OF assms(1)]
      store_advances [OF typevar_lookup [OF assms(1)] assms(2)]] .

lemma invoke_advances_fst: "invoke ctx call s = Some y \<Longrightarrow> advances ctx s (fst y)"
  proof (induct rule: invoke.raw_induct [rotated 1, consumes 1])
    case (1 inv ctx call self y)
    show ?case
    proof (cases call)
      case (Add_type v tp l ul)
      obtain self1 tv where tv: "typevar self v = (self1, tv)"
        by (cases "typevar self v")
      obtain tv' out where at: "TypeVar_add_type ctx tv tp l = (tv', out)"
        by (cases "TypeVar_add_type ctx tv tp l")
      note st = typevar_store_advances [OF tv TypeVar_add_type_steps [OF at]]
      show ?thesis
      proof (cases "ul \<and> locked tv")
        case True
        with 1(2) Add_type tv show ?thesis
          by (auto simp: typevar_advances)
      next
        case False
        show ?thesis
        proof (cases out)
          case (Raise e)
          with 1(2) Add_type tv at False st show ?thesis by auto
        next
          case (Return unified)
          show ?thesis
          proof (cases "unified \<noteq> type tv")
            case True
            with 1(2) Add_type tv at False Return
            have "inv ctx (Propagate_refined_type v unified) (store self1 v tv') = Some y"
              by auto
            from 1(1) [OF this] st show ?thesis by (rule advances_trans [rotated])
          next
            case F: False
            with 1(2) Add_type tv at False Return st show ?thesis by auto
          qed
        qed
      qed
    next
      case (Propagate_refined_type v t)
      with 1 show ?thesis
        by (auto simp: advances_refl split: option.splits)
    next
      case (Refine c t)
      show ?thesis
      proof (cases c)
        case (Propagate d sv l)
        with 1 Refine show ?thesis by auto
      next
        case (GetAttrConstraint tg a v l il)
        show ?thesis
        proof (cases "\<exists>f this. t = Some (BoundFunction f this)")
          case False
          with 1(2) Refine GetAttrConstraint show ?thesis
            by (auto simp: advances_refl split: option.splits ty.splits)
        next
          case True
          then obtain f this where t: "t = Some (BoundFunction f this)" by blast
          with 1(2) Refine GetAttrConstraint obtain s1 r1 where
            a: "inv ctx (Add_type v (Some this) (Some l) False) self = Some (s1, r1)" and
            b: "(case r1 of Raise e \<Rightarrow> Some (s1, Raise e)
                 | Return _ \<Rightarrow> (case refine_map s1 v of None \<Rightarrow> Some (s1, Return ())
                    | Some sc \<Rightarrow> inv ctx (Refine sc (Some this)) s1)) = Some y"
            by (auto simp: bind_eq_Some_conv split: prod.splits)
          from 1(1) [OF a] have a': "advances ctx self s1" by simp
          show ?thesis
          proof (cases r1)
            case (Raise e)
            with b a' show ?thesis by auto
          next
            case (Return u)
            show ?thesis
            proof (cases "refine_map s1 v")
              case None
              with b Return a' show ?thesis by auto
            next
              case (Some sc)
              with b Return have "inv ctx (Refine sc (Some this)) s1 = Some y" by simp
              from 1(1) [OF this] a' show ?thesis by (rule advances_trans [rotated])
            qed
          qed
        qed
      qed (use 1(2) Refine in \<open>auto simp: advances_refl\<close>)
    qed
  qed

lemma invoke_advances: "invoke ctx call s = Some (s', r) \<Longrightarrow> advances ctx s s'"
  using invoke_advances_fst by fastforce


lemma add_type_advances:
  "advances ctx s0 s \<Longrightarrow> TypeInferer_add_type ctx s v tp l ul = Some (s', r) \<Longrightarrow>
     advances ctx s0 s'"
  unfolding TypeInferer_add_type_def by (blast intro: advances_trans invoke_advances)

lemma propagate_refined_type_advances:
  "advances ctx s0 s \<Longrightarrow> propagate_refined_type ctx s v t = Some (s', r) \<Longrightarrow>
     advances ctx s0 s'"
  unfolding propagate_refined_type_def by (blast intro: advances_trans invoke_advances)

lemma typevar_advances':
  "advances ctx s0 s \<Longrightarrow> typevar s n = (s', tv) \<Longrightarrow> advances ctx s0 s'"
  by (blast intro: advances_trans typevar_advances)

lemma typevars_of_advances:
  "advances ctx s0 s \<Longrightarrow> typevars_of s ns = (s', tvs) \<Longrightarrow> advances ctx s0 s'"
proof (induction ns arbitrary: s tvs)
  case Nil
  then show ?case by simp
next
  case (Cons n ns)
  then show ?case
    by (auto split: prod.splits dest: typevar_advances')
qed

lemma all_defined_advances:
  "advances ctx s0 s \<Longrightarrow> all_defined s ns = (s', b) \<Longrightarrow> advances ctx s0 s'"
proof (induction ns arbitrary: s)
  case Nil
  then show ?case by simp
next
  case (Cons n ns)
  then show ?case
    by (auto split: prod.splits if_splits dest: typevar_advances')
qed

lemma getone_var_advances:
  "advances ctx s0 s \<Longrightarrow> getone_var s n = (s', r) \<Longrightarrow> advances ctx s0 s'"
  by (auto simp: getone_var_def split: prod.splits dest: typevar_advances')

lemma seq_advances:
  assumes "seq x f = (s', r)" and "advances ctx s0 (fst x)"
    and "\<And>s a s'' r'. advances ctx s0 s \<Longrightarrow> f s a = (s'', r') \<Longrightarrow> advances ctx s0 s''"
  shows "advances ctx s0 s'"
  using assms by (cases x) (auto simp: seq_def split: outcome.splits)

lemma collect_rettypes_advances:
  "advances ctx s0 s \<Longrightarrow> collect_rettypes s ns acc = (s', ts) \<Longrightarrow> advances ctx s0 s'"
proof (induction ns arbitrary: s acc)
  case Nil
  then show ?case by simp
next
  case (Cons n ns)
  then show ?case
    by (auto split: prod.splits dest: typevar_advances')
qed

lemma fold_arg_vars_advances:
  "advances ctx s0 s \<Longrightarrow> fold_arg_vars s as va ks = (s', r) \<Longrightarrow> advances ctx s0 s'"
  by (auto simp: fold_arg_vars_def Let_def split: prod.splits if_splits option.splits
      dest: typevars_of_advances)

lemma resolve_call_advances:
  "advances ctx s0 s \<Longrightarrow> resolve_call ctx s fnty pos kw = (s', r) \<Longrightarrow> advances ctx s0 s'"
  by (auto simp: resolve_call_def split: callee.splits ty.splits prod.splits option.splits
      frame.splits if_splits outcome.splits dest: collect_rettypes_advances)

lemma copy_type_advances:
  assumes "advances ctx s0 s" and "copy_type ctx s sv dv l = (s', r)"
  shows "advances ctx s0 s'"
proof -
  obtain s1 dtv where d: "typevar s dv = (s1, dtv)" by (cases "typevar s dv")
  obtain s2 stv where sv: "typevar s1 sv = (s2, stv)" by (cases "typevar s1 sv")
  obtain tv' out where u: "TypeVar_union ctx dtv (type stv) l = (tv', out)"
    by (cases "TypeVar_union ctx dtv (type stv) l")
  from typevar_advances [OF sv, of ctx] typevar_lookup [OF d]
  obtain dtv' where l: "map_of (typevars s2) dv = Some dtv'" and c: "cell_steps ctx dtv dtv'"
    unfolding advances_def by blast
  have "dtv' = dtv"
    using sv typevar_lookup [OF d] l
    by (auto simp: typevar_def TypeVarMap_getitem_def map_add_def split: option.splits)
  with l have "advances ctx s2 (store s2 dv tv')"
    using store_advances TypeVar_union_steps [OF u] by blast
  moreover have "advances ctx s0 s2"
    using assms(1) d sv by (blast dest: typevar_advances')
  moreover have "s' = store s2 dv tv'"
    using assms(2) d sv u by (auto simp: copy_type_def split: outcome.splits)
  ultimately show ?thesis by (blast intro: advances_trans)
qed

lemma with_error_contextD:
  "with_error_context ctx ec x = Some (s', r) \<Longrightarrow> \<exists>r'. x = Some (s', r')"
  by (auto simp: with_error_context_def split: option.splits prod.splits outcome.splits)

lemma for_each_invariant:
  assumes "\<And>x s s' r. x \<in> set xs \<Longrightarrow> Q s \<Longrightarrow> body x s = Some (s', r) \<Longrightarrow> Q s'"
  shows "Q s \<Longrightarrow> for_each xs body s = Some (s', r) \<Longrightarrow> Q s'"
  using assms
proof (induction xs arbitrary: s)
  case Nil
  then show ?case by simp
next
  case (Cons x xs)
  from Cons.prems(2) obtain s1 r1 where b: "body x s = Some (s1, r1)"
    by (auto split: option.splits)
  with Cons.prems(1,3) have q: "Q s1" by (meson list.set_intros(1))
  show ?case
  proof (cases r1)
    case (Raise e)
    with Cons.prems(2) b q show ?thesis by simp
  next
    case (Return u)
    with Cons.prems(2) b have "for_each xs body s1 = Some (s', r)" by simp
    with Cons.IH [OF q] Cons.prems(3) show ?thesis by (meson list.set_intros(2))
  qed
qed

lemma Propagate_call_advances:
  "Propagate_call ctx c s = Some (s', r) \<Longrightarrow> advances ctx s s'"
  by (auto simp: Propagate_call_def dest!: with_error_contextD
      split: prod.splits outcome.splits
      intro: copy_type_advances [OF advances_refl]
        advances_trans [OF copy_type_advances [OF advances_refl] refine_map_advances])

lemma ArgConstraint_call_advances:
  "ArgConstraint_call ctx c s = Some (s', r) \<Longrightarrow> advances ctx s s'"
  by (auto simp: ArgConstraint_call_def dest!: with_error_contextD
      split: prod.splits outcome.splits if_splits
      intro: typevar_advances add_type_advances [OF typevar_advances])

lemma for_each_advances:
  assumes "for_each xs body s = Some (s', r)" and "advances ctx s0 s"
    and "\<And>x ti ti' r. advances ctx s0 ti \<Longrightarrow> body x ti = Some (ti', r) \<Longrightarrow> advances ctx s0 ti'"
  shows "advances ctx s0 s'"
  using for_each_invariant [where Q = "advances ctx s0" and xs = xs and body = body
      and s = s and s' = s' and r = r] assms
  by blast

lemma BuildTupleConstraint_call_advances:
  assumes "BuildTupleConstraint_call ctx c s = Some (s', r)"
  shows "advances ctx s s'"
proof -
  obtain ti1 cells where a: "typevars_of s (items c) = (ti1, cells)"
    by (cases "typevars_of s (items c)")
  obtain ti2 oset where b: "typevar ti1 (target c) = (ti2, oset)"
    by (cases "typevar ti1 (target c)")
  have q: "advances ctx s ti2"
    using typevar_advances' [OF typevars_of_advances [OF advances_refl a] b] .
  from assms a b obtain r' where
    "for_each (product_lists (map get cells))
       (\<lambda>vals ti. TypeInferer_add_type ctx ti (target c)
          (Some (if vals \<noteq> [] \<and> list_all (\<lambda>v. hd vals = v) vals
                 then UniTuple (hd vals) (length vals) else Tuple vals))
          (Some (loc c)) False) ti2 = Some (s', r')"
    by (auto simp: BuildTupleConstraint_call_def dest!: with_error_contextD)
  then show ?thesis
    by (rule for_each_invariant [where Q = "advances ctx s", rotated 2])
      (auto intro: q add_type_advances)
qed

lemma BuildContainerConstraint_call_advances:
  assumes "BuildContainerConstraint_call k ctx c s = Some (s', r)"
  shows "advances ctx s s'"
proof -
  obtain ti1 oset where a: "typevar s (target c) = (ti1, oset)"
    by (cases "typevar s (target c)")
  obtain ti2 cells where b: "typevars_of ti1 (items c) = (ti2, cells)"
    by (cases "typevars_of ti1 (items c)")
  have q: "advances ctx s ti2"
    using typevars_of_advances [OF typevar_advances [OF a] b] .
  show ?thesis
  proof (cases "map get cells = []")
    case True
    with assms a b obtain r' where
      "TypeInferer_add_type ctx ti2 (target c) (Some (k undefined_ty)) (Some (loc c)) False =
         Some (s', r')"
      by (auto simp: BuildContainerConstraint_call_def dest!: with_error_contextD)
    with q show ?thesis by (rule add_type_advances)
  next
    case False
    with assms a b obtain r' where
      "for_each (product_lists (map get cells))
         (\<lambda>typs ti. case unify_types ctx typs of
              None \<Rightarrow> Some (ti, Return ())
            | Some unified \<Rightarrow>
                TypeInferer_add_type ctx ti (target c) (Some (k unified)) (Some (loc c)) False)
         ti2 = Some (s', r')"
      by (auto simp: BuildContainerConstraint_call_def dest!: with_error_contextD)
    then show ?thesis
      by (rule for_each_invariant [where Q = "advances ctx s", rotated 2])
        (auto intro: q add_type_advances split: option.splits)
  qed
qed

lemma ExhaustIterConstraint_call_advances:
  assumes "ExhaustIterConstraint_call ctx c s = Some (s', r)"
  shows "advances ctx s s'"
proof -
  obtain ti1 oset where a: "typevar s (target c) = (ti1, oset)"
    by (cases "typevar s (target c)")
  obtain ti2 it where b: "typevar ti1 (iterator c) = (ti2, it)"
    by (cases "typevar ti1 (iterator c)")
  have q: "advances ctx s ti2"
    using typevar_advances' [OF typevar_advances [OF a] b] .
  define body where "body = (\<lambda>tp ti.
      if is_BaseTuple tp then
        (if len_ty tp = count c then
           TypeInferer_add_type ctx ti (target c) (Some tp) (Some (loc c)) False
         else Some (ti, Raise (ValueError
           (Wrong_tuple_length (iterator c) (count c) (len_ty tp)))))
      else
        (case iterator_yield_type ctx tp of
           Some yield_type \<Rightarrow>
             TypeInferer_add_type ctx ti (target c)
               (Some (UniTuple yield_type (count c))) (Some (loc c)) False
         | None \<Rightarrow> Some (ti, Return ())))"
  have step: "advances ctx s ti'" if "advances ctx s ti" "body x ti = Some (ti', r)"
    for x ti ti' r
    using that unfolding body_def
    by (auto split: if_splits option.splits intro: add_type_advances)
  from assms a b obtain r' where "for_each (get it) body ti2 = Some (s', r')"
    unfolding body_def ExhaustIterConstraint_call_def
    by (auto dest!: with_error_contextD)
  then show ?thesis
    using q step by (rule for_each_advances)
qed


lemma PairFirstConstraint_call_advances:
  assumes "PairFirstConstraint_call ctx c s = Some (s', r)"
  shows "advances ctx s s'"
proof -
  obtain ti1 oset where a: "typevar s (target c) = (ti1, oset)"
    by (cases "typevar s (target c)")
  obtain ti2 p where b: "typevar ti1 (pair c) = (ti2, p)"
    by (cases "typevar ti1 (pair c)")
  have q: "advances ctx s ti2"
    using typevar_advances' [OF typevar_advances [OF a] b] .
  define body where "body = (\<lambda>tp ti.
      case tp of
        Pair_ty first_type second_type \<Rightarrow>
          TypeInferer_add_type ctx ti (target c) (Some first_type) (Some (loc c)) False
      | _ \<Rightarrow> Some (ti, Return ()))"
  have step: "advances ctx s ti'" if "advances ctx s ti" "body x ti = Some (ti', r)"
    for x ti ti' r
    using that unfolding body_def
    by (cases x) (auto intro: add_type_advances)
  from assms a b obtain r' where "for_each (get p) body ti2 = Some (s', r')"
    unfolding body_def PairFirstConstraint_call_def
    by (auto dest!: with_error_contextD)
  then show ?thesis
    using q step by (rule for_each_advances)
qed

lemma PairSecondConstraint_call_advances:
  assumes "PairSecondConstraint_call ctx c s = Some (s', r)"
  shows "advances ctx s s'"
proof -
  obtain ti1 oset where a: "typevar s (target c) = (ti1, oset)"
    by (cases "typevar s (target c)")
  obtain ti2 p where b: "typevar ti1 (pair c) = (ti2, p)"
    by (cases "typevar ti1 (pair c)")
  have q: "advances ctx s ti2"
    using typevar_advances' [OF typevar_advances [OF a] b] .
  define body where "body = (\<lambda>tp ti.
      case tp of
        Pair_ty first_type second_type \<Rightarrow>
          TypeInferer_add_type ctx ti (target c) (Some second_type) (Some (loc c)) False
      | _ \<Rightarrow> Some (ti, Return ()))"
  have step: "advances ctx s ti'" if "advances ctx s ti" "body x ti = Some (ti', r)"
    for x ti ti' r
    using that unfolding body_def
    by (cases x) (auto intro: add_type_advances)
  from assms a b obtain r' where "for_each (get p) body ti2 = Some (s', r')"
    unfolding body_def PairSecondConstraint_call_def
    by (auto dest!: with_error_contextD)
  then show ?thesis
    using q step by (rule for_each_advances)
qed

lemma GetAttrConstraint_call_advances:
  assumes "GetAttrConstraint_call ctx c s = Some (s', r)"
  shows "advances ctx s s'"
proof -
  obtain ti1 v where a: "typevar s (val c) = (ti1, v)"
    by (cases "typevar s (val c)")
  define body where "body = (\<lambda>t ti.
      case resolve_getattr ctx t (attr c) of
        None \<Rightarrow> Some (ti, Raise (UntypedAttributeError t (attr c) (inst_loc c)))
      | Some attrty \<Rightarrow>
          TypeInferer_add_type ctx ti (target c) (Some attrty) (Some (loc c)) False)"
  have step: "advances ctx s ti'" if "advances ctx s ti" "body x ti = Some (ti', r)"
    for x ti ti' r
    using that unfolding body_def
    by (auto split: option.splits intro: add_type_advances)
  from assms a obtain ti2 r' where f: "for_each (get v) body ti1 = Some (ti2, r')"
    and s': "s' = ti2 \<or> s' = ti2\<lparr>refine_map := (refine_map ti2)(target c \<mapsto> c)\<rparr>"
    unfolding body_def GetAttrConstraint_call_def
    by (auto dest!: with_error_contextD split: option.splits prod.splits outcome.splits)
  have "advances ctx s ti2"
    using f typevar_advances [OF a] step by (rule for_each_advances)
  with s' show ?thesis
    by (auto intro: advances_trans refine_map_advances)
qed

lemma refine_receiver_advances:
  "advances ctx s0 s \<Longrightarrow> refine_receiver ctx c s fnty sg = Some (s', r) \<Longrightarrow> advances ctx s0 s'"
  by (auto simp: refine_receiver_def split: callee.splits ty.splits option.splits if_splits
      intro: propagate_refined_type_advances)

lemma refine_return_type_advances:
  "advances ctx s0 s \<Longrightarrow> refine_return_type ctx c s sg = (s', sg') \<Longrightarrow> advances ctx s0 s'"
  by (auto simp: refine_return_type_def split: if_splits prod.splits option.splits
      dest: typevar_advances')

lemma CallConstraint_resolve_advances:
  assumes "CallConstraint_resolve ctx c s fnty = Some ((c', s'), r)"
  shows "advances ctx s s'"
proof (cases "truthy fnty")
  case False
  with assms show ?thesis by (simp add: CallConstraint_resolve_def advances_refl)
next
  case True
  obtain ti1 o1 where a: "fold_arg_vars s (args c) (vararg c) (kws c) = (ti1, o1)"
    by (cases "fold_arg_vars s (args c) (vararg c) (kws c)")
  have q1: "advances ctx s ti1"
    using fold_arg_vars_advances [OF advances_refl a] .
  show ?thesis
  proof (cases "\<exists>pos kw. o1 = Return (Some (pos, kw))")
    case False
    with assms True a q1 show ?thesis
      by (auto simp: CallConstraint_resolve_def split: outcome.splits option.splits)
  next
    case T: True
    then obtain pos kw where o1: "o1 = Return (Some (pos, kw))" by blast
    obtain ti2 o2 where b: "resolve_call ctx ti1 fnty pos kw = (ti2, o2)"
      by (cases "resolve_call ctx ti1 fnty pos kw")
    have q2: "advances ctx s ti2"
      using resolve_call_advances [OF q1 b] .
    show ?thesis
    proof (cases "\<exists>sg. o2 = Return (Some sg)")
      case False
      with assms True a o1 b q2 show ?thesis
        by (auto simp: CallConstraint_resolve_def split: outcome.splits option.splits)
    next
      case T2: True
      then obtain sg where o2: "o2 = Return (Some sg)" by blast
      from assms True a o1 b o2 obtain ti3 o3 where
        c: "TypeInferer_add_type ctx ti2 (target c) (Some (return_type sg)) (Some (loc c)) False
              = Some (ti3, o3)"
        by (auto simp: CallConstraint_resolve_def split: option.splits)
      have q3: "advances ctx s ti3"
        using add_type_advances [OF q2 c] .
      show ?thesis
      proof (cases o3)
        case (Raise e)
        with assms True a o1 b o2 c q3 show ?thesis
          by (simp add: CallConstraint_resolve_def)
      next
        case (Return u)
        with assms True a o1 b o2 c obtain ti4 o4 where
          d: "refine_receiver ctx c ti3 fnty sg = Some (ti4, o4)"
          by (auto simp: CallConstraint_resolve_def split: option.splits)
        have q4: "advances ctx s ti4"
          using refine_receiver_advances [OF q3 d] .
        show ?thesis
        proof (cases o4)
          case R: (Raise e)
          with assms True a o1 b o2 c Return d q4 show ?thesis
            by (simp add: CallConstraint_resolve_def)
        next
          case R: (Return u')
          obtain ti5 sg' where e: "refine_return_type ctx c ti4 sg = (ti5, sg')"
            by (cases "refine_return_type ctx c ti4 sg")
          with assms True a o1 b o2 c Return d R have "s' = ti5"
            by (simp add: CallConstraint_resolve_def)
          with refine_return_type_advances [OF q4 e] show ?thesis by simp
        qed
      qed
    qed
  qed
qed

lemma CallConstraint_call_advances:
  "CallConstraint_call ctx c s = Some ((c', s'), r) \<Longrightarrow> advances ctx s s'"
  by (auto simp: CallConstraint_call_def dest!: with_error_contextD
      split: prod.splits outcome.splits
      intro: getone_var_advances [OF advances_refl]
        advances_trans [OF getone_var_advances [OF advances_refl] CallConstraint_resolve_advances])

lemma IntrinsicCallConstraint_call_advances:
  "IntrinsicCallConstraint_call ctx c s = Some ((c', s'), r) \<Longrightarrow> advances ctx s s'"
  by (auto simp: IntrinsicCallConstraint_call_def dest!: with_error_contextD
      intro: CallConstraint_resolve_advances)


lemma StaticGetItemConstraint_call_advances:
  assumes "StaticGetItemConstraint_call ctx c s = Some ((c', s'), r)"
  shows "advances ctx s s'"
proof -
  obtain ti1 oset where a: "typevar s (target c) = (ti1, oset)"
    by (cases "typevar s (target c)")
  obtain ti2 v where b: "typevar ti1 (val c) = (ti2, v)"
    by (cases "typevar ti1 (val c)")
  have q: "advances ctx s ti2"
    using typevar_advances' [OF typevar_advances [OF a] b] .
  define body where "body = (\<lambda>t (c, ti).
      case resolve_static_getitem ctx t (index c) of
        Some itemty \<Rightarrow>
          (case TypeInferer_add_type ctx ti (target c) (Some itemty) (Some (loc c)) False of
             None \<Rightarrow> None
           | Some (ti', r) \<Rightarrow> Some ((c, ti'), r))
      | None \<Rightarrow>
          (case fallback c of
             None \<Rightarrow> Some ((c, ti), Return ())
           | Some fb \<Rightarrow>
               (case IntrinsicCallConstraint_call ctx fb ti of
                  None \<Rightarrow> None
                | Some ((fb', ti'), r) \<Rightarrow>
                    Some ((StaticGetItemConstraint (target c) (val c) (index c)
                             (Some fb') (loc c), ti'), r))))"
  have step: "advances ctx s (snd p')"
    if "advances ctx s (snd p)" "body x p = Some (p', r)" for x p p' r
    using that unfolding body_def
    by (cases p)
      (auto split: option.splits prod.splits
        intro: add_type_advances advances_trans [OF _ IntrinsicCallConstraint_call_advances])
  from assms a b obtain r' where f: "for_each (get v) body (c, ti2) = Some ((c', s'), r')"
    unfolding body_def StaticGetItemConstraint_call_def
    by (auto dest!: with_error_contextD)
  show ?thesis
    using for_each_invariant [where Q = "\<lambda>p. advances ctx s (snd p)" and xs = "get v"
        and body = body and s = "(c, ti2)" and s' = "(c', s')" and r = r'] f q step
    by auto
qed

lemma SetItemConstraint_call_advances:
  assumes "SetItemConstraint_call ctx c s = Some ((c', s'), r)"
  shows "advances ctx s s'"
proof -
  obtain ti1 ok where a: "all_defined s [target c, index_var c, val c] = (ti1, ok)"
    by (cases "all_defined s [target c, index_var c, val c]")
  have q: "advances ctx s ti1"
    using all_defined_advances [OF advances_refl a] .
  from assms a q show ?thesis
    unfolding SetItemConstraint_call_def seq_def getone_var_def
    by (auto dest!: with_error_contextD split: prod.splits outcome.splits option.splits
        if_splits) (blast intro: typevar_advances')+
qed

lemma StaticSetItemConstraint_call_advances:
  assumes "StaticSetItemConstraint_call ctx c s = Some ((c', s'), r)"
  shows "advances ctx s s'"
proof -
  obtain ti1 ok where a: "all_defined s [target c, index_var c, val c] = (ti1, ok)"
    by (cases "all_defined s [target c, index_var c, val c]")
  have q: "advances ctx s ti1"
    using all_defined_advances [OF advances_refl a] .
  from assms a q show ?thesis
    unfolding StaticSetItemConstraint_call_def seq_def getone_var_def
    by (auto dest!: with_error_contextD split: prod.splits outcome.splits option.splits
        if_splits) (blast intro: typevar_advances')+
qed

lemma DelItemConstraint_call_advances:
  assumes "DelItemConstraint_call ctx c s = Some ((c', s'), r)"
  shows "advances ctx s s'"
proof -
  obtain ti1 ok where a: "all_defined s [target c, index_var c] = (ti1, ok)"
    by (cases "all_defined s [target c, index_var c]")
  have q: "advances ctx s ti1"
    using all_defined_advances [OF advances_refl a] .
  from assms a q show ?thesis
    unfolding DelItemConstraint_call_def seq_def getone_var_def
    by (auto dest!: with_error_contextD split: prod.splits outcome.splits option.splits
        if_splits) (blast intro: typevar_advances')+
qed

lemma SetAttrConstraint_call_advances:
  assumes "SetAttrConstraint_call ctx c s = Some ((c', s'), r)"
  shows "advances ctx s s'"
proof -
  obtain ti1 ok where a: "all_defined s [target c, val c] = (ti1, ok)"
    by (cases "all_defined s [target c, val c]")
  have q: "advances ctx s ti1"
    using all_defined_advances [OF advances_refl a] .
  from assms a q show ?thesis
    unfolding SetAttrConstraint_call_def seq_def getone_var_def
    by (auto dest!: with_error_contextD split: prod.splits outcome.splits option.splits
        if_splits) (blast intro: typevar_advances')+
qed

lemma PrintConstraint_call_advances:
  "PrintConstraint_call ctx c s = ((c', s'), r) \<Longrightarrow> advances ctx s s'"
  by (auto simp: PrintConstraint_call_def split: prod.splits outcome.splits option.splits
      intro: fold_arg_vars_advances [OF advances_refl]
        resolve_call_advances [OF fold_arg_vars_advances [OF advances_refl]])

lemma keepD: "keep c x = Some ((c', s'), r) \<Longrightarrow> x = Some (s', r) \<and> c' = c"
  by (auto simp: keep_def split: option.splits)

lemma fire_advances: "fire ctx c s = Some ((c', s'), r) \<Longrightarrow> advances ctx s s'"
  by (cases c)
    (auto simp: fire_def dest!: keepD
      intro: Propagate_call_advances ArgConstraint_call_advances
        BuildTupleConstraint_call_advances BuildContainerConstraint_call_advances
        ExhaustIterConstraint_call_advances PairFirstConstraint_call_advances
        PairSecondConstraint_call_advances StaticGetItemConstraint_call_advances
        CallConstraint_call_advances IntrinsicCallConstraint_call_advances
        GetAttrConstraint_call_advances SetItemConstraint_call_advances
        StaticSetItemConstraint_call_advances DelItemConstraint_call_advances
        SetAttrConstraint_call_advances PrintConstraint_call_advances)

lemma advances_constraints:
  "advances ctx a b \<Longrightarrow> advances ctx (a\<lparr>constraints := x\<rparr>) (b\<lparr>constraints := x\<rparr>)"
  by (simp add: advances_def)

lemma propagate_constraints_advances:
  "propagate_constraints ctx js errors s = Some (errs', s') \<Longrightarrow>
     advances ctx s (s'\<lparr>constraints := constraints s\<rparr>)
     \<and> length (constraints s') = length (constraints s)"
proof (induction js arbitrary: errors s)
  case Nil
  then show ?case by (simp add: advances_refl)
next
  case (Cons i js)
  from Cons.prems obtain c' ti r where
    f: "fire ctx (constraints s ! i) s = Some ((c', ti), r)" and
    p: "propagate_constraints ctx js (errors @ captured c' r)
          (ti\<lparr>constraints := (constraints ti)[i := c']\<rparr>) = Some (errs', s')"
    by (auto split: option.splits prod.splits)
  have a: "advances ctx s ti" using fire_advances [OF f] .
  then have cs: "constraints ti = constraints s" by (simp add: advances_def)
  from Cons.IH [OF p] have
    b: "advances ctx (ti\<lparr>constraints := (constraints ti)[i := c']\<rparr>)
          (s'\<lparr>constraints := (constraints ti)[i := c']\<rparr>)" and
    l: "length (constraints s') = length (constraints ti)"
    by simp_all
  have "ti\<lparr>constraints := constraints s\<rparr> = ti"
    using cs by (cases ti) simp
  with advances_constraints [OF b, of "constraints s"]
  have "advances ctx ti (s'\<lparr>constraints := constraints s\<rparr>)" by simp
  with a l cs show ?case by (auto intro: advances_trans)
qed

lemma ConstraintNetwork_propagate_advances:
  "ConstraintNetwork_propagate ctx s = Some (errs, s') \<Longrightarrow>
     advances ctx s (s'\<lparr>constraints := constraints s\<rparr>)
     \<and> length (constraints s') = length (constraints s)"
  unfolding ConstraintNetwork_propagate_def by (rule propagate_constraints_advances)







lemma length_get_state_token: "length (get_state_token s) = length (typevars s)"
  by (simp add: get_state_token_def)

subsection \<open>The signature stored by a call\<close>

lemma store_lookup: "map_of (typevars (store s n tv)) n = Some tv"
  by (simp add: store_def update_conv')

lemma typevar_refine_map: "typevar s n = (s1, tv) \<Longrightarrow> refine_map s1 = refine_map s"
  by (auto simp: typevar_def TypeVarMap_getitem_def split: option.splits)

lemma advances_present:
  "advances ctx s s' \<Longrightarrow> map_of (typevars s) n = Some tv \<Longrightarrow>
     \<exists>tv'. map_of (typevars s') n = Some tv'"
  by (auto simp: advances_def)

lemma add_type_present:
  assumes "TypeInferer_add_type ctx s v tp l ul = Some (s', r)"
  shows "\<exists>tv'. map_of (typevars s') v = Some tv'"
proof -
  obtain s1 tv where tv: "typevar s v = (s1, tv)" by (cases "typevar s v")
  have p1: "map_of (typevars s1) v = Some tv" using typevar_lookup [OF tv] .
  obtain tv' q where q: "TypeVar_add_type ctx tv tp l = (tv', q)"
    by (cases "TypeVar_add_type ctx tv tp l")
  have p2: "map_of (typevars (store s1 v tv')) v = Some tv'" by (rule store_lookup)
  show ?thesis
  proof (cases "ul \<and> locked tv")
    case True
    with assms tv have "s' = s1" by (simp add: add_type_unfold)
    with p1 show ?thesis by blast
  next
    case False
    show ?thesis
    proof (cases q)
      case (Raise e)
      with assms tv q False have "s' = store s1 v tv'" by (auto simp: add_type_unfold)
      with p2 show ?thesis by blast
    next
      case (Return u)
      show ?thesis
      proof (cases "u = type tv")
        case True
        with assms tv q False Return have "s' = store s1 v tv'"
          by (auto simp: add_type_unfold)
        with p2 show ?thesis by blast
      next
        case neq: False
        with assms tv q False Return
        have "propagate_refined_type ctx (store s1 v tv') v u = Some (s', r)"
          by (auto simp: add_type_unfold)
        from propagate_refined_type_advances [OF advances_refl this] p2 show ?thesis
          by (rule advances_present)
      qed
    qed
  qed
qed

lemma refine_GetAttrConstraint:
  "refine ctx (GetAttrConstraint t a v l il) self (Some (BoundFunction g this)) =
     (case TypeInferer_add_type ctx self v (Some this) (Some l) False of
        None \<Rightarrow> None
      | Some (self1, Raise e) \<Rightarrow> Some (self1, Raise e)
      | Some (self1, Return _) \<Rightarrow>
          (case refine_map self1 v of
             None \<Rightarrow> Some (self1, Return ())
           | Some source_constraint \<Rightarrow> refine ctx source_constraint self1 (Some this)))"
  unfolding refine_def TypeInferer_add_type_def
  by (subst invoke.simps) (simp split: option.splits outcome.splits prod.splits)

text \<open>
  C4, as the code has it. \<^verbatim>\<open>CallConstraint.resolve\<close>, once the arguments have folded
  and the call has resolved to a signature \<open>sg\<close>, adds the return type of \<open>sg\<close> to the
  target and propagates a refined receiver before it stores anything. When the addition
  raises, or the propagation of the receiver raises, \<^verbatim>\<open>resolve\<close> raises that exception
  and the constraint keeps the signature it had. When both return, \<^verbatim>\<open>resolve\<close> returns
  and stores a signature: \<open>sg\<close> with its return type replaced by the type of the target
  when the return type of \<open>sg\<close> is not precise and the cell of the target is defined, at
  that point, with a type that absorbs it (\<^verbatim>\<open>unify_pairs(target_type, return_type)\<close> is
  the target's type), and \<open>sg\<close> itself in every other case. The last two conjuncts say
  the same from the cell of the target before the call: \<^verbatim>\<open>resolve\<close> raises when
  \<^verbatim>\<open>TypeVar.add_type\<close> raises on that cell; it returns and stores when
  \<^verbatim>\<open>TypeVar.add_type\<close> returns and nothing is propagated, neither from the target (its
  type is unchanged, or \<^verbatim>\<open>refine_map\<close> has no constraint for it) nor from the receiver
  (the signature has none, or the callee is no bound function).
\<close>

theorem CallConstraint_resolve_stores:
  assumes "truthy fnty"
    and "fold_arg_vars typeinfer as va ks = (ti1, Return (Some (pos_args, kw_args)))"
    and "resolve_call ctx ti1 fnty pos_args kw_args = (ti2, Return (Some sg))"
  shows
  "(TypeInferer_add_type ctx ti2 t (Some (return_type sg)) (Some l) False =
        Some (ti3, Raise e) \<longrightarrow>
      CallConstraint_resolve ctx (CallConstraint t f as ks va l s0) typeinfer fnty =
        Some ((CallConstraint t f as ks va l s0, ti3), Raise e))
   \<and> (TypeInferer_add_type ctx ti2 t (Some (return_type sg)) (Some l) False =
        Some (ti3, Return ())
      \<and> refine_receiver ctx (CallConstraint t f as ks va l s0) ti3 fnty sg =
        Some (ti4, Raise e) \<longrightarrow>
      CallConstraint_resolve ctx (CallConstraint t f as ks va l s0) typeinfer fnty =
        Some ((CallConstraint t f as ks va l s0, ti4), Raise e))
   \<and> (TypeInferer_add_type ctx ti2 t (Some (return_type sg)) (Some l) False =
        Some (ti3, Return ())
      \<and> refine_receiver ctx (CallConstraint t f as ks va l s0) ti3 fnty sg =
        Some (ti4, Return ()) \<longrightarrow>
      (\<not> is_precise ctx (return_type sg) \<and> cell_type ti4 t = Some targetty
         \<and> unify_pairs ctx targetty (return_type sg) = Some targetty \<longrightarrow>
       CallConstraint_resolve ctx (CallConstraint t f as ks va l s0) typeinfer fnty =
         Some ((CallConstraint t f as ks va l (Some (Some (sg\<lparr>return_type := targetty\<rparr>))),
                ti4), Return ()))
      \<and> (\<not> (\<not> is_precise ctx (return_type sg)
              \<and> (\<exists>ty. cell_type ti4 t = Some ty
                    \<and> unify_pairs ctx ty (return_type sg) = Some ty)) \<longrightarrow>
       CallConstraint_resolve ctx (CallConstraint t f as ks va l s0) typeinfer fnty =
         Some ((CallConstraint t f as ks va l (Some (Some sg)), ti4), Return ())))
   \<and> (typevar ti2 t = (s1, tv)
      \<and> TypeVar_add_type ctx tv (Some (return_type sg)) (Some l) = (tv', Raise e) \<longrightarrow>
      CallConstraint_resolve ctx (CallConstraint t f as ks va l s0) typeinfer fnty =
        Some ((CallConstraint t f as ks va l s0, store s1 t tv'), Raise e))
   \<and> (typevar ti2 t = (s1, tv)
      \<and> TypeVar_add_type ctx tv (Some (return_type sg)) (Some l) = (tv', Return u)
      \<and> (u = type tv \<or> refine_map ti2 t = None)
      \<and> (recvr sg = None \<or> (\<forall>g this. fnty \<noteq> Callee_type (BoundFunction g this))) \<longrightarrow>
      (\<not> is_precise ctx (return_type sg) \<and> u = Some targetty
         \<and> unify_pairs ctx targetty (return_type sg) = Some targetty \<longrightarrow>
       CallConstraint_resolve ctx (CallConstraint t f as ks va l s0) typeinfer fnty =
         Some ((CallConstraint t f as ks va l (Some (Some (sg\<lparr>return_type := targetty\<rparr>))),
                store s1 t tv'), Return ()))
      \<and> (\<not> (\<not> is_precise ctx (return_type sg)
              \<and> (\<exists>ty. u = Some ty \<and> unify_pairs ctx ty (return_type sg) = Some ty)) \<longrightarrow>
       CallConstraint_resolve ctx (CallConstraint t f as ks va l s0) typeinfer fnty =
         Some ((CallConstraint t f as ks va l (Some (Some sg)), store s1 t tv'),
               Return ())))"
  (is "?raise_add \<and> ?raise_recv \<and> ?stores \<and> ?cell_raises \<and> ?cell_stores")
proof -
  let ?C = "CallConstraint t f as ks va l s0"
  let ?add = "TypeInferer_add_type ctx ti2 t (Some (return_type sg)) (Some l) False"
  have r: "CallConstraint_resolve ctx ?C typeinfer fnty =
      (case ?add of
         None \<Rightarrow> None
       | Some (ti3, Raise e) \<Rightarrow> Some ((?C, ti3), Raise e)
       | Some (ti3, Return _) \<Rightarrow>
           (case refine_receiver ctx ?C ti3 fnty sg of
              None \<Rightarrow> None
            | Some (ti4, Raise e) \<Rightarrow> Some ((?C, ti4), Raise e)
            | Some (ti4, Return _) \<Rightarrow>
                (case refine_return_type ctx ?C ti4 sg of
                   (ti5, sg') \<Rightarrow>
                     Some ((CallConstraint t f as ks va l (Some (Some sg')), ti5),
                           Return ()))))"
    using assms
    by (simp add: CallConstraint_resolve_def split: option.splits prod.splits outcome.splits)
  have ret: "refine_return_type ctx ?C s sg =
      (s, if \<not> is_precise ctx (return_type sg)
             \<and> (\<exists>ty. type c = Some ty \<and> unify_pairs ctx ty (return_type sg) = Some ty)
          then sg\<lparr>return_type := the (type c)\<rparr> else sg)"
    if "map_of (typevars s) t = Some c" for s c
    using typevar_existing [OF that]
    by (auto simp: refine_return_type_def split: option.splits)
  have stored: "CallConstraint_resolve ctx ?C typeinfer fnty =
      Some ((CallConstraint t f as ks va l (Some (Some
          (if \<not> is_precise ctx (return_type sg)
              \<and> (\<exists>ty. cell_type s4 t = Some ty
                    \<and> unify_pairs ctx ty (return_type sg) = Some ty)
           then sg\<lparr>return_type := the (cell_type s4 t)\<rparr> else sg))), s4), Return ())"
    if a: "?add = Some (s3, Return ())"
      and b: "refine_receiver ctx ?C s3 fnty sg = Some (s4, Return ())" for s3 s4
  proof -
    from add_type_present [OF a] obtain c3 where "map_of (typevars s3) t = Some c3" ..
    with refine_receiver_advances [OF advances_refl b]
    obtain c where c: "map_of (typevars s4) t = Some c"
      using advances_present by blast
    then have "cell_type s4 t = type c" by (simp add: cell_type_def)
    with a b ret [OF c] show ?thesis by (auto simp: r)
  qed
  have ra: ?raise_add by (simp add: r)
  have rr: ?raise_recv by (simp add: r)
  have st: ?stores
  proof (intro impI, elim conjE)
    assume a: "?add = Some (ti3, Return ())"
      and b: "refine_receiver ctx ?C ti3 fnty sg = Some (ti4, Return ())"
    show "(\<not> is_precise ctx (return_type sg) \<and> cell_type ti4 t = Some targetty
         \<and> unify_pairs ctx targetty (return_type sg) = Some targetty \<longrightarrow>
       CallConstraint_resolve ctx ?C typeinfer fnty =
         Some ((CallConstraint t f as ks va l (Some (Some (sg\<lparr>return_type := targetty\<rparr>))),
                ti4), Return ()))
      \<and> (\<not> (\<not> is_precise ctx (return_type sg)
              \<and> (\<exists>ty. cell_type ti4 t = Some ty
                    \<and> unify_pairs ctx ty (return_type sg) = Some ty)) \<longrightarrow>
       CallConstraint_resolve ctx ?C typeinfer fnty =
         Some ((CallConstraint t f as ks va l (Some (Some sg)), ti4), Return ()))"
      unfolding stored [OF a b] by auto
  qed
  have cr: ?cell_raises
  proof (intro impI, elim conjE)
    assume "typevar ti2 t = (s1, tv)"
      and "TypeVar_add_type ctx tv (Some (return_type sg)) (Some l) = (tv', Raise e)"
    then have "?add = Some (store s1 t tv', Raise e)" by (simp add: add_type_unfold)
    then show "CallConstraint_resolve ctx ?C typeinfer fnty =
        Some ((?C, store s1 t tv'), Raise e)"
      by (simp add: r)
  qed
  have cs: ?cell_stores
  proof (intro impI, elim conjE)
    assume tv: "typevar ti2 t = (s1, tv)"
      and q: "TypeVar_add_type ctx tv (Some (return_type sg)) (Some l) = (tv', Return u)"
      and quiet: "u = type tv \<or> refine_map ti2 t = None"
      and norecv: "recvr sg = None \<or> (\<forall>g this. fnty \<noteq> Callee_type (BoundFunction g this))"
    have "refine_map (store s1 t tv') t = refine_map ti2 t"
      using typevar_refine_map [OF tv] by (simp add: store_def)
    with tv q quiet have a: "?add = Some (store s1 t tv', Return ())"
      by (auto simp: add_type_unfold propagate_refined_type_unfold)
    from norecv have b: "refine_receiver ctx ?C (store s1 t tv') fnty sg =
        Some (store s1 t tv', Return ())"
      by (auto simp: refine_receiver_def split: callee.splits ty.splits option.splits)
    have "cell_type (store s1 t tv') t = u"
      using TypeVar_add_type_returns_type [OF q] by (simp add: cell_type_def store_lookup)
    then show "(\<not> is_precise ctx (return_type sg) \<and> u = Some targetty
         \<and> unify_pairs ctx targetty (return_type sg) = Some targetty \<longrightarrow>
       CallConstraint_resolve ctx ?C typeinfer fnty =
         Some ((CallConstraint t f as ks va l (Some (Some (sg\<lparr>return_type := targetty\<rparr>))),
                store s1 t tv'), Return ()))
      \<and> (\<not> (\<not> is_precise ctx (return_type sg)
              \<and> (\<exists>ty. u = Some ty \<and> unify_pairs ctx ty (return_type sg) = Some ty)) \<longrightarrow>
       CallConstraint_resolve ctx ?C typeinfer fnty =
         Some ((CallConstraint t f as ks va l (Some (Some sg)), store s1 t tv'),
               Return ()))"
      unfolding stored [OF a b] by auto
  qed
  from ra rr st cr cs show ?thesis by blast
qed


theorem CallConstraint_resolve_stores_witness:
  "CallConstraint_resolve example_context
      (CallConstraint ''s'' ''f'' [] [] None (Loc ''f.py'' 1) (Some None))
      (inferer [(''s'', cell ''s'' (Some (Set_ty int64)) False)] [])
      (Callee_type (Other ''set'' [])) =
     Some ((CallConstraint ''s'' ''f'' [] [] None (Loc ''f.py'' 1)
        (Some (Some \<lparr>return_type = Set_ty int64, sig_args = [], recvr = None, pysig = None\<rparr>)),
        inferer [(''s'', cell ''s'' (Some (Set_ty int64)) False)] []), Return ())
   \<and> CallConstraint_resolve example_context
      (CallConstraint ''t'' ''f'' [''a''] [] None (Loc ''f.py'' 1) (Some None))
      ((inferer [(''a'', cell ''a'' (Some int64) False)] [])
         \<lparr>refine_map := [''t'' \<mapsto> Propagate ''t'' ''y'' (Loc ''f.py'' 2)]\<rparr>)
      (Callee_type (Other ''print'' [])) =
     Some ((CallConstraint ''t'' ''f'' [''a''] [] None (Loc ''f.py'' 1)
        (Some (Some \<lparr>return_type = none, sig_args = [int64], recvr = None, pysig = None\<rparr>)),
        (inferer [(''a'', cell ''a'' (Some int64) False),
          (''t'', \<lparr>var = ''t'', type = Some none, locked = False,
             define_loc = Some (Loc ''f.py'' 1)\<rparr>),
          (''y'', \<lparr>var = ''y'', type = Some none, locked = False,
             define_loc = Some (Loc ''f.py'' 2)\<rparr>)] [])
         \<lparr>refine_map := [''t'' \<mapsto> Propagate ''t'' ''y'' (Loc ''f.py'' 2)]\<rparr>), Return ())
   \<and> CallConstraint_resolve example_context
      (CallConstraint ''x'' ''f'' [] [] None (Loc ''f.py'' 1) (Some None))
      (inferer [(''x'', cell ''x'' (Some int64) False)] [])
      (Callee_type (Other ''set'' [])) =
     Some ((CallConstraint ''x'' ''f'' [] [] None (Loc ''f.py'' 1) (Some None),
        inferer [(''x'', cell ''x'' (Some int64) False)] []),
       Raise (TypingError (Cannot_unify int64 (Set_ty undefined_ty) ''x'' None)
          (Some (Loc ''f.py'' 1))))
   \<and> CallConstraint_resolve example_context
      (CallConstraint ''t'' ''f'' [''a''] [] None (Loc ''f.py'' 1) (Some None))
      ((inferer [(''a'', cell ''a'' (Some int64) False),
          (''y'', cell ''y'' (Some (Pair_ty int32 int32)) False)] [])
         \<lparr>refine_map := [''t'' \<mapsto> Propagate ''t'' ''y'' (Loc ''f.py'' 2)]\<rparr>)
      (Callee_type (Other ''print'' [])) =
     Some ((CallConstraint ''t'' ''f'' [''a''] [] None (Loc ''f.py'' 1) (Some None),
        (inferer [(''a'', cell ''a'' (Some int64) False),
          (''y'', cell ''y'' (Some (Pair_ty int32 int32)) False),
          (''t'', \<lparr>var = ''t'', type = Some none, locked = False,
             define_loc = Some (Loc ''f.py'' 1)\<rparr>)] [])
         \<lparr>refine_map := [''t'' \<mapsto> Propagate ''t'' ''y'' (Loc ''f.py'' 2)]\<rparr>),
       Raise (TypingError (Cannot_unify (Pair_ty int32 int32) none ''y'' None)
          (Some (Loc ''f.py'' 2))))
   \<and> CallConstraint_resolve
      (example_context\<lparr>resolve_function_type := \<lambda>fn pos kw.
         Some \<lparr>return_type = none, sig_args = pos, recvr = Some (Set_ty int64),
               pysig = None\<rparr>\<rparr>)
      (CallConstraint ''r'' ''f'' [''a''] [] None (Loc ''f.py'' 3) (Some None))
      ((inferer [(''a'', cell ''a'' (Some int64) False),
          (''s'', cell ''s'' (Some (Set_ty float64)) False)] [])
         \<lparr>refine_map := [''f'' \<mapsto>
            GetAttrConstraint ''f'' ''add'' ''s'' (Loc ''f.py'' 2) (Loc ''f.py'' 2)]\<rparr>)
      (Callee_type (BoundFunction ''set.add'' (Set_ty undefined_ty))) =
     Some ((CallConstraint ''r'' ''f'' [''a''] [] None (Loc ''f.py'' 3) (Some None),
        (inferer [(''a'', cell ''a'' (Some int64) False),
          (''s'', cell ''s'' (Some (Set_ty float64)) False),
          (''r'', \<lparr>var = ''r'', type = Some none, locked = False,
             define_loc = Some (Loc ''f.py'' 3)\<rparr>)] [])
         \<lparr>refine_map := [''f'' \<mapsto>
            GetAttrConstraint ''f'' ''add'' ''s'' (Loc ''f.py'' 2) (Loc ''f.py'' 2)]\<rparr>),
       Raise (TypingError (Cannot_unify (Set_ty float64) (Set_ty int64) ''s'' None)
          (Some (Loc ''f.py'' 2))))"
  (is "?w1 \<and> ?w2 \<and> ?w3 \<and> ?w4 \<and> ?w5")
proof -
  let ?set = "Callee_type (Other ''set'' [])"
  let ?print = "Callee_type (Other ''print'' [])"
  let ?add = "Callee_type (BoundFunction ''set.add'' (Set_ty undefined_ty))"
  let ?L = "Loc ''f.py'' 1"
  let ?sg = "\<lparr>return_type = Set_ty undefined_ty, sig_args = [], recvr = None, pysig = None\<rparr>"
  let ?sh = "\<lparr>return_type = none, sig_args = [int64], recvr = None, pysig = None\<rparr>"
  let ?si = "\<lparr>return_type = none, sig_args = [int64], recvr = Some (Set_ty int64),
    pysig = None\<rparr>"
  let ?ctx = "example_context\<lparr>resolve_function_type := \<lambda>fn pos kw.
         Some \<lparr>return_type = none, sig_args = pos, recvr = Some (Set_ty int64),
               pysig = None\<rparr>\<rparr>"
  let ?m = "[''t'' \<mapsto> Propagate ''t'' ''y'' (Loc ''f.py'' 2)]"
  let ?g = "[''f'' \<mapsto> GetAttrConstraint ''f'' ''add'' ''s'' (Loc ''f.py'' 2) (Loc ''f.py'' 2)]"
  let ?I = "inferer [(''s'', cell ''s'' (Some (Set_ty int64)) False)] []"
  let ?J = "(inferer [(''a'', cell ''a'' (Some int64) False)] [])\<lparr>refine_map := ?m\<rparr>"
  let ?J' = "(inferer [(''a'', cell ''a'' (Some int64) False),
          (''t'', \<lparr>var = ''t'', type = Some none, locked = False,
             define_loc = Some (Loc ''f.py'' 1)\<rparr>),
          (''y'', \<lparr>var = ''y'', type = Some none, locked = False,
             define_loc = Some (Loc ''f.py'' 2)\<rparr>)] [])\<lparr>refine_map := ?m\<rparr>"
  let ?K = "inferer [(''x'', cell ''x'' (Some int64) False)] []"
  let ?M = "(inferer [(''a'', cell ''a'' (Some int64) False),
          (''y'', cell ''y'' (Some (Pair_ty int32 int32)) False)] [])\<lparr>refine_map := ?m\<rparr>"
  let ?M' = "(inferer [(''a'', cell ''a'' (Some int64) False),
          (''y'', cell ''y'' (Some (Pair_ty int32 int32)) False),
          (''t'', \<lparr>var = ''t'', type = Some none, locked = False,
             define_loc = Some (Loc ''f.py'' 1)\<rparr>)] [])\<lparr>refine_map := ?m\<rparr>"
  let ?N = "(inferer [(''a'', cell ''a'' (Some int64) False),
          (''s'', cell ''s'' (Some (Set_ty float64)) False)] [])\<lparr>refine_map := ?g\<rparr>"
  let ?N' = "(inferer [(''a'', cell ''a'' (Some int64) False),
          (''s'', cell ''s'' (Some (Set_ty float64)) False),
          (''r'', \<lparr>var = ''r'', type = Some none, locked = False,
             define_loc = Some (Loc ''f.py'' 3)\<rparr>)] [])\<lparr>refine_map := ?g\<rparr>"
  have y: "truthy ?set" "truthy ?print" "truthy ?add"
    by simp_all
  have f1: "fold_arg_vars ?I [] None [] = (?I, Return (Some ([], [])))"
    by (simp add: fold_arg_vars_def dict_of_def eval_defs)
  have c1: "resolve_call example_context ?I ?set [] [] = (?I, Return (Some ?sg))"
    by (simp add: resolve_call_def example_resolve_function_type_def eval_defs)
  have w1: ?w1
    using CallConstraint_resolve_stores [OF y(1) f1 c1, where t = "''s''" and l = ?L
        and f = "''f''" and ?s0.0 = "Some None" and ?s1.0 = ?I
        and tv = "cell ''s'' (Some (Set_ty int64)) False"
        and tv' = "cell ''s'' (Some (Set_ty int64)) False"
        and u = "Some (Set_ty int64)" and targetty = "Set_ty int64"
        and ?ti3.0 = ?I and ?ti4.0 = ?I and e = AssertionError,
        THEN conjunct2, THEN conjunct2, THEN conjunct2, THEN conjunct2,
        THEN mp, THEN conjunct1, THEN mp]
    by (simp add: eval_defs)
  have f2: "fold_arg_vars ?J [''a''] None [] = (?J, Return (Some ([int64], [])))"
    by (simp add: fold_arg_vars_def dict_of_def get_def defined_def eval_defs)
  have c2: "resolve_call example_context ?J ?print [int64] [] = (?J, Return (Some ?sh))"
    by (simp add: resolve_call_def example_resolve_function_type_def eval_defs)
  have w2: ?w2
    using CallConstraint_resolve_stores [OF y(2) f2 c2, where t = "''t''" and l = ?L
        and f = "''f''" and ?s0.0 = "Some None" and ?s1.0 = ?J
        and tv = "cell ''t'' None False" and tv' = "cell ''t'' None False"
        and u = None and targetty = none
        and ?ti3.0 = ?J' and ?ti4.0 = ?J' and e = AssertionError,
        THEN conjunct2, THEN conjunct2, THEN conjunct1, THEN mp, THEN conjunct2, THEN mp]
    by (simp add: eval_defs refine_receiver_def)
  have f3: "fold_arg_vars ?K [] None [] = (?K, Return (Some ([], [])))"
    by (simp add: fold_arg_vars_def dict_of_def eval_defs)
  have c3: "resolve_call example_context ?K ?set [] [] = (?K, Return (Some ?sg))"
    by (simp add: resolve_call_def example_resolve_function_type_def eval_defs)
  have w3: ?w3
    using CallConstraint_resolve_stores [OF y(1) f3 c3, where t = "''x''" and l = ?L
        and f = "''f''" and ?s0.0 = "Some None" and ?s1.0 = ?K
        and tv = "cell ''x'' (Some int64) False" and tv' = "cell ''x'' (Some int64) False"
        and u = None and targetty = none
        and ?ti3.0 = ?K and ?ti4.0 = ?K
        and e = "TypingError (Cannot_unify int64 (Set_ty undefined_ty) ''x'' None) (Some ?L)",
        THEN conjunct2, THEN conjunct2, THEN conjunct2, THEN conjunct1, THEN mp]
    by (simp add: eval_defs)
  have f4: "fold_arg_vars ?M [''a''] None [] = (?M, Return (Some ([int64], [])))"
    by (simp add: fold_arg_vars_def dict_of_def get_def defined_def eval_defs)
  have c4: "resolve_call example_context ?M ?print [int64] [] = (?M, Return (Some ?sh))"
    by (simp add: resolve_call_def example_resolve_function_type_def eval_defs)
  have w4: ?w4
    using CallConstraint_resolve_stores [OF y(2) f4 c4, where t = "''t''" and l = ?L
        and f = "''f''" and ?s0.0 = "Some None" and ?s1.0 = ?M
        and tv = "cell ''t'' None False" and tv' = "cell ''t'' None False"
        and u = None and targetty = none
        and ?ti3.0 = ?M' and ?ti4.0 = ?M'
        and e = "TypingError (Cannot_unify (Pair_ty int32 int32) none ''y'' None)
          (Some (Loc ''f.py'' 2))",
        THEN conjunct1, THEN mp]
    by (simp add: eval_defs)
  have f5: "fold_arg_vars ?N [''a''] None [] = (?N, Return (Some ([int64], [])))"
    by (simp add: fold_arg_vars_def dict_of_def get_def defined_def eval_defs)
  have c5: "resolve_call ?ctx ?N ?add [int64] [] = (?N, Return (Some ?si))"
    by (simp add: resolve_call_def eval_defs)
  have w5: ?w5
    using CallConstraint_resolve_stores [OF y(3) f5 c5, where t = "''r''"
        and l = "Loc ''f.py'' 3"
        and f = "''f''" and ?s0.0 = "Some None" and ?s1.0 = ?N
        and tv = "cell ''r'' None False" and tv' = "cell ''r'' None False"
        and u = None and targetty = none
        and ?ti3.0 = ?N' and ?ti4.0 = ?N'
        and e = "TypingError (Cannot_unify (Set_ty float64) (Set_ty int64) ''s'' None)
          (Some (Loc ''f.py'' 2))",
        THEN conjunct2, THEN conjunct1, THEN mp]
    by (simp add: eval_defs refine_receiver_def refine_GetAttrConstraint)
  from w1 w2 w3 w4 w5 show ?thesis by blast
qed

text \<open>
  The claim C4 as stated fails for a target that is locked, as a constant locks it, to a
  type to which the return type does not convert: the signature is stored only after the
  return type has been added to the target, so \<^verbatim>\<open>resolve\<close> raises and the constraint
  keeps the signature \<^verbatim>\<open>None\<close> of its class. In the first call below the target's type
  absorbs the imprecise return type and nothing is rewritten; the second is one of the
  other cases and nothing is stored.
\<close>

theorem CallConstraint_locked_target_counterexample:
  "\<not> is_precise example_context (Set_ty undefined_ty)
   \<and> cell_type (inferer [(''s'', cell ''s'' (Some (Set_ty int64)) True)] []) ''s'' =
       Some (Set_ty int64)
   \<and> unify_pairs example_context (Set_ty int64) (Set_ty undefined_ty) = Some (Set_ty int64)
   \<and> CallConstraint_resolve example_context
      (CallConstraint ''s'' ''f'' [] [] None (Loc ''f.py'' 2) (Some None))
      (inferer [(''s'', cell ''s'' (Some (Set_ty int64)) True)] [])
      (Callee_type (Other ''set'' [])) =
     Some ((CallConstraint ''s'' ''f'' [] [] None (Loc ''f.py'' 2) (Some None),
        inferer [(''s'', cell ''s'' (Some (Set_ty int64)) True)] []),
       Raise (TypingError (No_conversion (Set_ty undefined_ty) (Some (Set_ty int64)) ''s'' None)
          (Some (Loc ''f.py'' 2))))
   \<and> CallConstraint_resolve example_context
      (CallConstraint ''x'' ''f'' [] [] None (Loc ''f.py'' 2) (Some None))
      (inferer [(''x'', cell ''x'' (Some int64) True)] [])
      (Callee_type (Other ''set'' [])) =
     Some ((CallConstraint ''x'' ''f'' [] [] None (Loc ''f.py'' 2) (Some None),
        inferer [(''x'', cell ''x'' (Some int64) True)] []),
       Raise (TypingError (No_conversion (Set_ty undefined_ty) (Some int64) ''x'' None)
          (Some (Loc ''f.py'' 2))))"
  by (simp add: CallConstraint_resolve_def fold_arg_vars_def resolve_call_def dict_of_def
      example_resolve_function_type_def cell_type_def eval_defs)

subsection \<open>Monotone growth\<close>


lemmas pass_defs = ConstraintNetwork_propagate_def fire_def keep_def captured_def
  Propagate_call_def copy_type_def TypeVar_union_def PairFirstConstraint_call_def
  get_def for_each_get



subsection \<open>A pass of the network\<close>

lemma propagate_constraints_append:
  "propagate_constraints ctx (js @ ks) errors ti =
     (case propagate_constraints ctx js errors ti of
        None \<Rightarrow> None
      | Some (errors1, ti1) \<Rightarrow> propagate_constraints ctx ks errors1 ti1)"
  by (induction js arbitrary: errors ti) (auto split: option.splits prod.splits)

lemma captured_typing: "list_all is_TypingError (captured c r)"
  by (cases r) (auto simp: captured_def)

lemma propagate_constraints_errors:
  "propagate_constraints ctx js errors s = Some (errs', s') \<Longrightarrow>
     \<exists>new. errs' = errors @ new \<and> list_all is_TypingError new"
proof (induction js arbitrary: errors s)
  case Nil
  then show ?case by simp
next
  case (Cons i js)
  from Cons.prems obtain c' ti r where
    p: "propagate_constraints ctx js (errors @ captured c' r)
          (ti\<lparr>constraints := (constraints ti)[i := c']\<rparr>) = Some (errs', s')"
    by (auto split: option.splits prod.splits)
  from Cons.IH [OF p] obtain new where
    "errs' = (errors @ captured c' r) @ new" "list_all is_TypingError new"
    by blast
  then have "errs' = errors @ (captured c' r @ new)"
    and "list_all is_TypingError (captured c' r @ new)"
    using captured_typing [of c' r] by simp_all
  then show ?case by blast
qed

lemma propagate_constraints_untouched:
  "propagate_constraints ctx js errors s = Some (errs', s') \<Longrightarrow> k \<notin> set js \<Longrightarrow>
     constraints s' ! k = constraints s ! k"
proof (induction js arbitrary: errors s)
  case Nil
  then show ?case by simp
next
  case (Cons i js)
  from Cons.prems(1) obtain c' ti r where
    f: "fire ctx (constraints s ! i) s = Some ((c', ti), r)" and
    p: "propagate_constraints ctx js (errors @ captured c' r)
          (ti\<lparr>constraints := (constraints ti)[i := c']\<rparr>) = Some (errs', s')"
    by (auto split: option.splits prod.splits)
  from fire_advances [OF f] have cs: "constraints ti = constraints s"
    by (simp add: advances_def)
  from Cons.IH [OF p] Cons.prems(2) cs show ?case by simp
qed

text \<open>
  C8. \<^verbatim>\<open>ConstraintNetwork.propagate\<close> runs over the positions of the network in
  insertion order. Running over two stretches of positions is running over the first
  and then, from the errors and the inferer it left, over the second, whatever the
  first has captured; running over one position fires the constraint at that position
  once and appends what its outcome adds to the errors; a position that is not run over
  keeps its constraint. A constraint that returns adds nothing; a typing error is
  appended as it is; any other exception is wrapped into a typing error that carries the
  constraint's location and the exception (its traceback). The pass itself never raises:
  it returns the list of errors, all of them typing errors, and the network has as many
  constraints as before.
\<close>

theorem ConstraintNetwork_propagate_pass:
  "ConstraintNetwork_propagate ctx ti =
     propagate_constraints ctx [0..<length (constraints ti)] [] ti
   \<and> propagate_constraints ctx (js @ ks) errors ti =
       (case propagate_constraints ctx js errors ti of
          None \<Rightarrow> None
        | Some (errors1, ti1) \<Rightarrow> propagate_constraints ctx ks errors1 ti1)
   \<and> propagate_constraints ctx [i] errors ti =
       (case fire ctx (constraints ti ! i) ti of
          None \<Rightarrow> None
        | Some ((c', ti1), r) \<Rightarrow>
            Some (errors @ captured c' r, ti1\<lparr>constraints := (constraints ti1)[i := c']\<rparr>))
   \<and> (propagate_constraints ctx js errors ti = Some (errs, ti') \<and> k \<notin> set js \<longrightarrow>
        constraints ti' ! k = constraints ti ! k)
   \<and> captured c (Return ()) = []
   \<and> (is_TypingError e \<longrightarrow> captured c (Raise e) = [e])
   \<and> (\<not> is_TypingError e \<longrightarrow>
        captured c (Raise e) = [TypingError (Internal_error c e) (Some (loc c))])
   \<and> (ConstraintNetwork_propagate ctx ti = Some (errs, ti') \<longrightarrow>
        list_all is_TypingError errs \<and> length (constraints ti') = length (constraints ti))"
proof -
  have a: "propagate_constraints ctx [i] errors ti =
       (case fire ctx (constraints ti ! i) ti of
          None \<Rightarrow> None
        | Some ((c', ti1), r) \<Rightarrow>
            Some (errors @ captured c' r, ti1\<lparr>constraints := (constraints ti1)[i := c']\<rparr>))"
    by (simp split: option.splits prod.splits)
  have b: "list_all is_TypingError errs \<and> length (constraints ti') = length (constraints ti)"
    if "ConstraintNetwork_propagate ctx ti = Some (errs, ti')"
    using ConstraintNetwork_propagate_advances [OF that]
      propagate_constraints_errors [OF that [unfolded ConstraintNetwork_propagate_def]]
    by auto
  show ?thesis
    using a b propagate_constraints_append [of ctx js ks errors ti]
      propagate_constraints_untouched [of ctx js errors ti errs ti' k]
    by (simp add: ConstraintNetwork_propagate_def captured_def)
qed

lemmas example_defs = example_start_def example_end_def example_cells_def
  example_constraints_def example_errors_def

lemma n3: "[0..<3] = [0, 1, 2]"
  by (simp add: numeral_3_eq_3 upt_rec)


lemma example_first_pass:
  "ConstraintNetwork_propagate example_context example_start = Some (example_errors, example_end)"
  by (simp add: example_defs pass_defs eval_defs ExhaustIterConstraint_call_def
      numeral_3_eq_3 upt_rec)

lemma example_second_pass:
  "ConstraintNetwork_propagate example_context example_end = Some (example_errors, example_end)"
  by (simp add: example_defs pass_defs eval_defs ExhaustIterConstraint_call_def
      numeral_3_eq_3 upt_rec)

theorem ConstraintNetwork_propagate_pass_witness:
  "ConstraintNetwork_propagate example_context example_start =
     Some (example_errors, example_end)
   \<and> list_all is_TypingError example_errors
   \<and> length (constraints example_end) = length (constraints example_start)"
proof -
  let ?c0 = "Propagate ''y'' ''x'' (Loc ''f.py'' 1)"
  let ?c1 = "ExhaustIterConstraint ''t'' 2 ''u'' (Loc ''f.py'' 2)"
  let ?c2 = "PairFirstConstraint ''z'' ''p'' (Loc ''f.py'' 3)"
  let ?e0 = "TypingError (No_conversion int64 (Some (Pair_ty int32 int32)) ''y'' None)
        (Some (Loc ''f.py'' 1))"
  let ?v = "InternalError (ValueError (Wrong_tuple_length ''u'' 2 3))"
  let ?mid = "inferer (example_cells @ [(''t'', TypeVar_init ''t'')]) example_constraints"
  have f0: "fire example_context ?c0 example_start = Some ((?c0, example_start), Raise ?e0)"
    by (simp add: example_defs pass_defs eval_defs)
  have f1: "fire example_context ?c1 example_start = Some ((?c1, ?mid), Raise ?v)"
    by (simp add: example_defs pass_defs eval_defs ExhaustIterConstraint_call_def)
  have f2: "fire example_context ?c2 ?mid = Some ((?c2, example_end), Return ())"
    by (simp add: example_defs pass_defs eval_defs)
  have n: "[0..<length (constraints example_start)] = [0] @ [1] @ [2]"
    by (simp add: example_defs inferer_def numeral_3_eq_3 upt_rec)
  have cs: "constraints example_start = [?c0, ?c1, ?c2]" "constraints ?mid = [?c0, ?c1, ?c2]"
    "constraints example_end = [?c0, ?c1, ?c2]"
    by (simp_all add: example_defs inferer_def)
  have u: "example_start\<lparr>constraints := [?c0, ?c1, ?c2]\<rparr> = example_start"
    "?mid\<lparr>constraints := [?c0, ?c1, ?c2]\<rparr> = ?mid"
    "example_end\<lparr>constraints := [?c0, ?c1, ?c2]\<rparr> = example_end"
    by (simp_all add: example_defs inferer_def)
  have k0: "captured ?c0 (Raise ?e0) = [?e0]"
    using ConstraintNetwork_propagate_pass [where e = "?e0" and c = "?c0", THEN conjunct2, THEN conjunct2, THEN conjunct2, THEN conjunct2, THEN conjunct2, THEN conjunct1] by simp
  have k1: "captured ?c1 (Raise ?v) = [TypingError (Internal_error ?c1 ?v) (Some (Loc ''f.py'' 2))]"
    using ConstraintNetwork_propagate_pass [where e = "?v" and c = "?c1", THEN conjunct2, THEN conjunct2, THEN conjunct2, THEN conjunct2, THEN conjunct2, THEN conjunct2, THEN conjunct1] by simp
  have k2: "captured ?c2 (Return ()) = []"
    using ConstraintNetwork_propagate_pass [where c = "?c2", THEN conjunct2, THEN conjunct2, THEN conjunct2, THEN conjunct2, THEN conjunct1] .
  have s0: "propagate_constraints example_context [0] [] example_start =
      Some ([?e0], example_start)"
    unfolding ConstraintNetwork_propagate_pass [where ctx = example_context
        and ti = example_start and i = 0 and errors = "[]", THEN conjunct2, THEN conjunct2, THEN conjunct1]
    using f0 cs u k0 by simp
  have s1: "propagate_constraints example_context [1] [?e0] example_start =
      Some (example_errors, ?mid)"
    unfolding ConstraintNetwork_propagate_pass [where ctx = example_context
        and ti = example_start and i = 1 and errors = "[?e0]", THEN conjunct2, THEN conjunct2, THEN conjunct1]
    using f1 cs u k1 by (simp add: example_errors_def)
  have s2: "propagate_constraints example_context [2] example_errors ?mid =
      Some (example_errors, example_end)"
    unfolding ConstraintNetwork_propagate_pass [where ctx = example_context
        and ti = "?mid" and i = 2 and errors = example_errors, THEN conjunct2, THEN conjunct2, THEN conjunct1]
    using f2 cs u k2 by simp
  have s12: "propagate_constraints example_context ([1] @ [2]) [?e0] example_start =
      Some (example_errors, example_end)"
    unfolding ConstraintNetwork_propagate_pass [where ctx = example_context
        and ti = example_start and js = "[1]" and ks = "[2]" and errors = "[?e0]", THEN conjunct2, THEN conjunct1]
    using s1 s2 by simp
  have s012: "propagate_constraints example_context ([0] @ [1] @ [2]) [] example_start =
      Some (example_errors, example_end)"
    unfolding ConstraintNetwork_propagate_pass [where ctx = example_context
        and ti = example_start and js = "[0]" and ks = "[1] @ [2]" and errors = "[]", THEN conjunct2, THEN conjunct1]
    using s0 s12 by simp
  have p: "ConstraintNetwork_propagate example_context example_start =
      Some (example_errors, example_end)"
    unfolding ConstraintNetwork_propagate_pass [where ctx = example_context
        and ti = example_start, THEN conjunct1] n
    using s012 .
  with ConstraintNetwork_propagate_pass [where ctx = example_context and ti = example_start
      and errs = example_errors and ti' = example_end, THEN conjunct2, THEN conjunct2, THEN conjunct2, THEN conjunct2, THEN conjunct2, THEN conjunct2, THEN conjunct2]
  show ?thesis by simp
qed

subsection \<open>The fixed point\<close>

lemma map_insort_key: "map f (insort_key f x xs) = insort (f x) (map f xs)"
  by (induction xs) auto

lemma map_sort_key: "map f (sort_key f xs) = sort (map f xs)"
  by (induction xs) (auto simp: map_insort_key)

lemma spec_token_fst: "map fst (spec_state_token s) = sort (map fst (typevars s))"
proof -
  have "map fst (spec_state_token s) = map fst (sort_key fst (typevars s))"
    by (simp add: spec_state_token_def case_prod_beta comp_def)
  then show ?thesis by (simp add: map_sort_key)
qed

lemma spec_token_snd: "map snd (spec_state_token s) = get_state_token s"
  by (simp add: spec_state_token_def get_state_token_def case_prod_beta comp_def)

lemma tokens_agree:
  assumes "advances ctx s s'"
  shows "get_state_token s' = get_state_token s \<longleftrightarrow> spec_state_token s' = spec_state_token s"
proof
  assume "spec_state_token s' = spec_state_token s"
  then show "get_state_token s' = get_state_token s"
    by (metis spec_token_snd)
next
  assume eq: "get_state_token s' = get_state_token s"
  then have "length (typevars s') = length (typevars s)"
    by (metis length_get_state_token)
  moreover from assms obtain new where "map fst (typevars s') = map fst (typevars s) @ new"
    unfolding advances_def by blast
  ultimately have "map fst (typevars s') = map fst (typevars s)"
    by (metis append_Nil2 length_0_conv length_append length_map add_left_cancel
        add.right_neutral)
  then have "map fst (spec_state_token s') = map fst (spec_state_token s)"
    by (simp add: spec_token_fst)
  moreover have "map snd (spec_state_token s') = map snd (spec_state_token s)"
    using eq by (simp add: spec_token_snd)
  ultimately show "spec_state_token s' = spec_state_token s"
    by (metis zip_map_fst_snd)
qed

lemma propagate_loop_entered:
  "propagate_loop ctx (Some t) (get_state_token s) (Some errs) s =
     (if get_state_token s = t then
        Some (s, case errs of [] \<Rightarrow> Return () | e # _ \<Rightarrow> Raise e)
      else TypeInferer_propagate ctx s)"
  unfolding TypeInferer_propagate_def
  by (subst propagate_loop.simps, subst (2) propagate_loop.simps)
    (auto split: list.splits)

text \<open>
  C2, as the code has it. \<^verbatim>\<open>TypeInferer.propagate\<close> runs a pass and compares the state
  token after it with the token before it: when they are equal it stops, and raises the
  first error of that last pass if and only if the pass returned errors; otherwise it
  goes on from the new state as if started there, so that the errors of every earlier
  pass are dropped. The state token is the sequence of the current types of the cells in
  the order of their names; the names are not part of it. After a pass the token is
  unchanged exactly when the sequence of pairs of name and type is unchanged.
\<close>

theorem TypeInferer_propagate_fixed_point:
  "TypeInferer_propagate ctx self =
     (case ConstraintNetwork_propagate ctx self of
        None \<Rightarrow> None
      | Some (errors, self') \<Rightarrow>
          if get_state_token self' = get_state_token self then
            Some (self', case errors of [] \<Rightarrow> Return () | e # _ \<Rightarrow> Raise e)
          else TypeInferer_propagate ctx self')
   \<and> (\<exists>cells. set cells = set (typevars self) \<and> length cells = length (typevars self)
        \<and> sorted (map fst cells)
        \<and> get_state_token self = map (\<lambda>(n, tv). type tv) cells)
   \<and> (ConstraintNetwork_propagate ctx self = Some (errors, self') \<longrightarrow>
        (get_state_token self' = get_state_token self
         \<longleftrightarrow> spec_state_token self' = spec_state_token self))"
proof -
  have a: "TypeInferer_propagate ctx self =
     (case ConstraintNetwork_propagate ctx self of
        None \<Rightarrow> None
      | Some (errors, self') \<Rightarrow>
          if get_state_token self' = get_state_token self then
            Some (self', case errors of [] \<Rightarrow> Return () | e # _ \<Rightarrow> Raise e)
          else TypeInferer_propagate ctx self')"
    unfolding TypeInferer_propagate_def [of ctx self]
    by (subst propagate_loop.simps)
      (simp add: propagate_loop_entered split: option.splits prod.splits)
  have b: "\<exists>cells. set cells = set (typevars self) \<and> length cells = length (typevars self)
        \<and> sorted (map fst cells)
        \<and> get_state_token self = map (\<lambda>(n, tv). type tv) cells"
    by (rule exI [where x = "sort_key fst (typevars self)"])
      (simp add: get_state_token_def)
  have c: "get_state_token self' = get_state_token self
         \<longleftrightarrow> spec_state_token self' = spec_state_token self"
    if "ConstraintNetwork_propagate ctx self = Some (errors, self')"
  proof -
    from ConstraintNetwork_propagate_advances [OF that]
    have "advances ctx self (self'\<lparr>constraints := constraints self\<rparr>)" by simp
    from tokens_agree [OF this] show ?thesis
      by (simp add: get_state_token_def spec_state_token_def)
  qed
  show ?thesis using a b c by blast
qed

theorem TypeInferer_propagate_fixed_point_witness:
  "TypeInferer_propagate example_context example_start =
     Some (example_end, Raise (TypingError
       (No_conversion int64 (Some (Pair_ty int32 int32)) ''y'' None) (Some (Loc ''f.py'' 1))))
   \<and> get_state_token example_start =
       [Some (Pair_ty int32 float64), Some (UniTuple int64 3), Some int64,
        Some (Pair_ty int32 int32)]
   \<and> get_state_token example_end =
       [Some (Pair_ty int32 float64), None, Some (UniTuple int64 3), Some int64,
        Some (Pair_ty int32 int32), Some int32]"
proof -
  have t0: "get_state_token example_start =
       [Some (Pair_ty int32 float64), Some (UniTuple int64 3), Some int64,
        Some (Pair_ty int32 int32)]"
    by (simp add: get_state_token_def example_defs inferer_def cell_def TypeVar_init_def)
  have t1: "get_state_token example_end =
       [Some (Pair_ty int32 float64), None, Some (UniTuple int64 3), Some int64,
        Some (Pair_ty int32 int32), Some int32]"
    by (simp add: get_state_token_def example_defs inferer_def cell_def TypeVar_init_def)
  have "TypeInferer_propagate example_context example_end =
     Some (example_end, Raise (TypingError
       (No_conversion int64 (Some (Pair_ty int32 int32)) ''y'' None) (Some (Loc ''f.py'' 1))))"
    using TypeInferer_propagate_fixed_point [where ctx = example_context and self = example_end]
      example_second_pass
    by (simp add: example_errors_def)
  then have "TypeInferer_propagate example_context example_start =
     Some (example_end, Raise (TypingError
       (No_conversion int64 (Some (Pair_ty int32 int32)) ''y'' None) (Some (Loc ''f.py'' 1))))"
    using TypeInferer_propagate_fixed_point [where ctx = example_context and self = example_start]
      example_first_pass t0 t1
    by simp
  with t0 t1 show ?thesis by simp
qed

text \<open>
  The claim C2 as stated fails on the content of the token: two inferers whose
  variables differ in name only have the same token, whereas their sequences of pairs of
  name and type differ.
\<close>

theorem state_token_has_no_names_counterexample:
  "get_state_token (inferer [(''x'', cell ''x'' (Some int64) False)] []) =
     get_state_token (inferer [(''y'', cell ''y'' (Some int64) False)] [])
   \<and> spec_state_token (inferer [(''x'', cell ''x'' (Some int64) False)] []) \<noteq>
     spec_state_token (inferer [(''y'', cell ''y'' (Some int64) False)] [])"
  by (simp add: get_state_token_def spec_state_token_def inferer_def cell_def)

end
